theory Spec2Isabelle
  imports Complex_Main "HOL-Library.AList"
begin

section \<open>Python values and exceptions\<close>

text \<open>
  Python floats are modelled as real numbers, so arithmetic is exact. A value that may be
  NaN is a \<open>real option\<close> with \<open>None\<close> for NaN, and \<open>float('inf')\<close> as the
  start value of a running minimum is \<open>None\<close> as well (every real is below it).
  An exception is a value of \<open>py_error\<close>, returned as \<open>Inl\<close>.
\<close>

datatype py_error = ZeroDivisionError | ValueError | IndexError | KeyError | TypeError

section \<open>Option pricing and Greeks (greeks\_calculator.py)\<close>

text \<open>
  \<open>calculate_d1_d2\<close>: the Black-Scholes terms. The checks are the exceptions of the
  Python expression in its evaluation order: \<open>spot / strike\<close> divides by zero,
  \<open>math.log\<close> rejects a non-positive argument, \<open>math.sqrt\<close> a negative one, and the
  final quotient divides by \<open>volatility * sqrt(time_to_expiry)\<close>. The first argument is
  the instance's \<open>risk_free_rate\<close>, the last the optional parameter of the same name.
\<close>

definition calculate_d1_d2 ::
  "real \<Rightarrow> real \<Rightarrow> real \<Rightarrow> real \<Rightarrow> real \<Rightarrow> real option \<Rightarrow> py_error + (real \<times> real)" where
  "calculate_d1_d2 self_rate spot strike time_to_expiry volatility risk_free_rate =
     (let r = (case risk_free_rate of None \<Rightarrow> self_rate | Some x \<Rightarrow> x) in
      if strike = 0 then Inl ZeroDivisionError
      else if spot / strike \<le> 0 then Inl ValueError
      else if time_to_expiry < 0 then Inl ValueError
      else if volatility * sqrt time_to_expiry = 0 then Inl ZeroDivisionError
      else
        let d1 = (ln (spot / strike) + (r + 0.5 * volatility ^ 2) * time_to_expiry)
                   / (volatility * sqrt time_to_expiry);
            d2 = d1 - volatility * sqrt time_to_expiry
        in Inr (d1, d2))"

text \<open>
  \<open>calculate_option_price\<close> and \<open>calculate_delta\<close>. The standard normal distribution
  function \<open>norm.cdf\<close> comes from scipy; it is the parameter \<open>cdf\<close>.
\<close>

definition calculate_option_price ::
  "(real \<Rightarrow> real) \<Rightarrow> real \<Rightarrow> real \<Rightarrow> real \<Rightarrow> real \<Rightarrow> real \<Rightarrow> string \<Rightarrow> real option
     \<Rightarrow> py_error + real" where
  "calculate_option_price cdf self_rate spot strike time_to_expiry volatility option_type risk_free_rate =
     (let r = (case risk_free_rate of None \<Rightarrow> self_rate | Some x \<Rightarrow> x) in
      case calculate_d1_d2 self_rate spot strike time_to_expiry volatility (Some r) of
        Inl e \<Rightarrow> Inl e
      | Inr (d1, d2) \<Rightarrow>
          if option_type = ''CE''
          then Inr (spot * cdf d1 - strike * exp (- r * time_to_expiry) * cdf d2)
          else Inr (strike * exp (- r * time_to_expiry) * cdf (- d2) - spot * cdf (- d1)))"

definition calculate_delta ::
  "(real \<Rightarrow> real) \<Rightarrow> real \<Rightarrow> real \<Rightarrow> real \<Rightarrow> real \<Rightarrow> real \<Rightarrow> string \<Rightarrow> real option
     \<Rightarrow> py_error + real" where
  "calculate_delta cdf self_rate spot strike time_to_expiry volatility option_type risk_free_rate =
     (let r = (case risk_free_rate of None \<Rightarrow> self_rate | Some x \<Rightarrow> x) in
      case calculate_d1_d2 self_rate spot strike time_to_expiry volatility (Some r) of
        Inl e \<Rightarrow> Inl e
      | Inr (d1, d2) \<Rightarrow> if option_type = ''CE'' then Inr (cdf d1) else Inr (cdf d1 - 1))"

text \<open>
  \<open>find_strike_by_delta\<close>: the distance of a strike's delta from the target, and the
  linear scan. The scan state is \<open>(best_strike, best_delta, min_diff)\<close>, starting at
  \<open>(None, None, float('inf'))\<close>; an exception of \<open>calculate_delta\<close> ends the scan.
\<close>

definition delta_diff :: "string \<Rightarrow> real \<Rightarrow> real \<Rightarrow> real" where
  "delta_diff option_type target_delta delta =
     (if option_type = ''PE'' then \<bar>\<bar>delta\<bar> - \<bar>target_delta\<bar>\<bar> else \<bar>delta - target_delta\<bar>)"

definition less_min_diff :: "real \<Rightarrow> real option \<Rightarrow> bool" where
  "less_min_diff diff min_diff = (case min_diff of None \<Rightarrow> True | Some m \<Rightarrow> diff < m)"

fun find_strike_scan ::
  "(real \<Rightarrow> real) \<Rightarrow> real \<Rightarrow> real \<Rightarrow> real \<Rightarrow> real \<Rightarrow> real \<Rightarrow> string \<Rightarrow> real list
     \<Rightarrow> real option \<times> real option \<times> real option
     \<Rightarrow> py_error + (real option \<times> real option \<times> real option)" where
  "find_strike_scan cdf self_rate spot time_to_expiry volatility target_delta option_type [] st = Inr st"
| "find_strike_scan cdf self_rate spot time_to_expiry volatility target_delta option_type (strike # rest)
     (best_strike, best_delta, min_diff) =
     (case calculate_delta cdf self_rate spot strike time_to_expiry volatility option_type None of
        Inl e \<Rightarrow> Inl e
      | Inr delta \<Rightarrow>
          let diff = delta_diff option_type target_delta delta in
          if less_min_diff diff min_diff
          then find_strike_scan cdf self_rate spot time_to_expiry volatility target_delta option_type rest
                 (Some strike, Some delta, Some diff)
          else find_strike_scan cdf self_rate spot time_to_expiry volatility target_delta option_type rest
                 (best_strike, best_delta, min_diff))"

definition find_strike_by_delta ::
  "(real \<Rightarrow> real) \<Rightarrow> real \<Rightarrow> real \<Rightarrow> real \<Rightarrow> real \<Rightarrow> real \<Rightarrow> real list \<Rightarrow> string
     \<Rightarrow> py_error + (real option \<times> real option)" where
  "find_strike_by_delta cdf self_rate spot time_to_expiry volatility target_delta available_strikes option_type =
     (case find_strike_scan cdf self_rate spot time_to_expiry volatility target_delta option_type
             available_strikes (None, None, None) of
        Inl e \<Rightarrow> Inl e
      | Inr (best_strike, best_delta, min_diff) \<Rightarrow> Inr (best_strike, best_delta))"

section \<open>Volatility regime (iv\_percentile.py)\<close>

text \<open>\<open>below_count\<close> is \<open>sum(1 for iv in historical_ivs if iv < current_iv)\<close>.\<close>

fun below_count :: "real \<Rightarrow> real list \<Rightarrow> nat" where
  "below_count current_iv [] = 0"
| "below_count current_iv (iv # ivs) = (if iv < current_iv then 1 else 0) + below_count current_iv ivs"

definition calculate_iv_percentile :: "real \<Rightarrow> real list \<Rightarrow> real" where
  "calculate_iv_percentile current_iv historical_ivs =
     (if historical_ivs = [] then 50
      else (real (below_count current_iv historical_ivs) / real (length historical_ivs)) * 100)"

section \<open>Data model (covered\_call\_service.py)\<close>

text \<open>
  \<open>StrikeMethod\<close> and \<open>ExitStrategy\<close> are the enums of the source.
  \<open>UNKNOWN_METHOD\<close> stands for any value of \<open>config.strike_method\<close> that is none of the
  ten members, which \<open>_select_strike\<close> sends to its final \<open>else\<close>.
\<close>

datatype StrikeMethod =
  DELTA_30 | DELTA_40 | OTM_2PCT | OTM_5PCT | ATM | ADAPTIVE_DELTA | ATR_BASED
  | BOLLINGER_UPPER | PIVOT_R1 | PIVOT_R2 | UNKNOWN_METHOD

datatype ExitStrategy = HOLD_TO_EXPIRY | PROFIT_TARGET | STOP_LOSS | PROFIT_TARGET_AND_STOP_LOSS

text \<open>
  The exit reason tags. The source builds them as strings:
  \<open>DTE_EXIT n\<close> is \<open>"DTE_EXIT_{n}D"\<close>, \<open>TRAILING_STOP_HWM n\<close> is
  \<open>"TRAILING_STOP_{n}PCT_HWM"\<close>, \<open>PROFIT_TARGET_PCT n\<close> is \<open>"PROFIT_TARGET_{n}PCT"\<close>,
  and \<open>STOP_LOSS_X m after_adj\<close> is \<open>"STOP_LOSS_{m}X"\<close>, followed by \<open>"_AFTER_ADJ"\<close>
  when \<open>after_adj\<close> holds.
\<close>

datatype exit_reason =
  ASSIGNED | EXPIRY | DTE_EXIT int | TRAILING_STOP_HWM int | PROFIT_TARGET_PCT int
  | STOP_LOSS_X real bool | END_OF_BACKTEST

text \<open>Dates are day numbers: the price tables are daily and every timestamp is a midnight.\<close>

record BacktestConfig =
  symbols :: "string list"
  start_date :: int
  end_date :: int
  strike_method :: StrikeMethod
  exit_strategy :: ExitStrategy
  initial_capital :: real
  position_size :: int
  risk_free_rate :: real
  default_iv :: real
  profit_target_pct :: real
  stop_loss_multiple :: real
  allow_sl_adjustment :: bool
  use_trend_filter :: bool
  trend_filter_mode :: string
  use_rsi_filter :: bool
  rsi_period :: int
  rsi_min :: real
  rsi_max :: real
  atr_multiplier :: real
  use_stochastic_filter :: bool
  stochastic_k_period :: int
  stochastic_d_period :: int
  stochastic_smoothing :: int
  stochastic_overbought :: real
  use_dte_exit :: bool
  dte_exit_threshold :: int
  use_trailing_stop :: bool
  trailing_stop_activation :: real
  trailing_stop_distance :: real
  use_supertrend_filter :: bool
  supertrend_period :: int
  supertrend_multiplier :: real
  use_vwap_filter :: bool
  vwap_mode :: string
  vwap_period :: int
  use_adx_filter :: bool
  adx_period :: int
  adx_threshold :: real
  adx_require_bullish :: bool
  use_williams_filter :: bool
  williams_period :: int
  williams_overbought :: real
  williams_oversold :: real
  use_macd_filter :: bool
  macd_fast :: int
  macd_slow :: int
  macd_signal :: int
  macd_mode :: string
  use_bollinger_filter :: bool
  bollinger_period :: int
  bollinger_std :: real

text \<open>The dataclass defaults of \<open>BacktestConfig\<close>; the first five fields have none.\<close>

definition default_config ::
  "string list \<Rightarrow> int \<Rightarrow> int \<Rightarrow> StrikeMethod \<Rightarrow> ExitStrategy \<Rightarrow> BacktestConfig" where
  "default_config syms d0 d1 sm es =
     \<lparr> symbols = syms, start_date = d0, end_date = d1, strike_method = sm, exit_strategy = es,
       initial_capital = 1000000, position_size = 1, risk_free_rate = 7 / 100, default_iv = 20 / 100,
       profit_target_pct = 50, stop_loss_multiple = 2, allow_sl_adjustment = False,
       use_trend_filter = False, trend_filter_mode = ''NONE'',
       use_rsi_filter = False, rsi_period = 14, rsi_min = 40, rsi_max = 70,
       atr_multiplier = 15 / 10,
       use_stochastic_filter = False, stochastic_k_period = 14, stochastic_d_period = 3,
       stochastic_smoothing = 3, stochastic_overbought = 70,
       use_dte_exit = False, dte_exit_threshold = 7,
       use_trailing_stop = False, trailing_stop_activation = 25, trailing_stop_distance = 15,
       use_supertrend_filter = False, supertrend_period = 10, supertrend_multiplier = 3,
       use_vwap_filter = False, vwap_mode = ''ABOVE'', vwap_period = 1,
       use_adx_filter = False, adx_period = 14, adx_threshold = 25, adx_require_bullish = True,
       use_williams_filter = False, williams_period = 14, williams_overbought = - 20,
       williams_oversold = - 80,
       use_macd_filter = False, macd_fast = 12, macd_slow = 26, macd_signal = 9,
       macd_mode = ''BULLISH'',
       use_bollinger_filter = False, bollinger_period = 20, bollinger_std = 2 \<rparr>"

record Position =
  symbol :: string
  lot_size :: int
  entry_date :: int
  stock_entry_price :: real
  strike_price :: real
  premium_received :: real
  expiry_date :: int
  delta_at_entry :: real
  theta_at_entry :: real
  iv_at_entry :: real
  adjusted :: bool
  original_premium :: real
  adjustment_date :: "int option"
  adjustment_cost :: real
  profit_high_water_mark :: real
  trailing_stop_active :: bool

text \<open>\<open>Position(...)\<close> with the seven required fields; the others take the dataclass defaults.\<close>

definition new_position ::
  "string \<Rightarrow> int \<Rightarrow> int \<Rightarrow> real \<Rightarrow> real \<Rightarrow> real \<Rightarrow> int \<Rightarrow> Position" where
  "new_position sname lots entered stock_price strike premium expiry =
     \<lparr> symbol = sname, lot_size = lots, entry_date = entered, stock_entry_price = stock_price,
       strike_price = strike, premium_received = premium, expiry_date = expiry,
       delta_at_entry = 0, theta_at_entry = 0, iv_at_entry = 0,
       adjusted = False, original_premium = 0, adjustment_date = None, adjustment_cost = 0,
       profit_high_water_mark = 0, trailing_stop_active = False \<rparr>"

text \<open>The fields of \<open>Trade\<close> carry the prefix \<open>t_\<close>, since many share a name with \<open>Position\<close>.\<close>

record Trade =
  t_symbol :: string
  t_lot_size :: int
  t_entry_date :: int
  t_stock_entry_price :: real
  t_strike_price :: real
  t_premium_received :: real
  t_expiry_date :: int
  t_exit_date :: int
  t_stock_exit_price :: real
  t_option_exit_price :: real
  t_exit_reason :: exit_reason
  t_stock_pnl :: real
  t_option_pnl :: real
  t_total_pnl :: real
  t_return_pct :: real
  t_delta_at_entry :: real
  t_theta_at_entry :: real
  t_iv_at_entry :: real
  t_strike_method :: StrikeMethod
  t_exit_strategy :: ExitStrategy

text \<open>One row of a price table (a pandas DataFrame indexed by date, in date order).\<close>

record bar =
  bar_date :: int
  bar_open :: real
  bar_high :: real
  bar_low :: real
  bar_close :: real
  bar_volume :: real

type_synonym stock_data = "string \<rightharpoonup> bar list"

text \<open>
  The mutable state of \<open>CoveredCallEngine\<close>. \<open>positions\<close> is a Python dict, which keeps
  insertion order: an association list with one entry per symbol.
\<close>

record engine =
  positions :: "(string \<times> Position) list"
  trades :: "Trade list"
  cash :: real

section \<open>Closing and settling positions\<close>

text \<open>
  \<open>_get_price\<close>: the close of the row dated \<open>date\<close> when the table has one, otherwise
  the close of the last row dated before it; \<open>None\<close> for an unknown symbol or when no
  row is that early.
\<close>

definition get_price :: "string \<Rightarrow> int \<Rightarrow> stock_data \<Rightarrow> real option" where
  "get_price sname d data =
     (case data sname of
        None \<Rightarrow> None
      | Some df \<Rightarrow>
          (case filter (\<lambda>b. bar_date b = d) df of
             b # _ \<Rightarrow> Some (bar_close b)
           | [] \<Rightarrow>
               (case filter (\<lambda>b. bar_date b \<le> d) df of
                  [] \<Rightarrow> None
                | b # bs \<Rightarrow> Some (bar_close (last (b # bs))))))"

text \<open>
  \<open>_close_position\<close>: \<open>self.positions.pop(symbol)\<close> raises \<open>KeyError\<close> for a symbol
  without a position. \<open>make_trade\<close> is the P&L computation and the \<open>Trade(...)\<close> record
  built from the popped position. The trade is appended and the cash credited: the strike
  times the lot size when the reason is \<open>ASSIGNED\<close>, otherwise the stock exit price times
  the lot size less the option exit price times the lot size.
\<close>

definition make_trade ::
  "BacktestConfig \<Rightarrow> string \<Rightarrow> Position \<Rightarrow> int \<Rightarrow> real \<Rightarrow> real \<Rightarrow> exit_reason \<Rightarrow> Trade" where
  "make_trade cfg sname position exit_date stock_exit_price option_exit_price reason =
     (let stock_pnl = (stock_exit_price - stock_entry_price position) * real_of_int (lot_size position);
          option_pnl = (premium_received position - option_exit_price) * real_of_int (lot_size position);
          total_pnl = stock_pnl + option_pnl;
          initial_investment = stock_entry_price position * real_of_int (lot_size position);
          return_pct = (if initial_investment > 0 then (total_pnl / initial_investment) * 100 else 0)
      in \<lparr> t_symbol = sname,
           t_lot_size = lot_size position,
           t_entry_date = entry_date position,
           t_stock_entry_price = stock_entry_price position,
           t_strike_price = strike_price position,
           t_premium_received = premium_received position,
           t_expiry_date = expiry_date position,
           t_exit_date = exit_date,
           t_stock_exit_price = stock_exit_price,
           t_option_exit_price = option_exit_price,
           t_exit_reason = reason,
           t_stock_pnl = stock_pnl,
           t_option_pnl = option_pnl,
           t_total_pnl = total_pnl,
           t_return_pct = return_pct,
           t_delta_at_entry = delta_at_entry position,
           t_theta_at_entry = theta_at_entry position,
           t_iv_at_entry = iv_at_entry position,
           t_strike_method = strike_method cfg,
           t_exit_strategy = exit_strategy cfg \<rparr>)"

definition close_position ::
  "BacktestConfig \<Rightarrow> engine \<Rightarrow> string \<Rightarrow> int \<Rightarrow> real \<Rightarrow> real \<Rightarrow> exit_reason \<Rightarrow> py_error + engine" where
  "close_position cfg e sname exit_date stock_exit_price option_exit_price reason =
     (case map_of (positions e) sname of
        None \<Rightarrow> Inl KeyError
      | Some position \<Rightarrow>
          let trade = make_trade cfg sname position exit_date stock_exit_price option_exit_price reason
          in Inr (e\<lparr> positions := AList.delete sname (positions e),
                     trades := trades e @ [trade],
                     cash := (if reason = ASSIGNED
                              then cash e + strike_price position * real_of_int (lot_size position)
                              else cash e + stock_exit_price * real_of_int (lot_size position)
                                     - option_exit_price * real_of_int (lot_size position)) \<rparr>))"

text \<open>
  \<open>_handle_expiry\<close>: \<open>self.positions[symbol]\<close> raises \<open>KeyError\<close> for a symbol without
  a position; a missing price is replaced by the stock entry price
  (\<open>expiry_stock_price\<close> is the local \<open>stock_price\<close>).
\<close>

definition expiry_stock_price :: "string \<Rightarrow> Position \<Rightarrow> int \<Rightarrow> stock_data \<Rightarrow> real" where
  "expiry_stock_price sname position current_date data =
     (case get_price sname current_date data of
        None \<Rightarrow> stock_entry_price position
      | Some p \<Rightarrow> p)"

definition handle_expiry ::
  "BacktestConfig \<Rightarrow> engine \<Rightarrow> string \<Rightarrow> int \<Rightarrow> stock_data \<Rightarrow> py_error + engine" where
  "handle_expiry cfg e sname current_date data =
     (case map_of (positions e) sname of
        None \<Rightarrow> Inl KeyError
      | Some position \<Rightarrow>
          let stock_price = expiry_stock_price sname position current_date data
          in if stock_price \<ge> strike_price position
             then close_position cfg e sname current_date (strike_price position) 0 ASSIGNED
             else close_position cfg e sname current_date stock_price 0 EXPIRY)"

text \<open>
  \<open>_check_expiries\<close>: the symbols whose expiry date has been reached are collected first,
  in dict order, and then settled one after the other.
\<close>

fun handle_expiries ::
  "BacktestConfig \<Rightarrow> engine \<Rightarrow> string list \<Rightarrow> int \<Rightarrow> stock_data \<Rightarrow> py_error + engine" where
  "handle_expiries cfg e [] current_date data = Inr e"
| "handle_expiries cfg e (sname # rest) current_date data =
     (case handle_expiry cfg e sname current_date data of
        Inl err \<Rightarrow> Inl err
      | Inr e' \<Rightarrow> handle_expiries cfg e' rest current_date data)"

definition expired_symbols :: "engine \<Rightarrow> int \<Rightarrow> string list" where
  "expired_symbols e current_date =
     map fst (filter (\<lambda>(sname, position). current_date \<ge> expiry_date position) (positions e))"

definition check_expiries ::
  "BacktestConfig \<Rightarrow> engine \<Rightarrow> int \<Rightarrow> stock_data \<Rightarrow> py_error + engine" where
  "check_expiries cfg e current_date data =
     handle_expiries cfg e (expired_symbols e current_date) current_date data"

section \<open>The strike ladder\<close>

text \<open>
  Python's \<open>round\<close> of a float to an integer rounds halves to the even neighbour.
  \<open>py_int\<close> is \<open>int(x)\<close>, which truncates towards zero.
\<close>

definition py_round :: "real \<Rightarrow> int" where
  "py_round x =
     (let f = \<lfloor>x\<rfloor>; r = x - of_int f in
      if r < 1 / 2 then f
      else if r > 1 / 2 then f + 1
      else if even f then f else f + 1)"

definition py_int :: "real \<Rightarrow> int" where
  "py_int x = (if x \<ge> 0 then \<lfloor>x\<rfloor> else \<lceil>x\<rceil>)"

definition get_strike_interval :: "real \<Rightarrow> real" where
  "get_strike_interval stock_price =
     (if stock_price < 100 then 2.5
      else if stock_price < 500 then 5
      else if stock_price < 1000 then 10
      else if stock_price < 2500 then 25
      else if stock_price < 5000 then 50
      else 100)"

text \<open>
  \<open>_generate_strikes\<close>. The \<open>while\<close> loop appends \<open>current\<close> and adds the interval
  until \<open>current\<close> exceeds \<open>end\<close> (here \<open>stop\<close>); with a negative interval it need not
  end, so the loop is a partial function and \<open>None\<close> is the run that never returns.
  A zero interval raises \<open>ZeroDivisionError\<close> at the first division.
\<close>

partial_function (option) generate_strikes_loop ::
  "real \<Rightarrow> real \<Rightarrow> real \<Rightarrow> real list \<Rightarrow> real list option" where
  "generate_strikes_loop interval stop current strikes =
     (if current \<le> stop
      then generate_strikes_loop interval stop (current + interval) (strikes @ [current])
      else Some strikes)"

definition generate_strikes :: "real \<Rightarrow> real \<Rightarrow> (py_error + real list) option" where
  "generate_strikes stock_price interval =
     (if interval = 0 then Some (Inl ZeroDivisionError)
      else
        let start = real_of_int (py_round ((stock_price * 0.9) / interval)) * interval;
            stop = real_of_int (py_round ((stock_price * 1.2) / interval)) * interval
        in map_option Inr (generate_strikes_loop interval stop start []))"

text \<open>
  \<open>max(xs)\<close>, \<open>min(xs)\<close> and \<open>min(xs, key=f)\<close>: \<open>ValueError\<close> on an empty list;
  otherwise a left-to-right scan that replaces the running best only by a strictly better
  element, so the first best element is returned.
\<close>

definition py_max :: "real list \<Rightarrow> py_error + real" where
  "py_max xs = (case xs of [] \<Rightarrow> Inl ValueError
                | x # rest \<Rightarrow> Inr (fold (\<lambda>y best. if y > best then y else best) rest x))"

definition py_min :: "real list \<Rightarrow> py_error + real" where
  "py_min xs = (case xs of [] \<Rightarrow> Inl ValueError
                | x # rest \<Rightarrow> Inr (fold (\<lambda>y best. if y < best then y else best) rest x))"

definition py_min_key :: "(real \<Rightarrow> real) \<Rightarrow> real list \<Rightarrow> py_error + real" where
  "py_min_key f xs = (case xs of [] \<Rightarrow> Inl ValueError
                      | x # rest \<Rightarrow> Inr (fold (\<lambda>y best. if f y < f best then y else best) rest x))"

section \<open>Early exits and the roll-up adjustment\<close>

text \<open>
  The entries of \<open>symbols_to_close\<close> are \<open>(symbol, stock_price, option_price, reason)\<close>,
  those of \<open>symbols_to_adjust\<close> are
  \<open>(symbol, stock_price, buyback_price, premium_lost, time_to_expiry, iv)\<close>.
\<close>

type_synonym close_item = "string \<times> real \<times> real \<times> exit_reason"
type_synonym adjust_item = "string \<times> real \<times> real \<times> real \<times> real \<times> real"

text \<open>
  \<open>early_exit_step\<close> is the body of the \<open>for\<close> loop of \<open>_check_early_exits\<close> for one
  \<open>(symbol, position)\<close>: it returns the position (whose trailing-stop fields the body
  updates in place) and the two lists, each \<open>continue\<close> being a return. The pricing call
  can raise, which ends the whole run.
\<close>

definition early_exit_step ::
  "(real \<Rightarrow> real) \<Rightarrow> BacktestConfig \<Rightarrow> stock_data \<Rightarrow> int \<Rightarrow> string \<Rightarrow> Position
     \<Rightarrow> close_item list \<times> adjust_item list
     \<Rightarrow> py_error + (Position \<times> close_item list \<times> adjust_item list)" where
  "early_exit_step cdf cfg data current_date sname position queues =
     (let symbols_to_close = fst queues;
          symbols_to_adjust = snd queues;
          check_profit_target = (exit_strategy cfg = PROFIT_TARGET
                                   \<or> exit_strategy cfg = PROFIT_TARGET_AND_STOP_LOSS);
          check_stop_loss = (exit_strategy cfg = STOP_LOSS
                               \<or> exit_strategy cfg = PROFIT_TARGET_AND_STOP_LOSS)
      in
      case get_price sname current_date data of
        None \<Rightarrow> Inr (position, symbols_to_close, symbols_to_adjust)
      | Some stock_price \<Rightarrow>
          let dte = expiry_date position - current_date in
          if dte \<le> 0 then Inr (position, symbols_to_close, symbols_to_adjust)
          else
            let iv = iv_at_entry position;
                time_to_expiry = real_of_int dte / 365
            in
            case calculate_option_price cdf (risk_free_rate cfg) stock_price (strike_price position)
                   time_to_expiry iv ''CE'' None of
              Inl err \<Rightarrow> Inl err
            | Inr current_option_price \<Rightarrow>
                let option_pnl = premium_received position - current_option_price;
                    max_profit = premium_received position;
                    profit_pct = (if max_profit > 0 then (option_pnl / max_profit) * 100 else 0)
                in
                if use_dte_exit cfg \<and> dte \<le> dte_exit_threshold cfg
                then Inr (position,
                          symbols_to_close @ [(sname, stock_price, current_option_price, DTE_EXIT dte)],
                          symbols_to_adjust)
                else
                  let position1 =
                        (if use_trailing_stop cfg \<and> profit_pct > profit_high_water_mark position
                         then position\<lparr> profit_high_water_mark := profit_pct \<rparr>
                         else position);
                      position2 =
                        (if use_trailing_stop cfg \<and> \<not> trailing_stop_active position1
                              \<and> profit_pct \<ge> trailing_stop_activation cfg
                         then position1\<lparr> trailing_stop_active := True \<rparr>
                         else position1)
                  in
                  if use_trailing_stop cfg \<and> trailing_stop_active position2
                       \<and> profit_high_water_mark position2 - profit_pct \<ge> trailing_stop_distance cfg
                  then Inr (position2,
                            symbols_to_close @
                              [(sname, stock_price, current_option_price,
                                TRAILING_STOP_HWM (py_int (profit_high_water_mark position2)))],
                            symbols_to_adjust)
                  else if check_profit_target
                            \<and> option_pnl \<ge> max_profit * (profit_target_pct cfg / 100)
                  then Inr (position2,
                            symbols_to_close @
                              [(sname, stock_price, current_option_price,
                                PROFIT_TARGET_PCT (py_int (profit_target_pct cfg)))],
                            symbols_to_adjust)
                  else if check_stop_loss
                            \<and> option_pnl \<le> - stop_loss_multiple cfg * premium_received position2
                  then
                    (if allow_sl_adjustment cfg \<and> \<not> adjusted position2
                     then Inr (position2, symbols_to_close,
                               symbols_to_adjust @
                                 [(sname, stock_price, current_option_price, \<bar>option_pnl\<bar>,
                                   time_to_expiry, iv)])
                     else Inr (position2,
                               symbols_to_close @
                                 [(sname, stock_price, current_option_price,
                                   STOP_LOSS_X (stop_loss_multiple cfg) (adjusted position2))],
                               symbols_to_adjust))
                  else Inr (position2, symbols_to_close, symbols_to_adjust))"

fun early_exit_scan ::
  "(real \<Rightarrow> real) \<Rightarrow> BacktestConfig \<Rightarrow> stock_data \<Rightarrow> int \<Rightarrow> (string \<times> Position) list
     \<Rightarrow> close_item list \<times> adjust_item list
     \<Rightarrow> py_error + ((string \<times> Position) list \<times> close_item list \<times> adjust_item list)" where
  "early_exit_scan cdf cfg data current_date [] queues = Inr ([], queues)"
| "early_exit_scan cdf cfg data current_date ((sname, position) # rest) queues =
     (case early_exit_step cdf cfg data current_date sname position queues of
        Inl err \<Rightarrow> Inl err
      | Inr (position', queues') \<Rightarrow>
          (case early_exit_scan cdf cfg data current_date rest queues' of
             Inl err \<Rightarrow> Inl err
           | Inr (rest', queues'') \<Rightarrow> Inr ((sname, position') # rest', queues'')))"

text \<open>
  The new strike of \<open>_adjust_position\<close>: the lowest ladder strike at or above
  \<open>min_new_strike\<close>, or the highest ladder strike when there is none. \<open>max\<close> raises
  \<open>ValueError\<close> on an empty ladder, and \<open>premium_lost / stock_price\<close> divides by zero
  when the price is 0.
\<close>

definition adjust_new_strike :: "Position \<Rightarrow> real \<Rightarrow> real \<Rightarrow> (py_error + real) option" where
  "adjust_new_strike position stock_price premium_lost =
     (if stock_price = 0 then Some (Inl ZeroDivisionError)
      else
        let otm_increase = premium_lost / stock_price;
            strike_interval = get_strike_interval stock_price
        in
        case generate_strikes stock_price strike_interval of
          None \<Rightarrow> None
        | Some (Inl err) \<Rightarrow> Some (Inl err)
        | Some (Inr strikes) \<Rightarrow>
            let min_new_strike = strike_price position + (otm_increase * stock_price);
                valid_strikes = filter (\<lambda>s. s \<ge> min_new_strike) strikes
            in if valid_strikes = [] then Some (py_max strikes) else Some (py_min valid_strikes))"

text \<open>
  \<open>_adjust_position\<close>: \<open>self.positions[symbol]\<close> raises \<open>KeyError\<close> for a symbol
  without a position. The position object is updated in place, so it keeps its place in
  the dict.
\<close>

definition adjust_position ::
  "(real \<Rightarrow> real) \<Rightarrow> BacktestConfig \<Rightarrow> engine \<Rightarrow> string \<Rightarrow> int \<Rightarrow> real \<Rightarrow> real \<Rightarrow> real \<Rightarrow> real \<Rightarrow> real
     \<Rightarrow> (py_error + engine) option" where
  "adjust_position cdf cfg e sname current_date stock_price buyback_price premium_lost time_to_expiry iv =
     (case map_of (positions e) sname of
        None \<Rightarrow> Some (Inl KeyError)
      | Some position0 \<Rightarrow>
          let position = (if original_premium position0 = 0
                          then position0\<lparr> original_premium := premium_received position0 \<rparr>
                          else position0)
          in
          case adjust_new_strike position stock_price premium_lost of
            None \<Rightarrow> None
          | Some (Inl err) \<Rightarrow> Some (Inl err)
          | Some (Inr new_strike) \<Rightarrow>
              (case calculate_option_price cdf (risk_free_rate cfg) stock_price new_strike
                      time_to_expiry iv ''CE'' None of
                 Inl err \<Rightarrow> Some (Inl err)
               | Inr new_premium \<Rightarrow>
                   (case calculate_delta cdf (risk_free_rate cfg) stock_price new_strike
                           time_to_expiry iv ''CE'' None of
                      Inl err \<Rightarrow> Some (Inl err)
                    | Inr new_delta \<Rightarrow>
                        Some (Inr (e\<lparr>
                          cash := cash e - buyback_price * real_of_int (lot_size position)
                                    + new_premium * real_of_int (lot_size position),
                          positions := AList.update sname
                            (position\<lparr> adjustment_date := Some current_date,
                                       adjustment_cost := buyback_price,
                                       strike_price := new_strike,
                                       premium_received := new_premium,
                                       delta_at_entry := new_delta,
                                       adjusted := True \<rparr>)
                            (positions e) \<rparr>)))))"

text \<open>
  \<open>_check_early_exits\<close>: the scan over the open positions, then the adjustments, then the
  closes.
\<close>

fun adjust_all ::
  "(real \<Rightarrow> real) \<Rightarrow> BacktestConfig \<Rightarrow> engine \<Rightarrow> int \<Rightarrow> adjust_item list \<Rightarrow> (py_error + engine) option" where
  "adjust_all cdf cfg e current_date [] = Some (Inr e)"
| "adjust_all cdf cfg e current_date ((sname, stock_price, buyback_price, premium_lost, tte, iv) # rest) =
     (case adjust_position cdf cfg e sname current_date stock_price buyback_price premium_lost tte iv of
        None \<Rightarrow> None
      | Some (Inl err) \<Rightarrow> Some (Inl err)
      | Some (Inr e') \<Rightarrow> adjust_all cdf cfg e' current_date rest)"

fun close_all :: "BacktestConfig \<Rightarrow> engine \<Rightarrow> int \<Rightarrow> close_item list \<Rightarrow> py_error + engine" where
  "close_all cfg e current_date [] = Inr e"
| "close_all cfg e current_date ((sname, stock_price, option_price, reason) # rest) =
     (case close_position cfg e sname current_date stock_price option_price reason of
        Inl err \<Rightarrow> Inl err
      | Inr e' \<Rightarrow> close_all cfg e' current_date rest)"

definition check_early_exits ::
  "(real \<Rightarrow> real) \<Rightarrow> BacktestConfig \<Rightarrow> engine \<Rightarrow> int \<Rightarrow> stock_data \<Rightarrow> (py_error + engine) option" where
  "check_early_exits cdf cfg e current_date data =
     (case early_exit_scan cdf cfg data current_date (positions e) ([], []) of
        Inl err \<Rightarrow> Some (Inl err)
      | Inr (positions', symbols_to_close, symbols_to_adjust) \<Rightarrow>
          (case adjust_all cdf cfg (e\<lparr> positions := positions' \<rparr>) current_date symbols_to_adjust of
             None \<Rightarrow> None
           | Some (Inl err) \<Rightarrow> Some (Inl err)
           | Some (Inr e') \<Rightarrow> Some (close_all cfg e' current_date symbols_to_close)))"

section \<open>Indicators used for strike selection\<close>

text \<open>
  \<open>df.loc[df.index <= current_date]\<close> and \<open>.tail(n)\<close> for a natural number \<open>n\<close>.
\<close>

definition up_to_date :: "bar list \<Rightarrow> int \<Rightarrow> bar list" where
  "up_to_date df current_date = filter (\<lambda>b. bar_date b \<le> current_date) df"

definition tail :: "nat \<Rightarrow> 'a list \<Rightarrow> 'a list" where
  "tail n xs = drop (length xs - n) xs"

definition mean :: "real list \<Rightarrow> real" where
  "mean xs = sum_list xs / real (length xs)"

text \<open>
  \<open>_calculate_atr\<close> with its default \<open>period = 14\<close>, which its only caller uses. The true
  range of a row is the largest of high minus low and the distances of high and low from the
  previous close; the first of the fifteen rows has no previous close and is not averaged.
\<close>

fun true_ranges :: "bar \<Rightarrow> bar list \<Rightarrow> real list" where
  "true_ranges prev [] = []"
| "true_ranges prev (b # bs) =
     max (bar_high b - bar_low b)
         (max \<bar>bar_high b - bar_close prev\<bar> \<bar>bar_low b - bar_close prev\<bar>)
       # true_ranges b bs"

definition calculate_atr :: "string \<Rightarrow> int \<Rightarrow> stock_data \<Rightarrow> real" where
  "calculate_atr sname current_date data =
     (case data sname of
        None \<Rightarrow> 0
      | Some df \<Rightarrow>
          let historical_data = tail (14 + 1) (up_to_date df current_date) in
          if length historical_data < 14 + 1
          then (if length historical_data > 0
                then mean (map bar_close historical_data) * 0.02
                else 0)
          else mean (tail 14 (true_ranges (hd historical_data) (tl historical_data))))"

text \<open>
  \<open>_calculate_pivot_points\<close>. The result is the empty dict (\<open>None\<close>) or a dict with all
  seven levels. Of the last two rows up to the current date the function takes the earlier
  one, and the only row when there is just one.
\<close>

record pivots =
  pivot :: real
  r1 :: real
  r2 :: real
  r3 :: real
  s1 :: real
  s2 :: real
  s3 :: real

definition pivot_levels :: "bar \<Rightarrow> pivots" where
  "pivot_levels prev_day =
     (let high = bar_high prev_day; low = bar_low prev_day; close = bar_close prev_day;
          pivot = (high + low + close) / 3
      in \<lparr> pivot = pivot,
           r1 = (2 * pivot) - low,
           r2 = pivot + (high - low),
           r3 = high + 2 * (pivot - low),
           s1 = (2 * pivot) - high,
           s2 = pivot - (high - low),
           s3 = low - 2 * (high - pivot) \<rparr>)"

definition calculate_pivot_points :: "string \<Rightarrow> int \<Rightarrow> stock_data \<Rightarrow> pivots option" where
  "calculate_pivot_points sname current_date data =
     (case data sname of
        None \<Rightarrow> None
      | Some df \<Rightarrow>
          let historical_data = tail 2 (up_to_date df current_date) in
          if length historical_data < 1 then None
          else
            let prev_day = (if length historical_data \<ge> 2
                            then historical_data ! (length historical_data - 2)
                            else historical_data ! (length historical_data - 1))
            in Some (pivot_levels prev_day))"

text \<open>
  The indicator series built on pandas rolling windows are parameters of the model: a
  series is a list of \<open>real option\<close> with \<open>None\<close> for NaN, one entry per row, and a
  calculation may raise. \<open>series_last\<close> is \<open>.iloc[-1]\<close> and \<open>series_prev\<close> is
  \<open>.iloc[-2]\<close>, which raise \<open>IndexError\<close> on a series that is too short.
\<close>

type_synonym series = "real option list"

record indicator_lib =
  lib_rsi :: "real list \<Rightarrow> int \<Rightarrow> py_error + series"
  lib_stochastic :: "bar list \<Rightarrow> int \<Rightarrow> int \<Rightarrow> int \<Rightarrow> py_error + (series \<times> series)"
  lib_supertrend :: "bar list \<Rightarrow> int \<Rightarrow> real \<Rightarrow> py_error + (series \<times> series)"
  lib_bollinger_bands :: "bar list \<Rightarrow> int \<Rightarrow> real \<Rightarrow> py_error + (series \<times> series \<times> series)"
  lib_vwap :: "bar list \<Rightarrow> int \<Rightarrow> py_error + series"
  lib_adx :: "bar list \<Rightarrow> int \<Rightarrow> py_error + (series \<times> series \<times> series)"
  lib_williams_r :: "bar list \<Rightarrow> int \<Rightarrow> py_error + series"

definition series_last :: "'a list \<Rightarrow> py_error + 'a" where
  "series_last xs = (if xs = [] then Inl IndexError else Inr (last xs))"

definition series_prev :: "'a list \<Rightarrow> py_error + 'a" where
  "series_prev xs = (if length xs < 2 then Inl IndexError else Inr (xs ! (length xs - 2)))"

section \<open>Strike selection\<close>

text \<open>
  \<open>IVMetrics\<close>, of which \<open>_select_strike\<close> reads the target delta only.
\<close>

record IVMetrics =
  current_iv :: real
  iv_percentile :: real
  iv_rank :: real
  target_delta :: real
  target_otm_pct :: real

text \<open>
  \<open>nearest_strike strikes target\<close> is \<open>min(strikes, key=lambda x: abs(x - target))\<close>, and
  \<open>delta_strike\<close> is the call of \<open>find_strike_by_delta\<close> followed by
  \<open>strike, _ = ...; return strike\<close>.
\<close>

definition nearest_strike :: "real list \<Rightarrow> real \<Rightarrow> py_error + real" where
  "nearest_strike strikes target = py_min_key (\<lambda>x. \<bar>x - target\<bar>) strikes"

definition delta_strike ::
  "(real \<Rightarrow> real) \<Rightarrow> BacktestConfig \<Rightarrow> real \<Rightarrow> real \<Rightarrow> real \<Rightarrow> real \<Rightarrow> real list
     \<Rightarrow> py_error + real option" where
  "delta_strike cdf cfg stock_price time_to_expiry iv target strikes =
     (case find_strike_by_delta cdf (risk_free_rate cfg) stock_price time_to_expiry iv target strikes ''CE'' of
        Inl err \<Rightarrow> Inl err
      | Inr (strike, delta) \<Rightarrow> Inr strike)"

text \<open>
  \<open>_select_strike\<close>, given the ladder. A result \<open>Inr None\<close> is the Python \<open>None\<close>
  that \<open>find_strike_by_delta\<close> hands back for an empty ladder.
\<close>

definition select_from_ladder ::
  "(real \<Rightarrow> real) \<Rightarrow> indicator_lib \<Rightarrow> BacktestConfig \<Rightarrow> string \<Rightarrow> real \<Rightarrow> real \<Rightarrow> real
     \<Rightarrow> IVMetrics option \<Rightarrow> int \<Rightarrow> stock_data \<Rightarrow> real list \<Rightarrow> py_error + real option" where
  "select_from_ladder cdf lib cfg sname stock_price time_to_expiry iv iv_metrics current_date data strikes =
     (let method = strike_method cfg in
      if method = ATR_BASED then
        (let atr = calculate_atr sname current_date data;
             target = stock_price + (atr * atr_multiplier cfg)
         in map_sum id Some (nearest_strike strikes target))
      else if method = ADAPTIVE_DELTA then
        (let target = (case iv_metrics of Some m \<Rightarrow> target_delta m | None \<Rightarrow> 0.30)
         in delta_strike cdf cfg stock_price time_to_expiry iv target strikes)
      else if method = DELTA_30 then
        delta_strike cdf cfg stock_price time_to_expiry iv 0.30 strikes
      else if method = DELTA_40 then
        delta_strike cdf cfg stock_price time_to_expiry iv 0.40 strikes
      else if method = OTM_2PCT then
        map_sum id Some (nearest_strike strikes (stock_price * 1.02))
      else if method = OTM_5PCT then
        map_sum id Some (nearest_strike strikes (stock_price * 1.05))
      else if method = ATM then
        map_sum id Some (nearest_strike strikes stock_price)
      else if method = PIVOT_R1 then
        (case calculate_pivot_points sname current_date data of
           Some pv \<Rightarrow>
             let target = (if r1 pv \<le> stock_price then stock_price * 1.02 else r1 pv)
             in map_sum id Some (nearest_strike strikes target)
         | None \<Rightarrow> map_sum id Some (nearest_strike strikes (stock_price * 1.02)))
      else if method = PIVOT_R2 then
        (case calculate_pivot_points sname current_date data of
           Some pv \<Rightarrow>
             let target = (if r2 pv \<le> stock_price then stock_price * 1.05 else r2 pv)
             in map_sum id Some (nearest_strike strikes target)
         | None \<Rightarrow> map_sum id Some (nearest_strike strikes (stock_price * 1.05)))
      else if method = BOLLINGER_UPPER then
        (let fallback = map_sum id Some (nearest_strike strikes (stock_price * 1.02)) in
         case data sname of
           None \<Rightarrow> fallback
         | Some df \<Rightarrow>
             let historical_data = up_to_date df current_date in
             if int (length historical_data) \<ge> bollinger_period cfg + 5
             then
               (case lib_bollinger_bands lib historical_data (bollinger_period cfg) (bollinger_std cfg) of
                  Inl err \<Rightarrow> Inl err
                | Inr (upper_band, middle_band, lower_band) \<Rightarrow>
                    (case series_last upper_band of
                       Inl err \<Rightarrow> Inl err
                     | Inr current_upper \<Rightarrow>
                         (case series_last middle_band of
                            Inl err \<Rightarrow> Inl err
                          | Inr current_middle \<Rightarrow>
                              (case current_upper of
                                 Some u \<Rightarrow>
                                   if u > stock_price
                                   then map_sum id Some (nearest_strike strikes u)
                                   else fallback
                               | None \<Rightarrow> fallback))))
             else fallback)
      else
        map_sum id Some (nearest_strike strikes (stock_price * 1.02)))"

definition select_strike ::
  "(real \<Rightarrow> real) \<Rightarrow> indicator_lib \<Rightarrow> BacktestConfig \<Rightarrow> string \<Rightarrow> real \<Rightarrow> real \<Rightarrow> real
     \<Rightarrow> IVMetrics option \<Rightarrow> int \<Rightarrow> stock_data \<Rightarrow> (py_error + real option) option" where
  "select_strike cdf lib cfg sname stock_price time_to_expiry iv iv_metrics current_date data =
     (let strike_interval = get_strike_interval stock_price in
      case generate_strikes stock_price strike_interval of
        None \<Rightarrow> None
      | Some (Inl err) \<Rightarrow> Some (Inl err)
      | Some (Inr strikes) \<Rightarrow>
          Some (select_from_ladder cdf lib cfg sname stock_price time_to_expiry iv iv_metrics
                  current_date data strikes))"

section \<open>Entry filters\<close>

text \<open>
  \<open>close.ewm(span=span, adjust=False).mean()\<close> on a series without NaN: the first value is
  the first price and each further value is \<open>(1 - alpha) * previous + alpha * price\<close> with
  \<open>alpha = 2 / (span + 1)\<close>. The result has no NaN.
\<close>

fun ewm_from :: "real \<Rightarrow> real \<Rightarrow> real list \<Rightarrow> real list" where
  "ewm_from alpha prev [] = []"
| "ewm_from alpha prev (x # xs) =
     (let y = (1 - alpha) * prev + alpha * x in y # ewm_from alpha y xs)"

definition ewm_mean :: "real \<Rightarrow> real list \<Rightarrow> real list" where
  "ewm_mean span_len xs = (case xs of [] \<Rightarrow> [] | x # rest \<Rightarrow> x # ewm_from (2 / (span_len + 1)) x rest)"

text \<open>
  \<open>_check_multi_timeframe_trend_filter\<close>. The three EMAs are taken at the last row; the
  history has at least 50 rows where they are read, so \<open>.iloc[-1]\<close> cannot fail.
\<close>

definition check_multi_timeframe_trend_filter ::
  "BacktestConfig \<Rightarrow> string \<Rightarrow> int \<Rightarrow> stock_data \<Rightarrow> bool" where
  "check_multi_timeframe_trend_filter cfg sname current_date data =
     (let mode = (if trend_filter_mode cfg = ''NONE'' \<and> use_trend_filter cfg
                  then ''BEARISH'' else trend_filter_mode cfg)
      in
      if mode = ''NONE'' then True
      else
        case data sname of
          None \<Rightarrow> True
        | Some df \<Rightarrow>
            let historical_data = up_to_date df current_date;
                close_prices = map bar_close historical_data;
                long_mode = (mode = ''GOLDEN_CROSS'' \<or> mode = ''DEATH_CROSS'' \<or> mode = ''BULLISH_ALIGNED'')
            in
            if long_mode \<and> length historical_data < 200 then True
            else if length historical_data < 50 then True
            else
              let ema_200 = last (ewm_mean 200 close_prices);
                  ema_20 = last (ewm_mean 20 close_prices);
                  ema_50 = last (ewm_mean 50 close_prices)
              in
              if mode = ''BEARISH'' then ema_20 < ema_50
              else if mode = ''BULLISH'' then ema_20 > ema_50
              else if mode = ''GOLDEN_CROSS'' then ema_50 > ema_200
              else if mode = ''DEATH_CROSS'' then ema_50 < ema_200
              else if mode = ''BULLISH_ALIGNED'' then ema_20 > ema_50 \<and> ema_50 > ema_200
              else True)"

text \<open>
  \<open>_check_rsi_filter\<close>. \<open>pd.isna\<close> of a series value is the case \<open>None\<close>.
\<close>

definition check_rsi_filter ::
  "indicator_lib \<Rightarrow> BacktestConfig \<Rightarrow> string \<Rightarrow> int \<Rightarrow> stock_data \<Rightarrow> py_error + bool" where
  "check_rsi_filter lib cfg sname current_date data =
     (case data sname of
        None \<Rightarrow> Inr True
      | Some df \<Rightarrow>
          let historical_data = up_to_date df current_date;
              min_periods = rsi_period cfg + 10
          in
          if int (length historical_data) < min_periods then Inr True
          else
            case lib_rsi lib (map bar_close historical_data) (rsi_period cfg) of
              Inl err \<Rightarrow> Inl err
            | Inr rsi \<Rightarrow>
                (case series_last rsi of
                   Inl err \<Rightarrow> Inl err
                 | Inr None \<Rightarrow> Inr True
                 | Inr (Some current_rsi) \<Rightarrow>
                     Inr (rsi_min cfg \<le> current_rsi \<and> current_rsi \<le> rsi_max cfg)))"

text \<open>\<open>_check_stochastic_filter\<close>.\<close>

definition check_stochastic_filter ::
  "indicator_lib \<Rightarrow> BacktestConfig \<Rightarrow> string \<Rightarrow> int \<Rightarrow> stock_data \<Rightarrow> py_error + bool" where
  "check_stochastic_filter lib cfg sname current_date data =
     (case data sname of
        None \<Rightarrow> Inr True
      | Some df \<Rightarrow>
          let historical_data = up_to_date df current_date;
              min_required = stochastic_k_period cfg + stochastic_smoothing cfg
                               + stochastic_d_period cfg + 5
          in
          if int (length historical_data) < min_required then Inr True
          else
            case lib_stochastic lib historical_data (stochastic_k_period cfg)
                   (stochastic_d_period cfg) (stochastic_smoothing cfg) of
              Inl err \<Rightarrow> Inl err
            | Inr (slow_k, slow_d) \<Rightarrow>
                if length slow_k < 2 \<or> length slow_d < 2 then Inr True
                else
                  (case (last slow_k, slow_k ! (length slow_k - 2),
                         last slow_d, slow_d ! (length slow_d - 2)) of
                     (Some current_k, Some previous_k, Some current_d, Some previous_d) \<Rightarrow>
                       let overbought = stochastic_overbought cfg;
                           was_overbought = (previous_k > overbought \<or> current_k > (overbought - 10));
                           bearish_crossover = (previous_k \<ge> previous_d \<and> current_k < current_d)
                       in Inr (was_overbought \<and> bearish_crossover)
                   | _ \<Rightarrow> Inr True))"

text \<open>
  \<open>_check_supertrend_filter\<close>. The trend direction is a series of \<open>1\<close>, \<open>-1\<close> and
  \<open>0\<close>; the last close is read before the last indicator values.
\<close>

definition check_supertrend_filter ::
  "indicator_lib \<Rightarrow> BacktestConfig \<Rightarrow> string \<Rightarrow> int \<Rightarrow> stock_data \<Rightarrow> py_error + bool" where
  "check_supertrend_filter lib cfg sname current_date data =
     (case data sname of
        None \<Rightarrow> Inr True
      | Some df \<Rightarrow>
          let historical_data = up_to_date df current_date;
              min_required = supertrend_period cfg + 10
          in
          if int (length historical_data) < min_required then Inr True
          else
            case lib_supertrend lib historical_data (supertrend_period cfg) (supertrend_multiplier cfg) of
              Inl err \<Rightarrow> Inl err
            | Inr (supertrend, trend_direction) \<Rightarrow>
                (case series_last (map bar_close historical_data) of
                   Inl err \<Rightarrow> Inl err
                 | Inr current_close \<Rightarrow>
                     (case series_last supertrend of
                        Inl err \<Rightarrow> Inl err
                      | Inr current_supertrend \<Rightarrow>
                          (case series_last trend_direction of
                             Inl err \<Rightarrow> Inl err
                           | Inr current_trend \<Rightarrow>
                               (case (current_supertrend, current_trend) of
                                  (Some st, Some tr) \<Rightarrow> Inr (tr = 1)
                                | _ \<Rightarrow> Inr True)))))"

text \<open>
  \<open>_check_vwap_filter\<close>. Every table of the model has a volume column. \<open>upper\<close> is
  \<open>str.upper\<close> on ASCII letters.
\<close>

definition upper :: "string \<Rightarrow> string" where
  "upper str = map (\<lambda>c. let n = (of_char c :: nat) in
                        if 97 \<le> n \<and> n \<le> 122 then char_of (n - 32) else c) str"

definition check_vwap_filter ::
  "indicator_lib \<Rightarrow> BacktestConfig \<Rightarrow> string \<Rightarrow> int \<Rightarrow> stock_data \<Rightarrow> py_error + bool" where
  "check_vwap_filter lib cfg sname current_date data =
     (case data sname of
        None \<Rightarrow> Inr True
      | Some df \<Rightarrow>
          let historical_data = up_to_date df current_date;
              min_required = max (vwap_period cfg) 5
          in
          if int (length historical_data) < min_required then Inr True
          else
            case lib_vwap lib historical_data (vwap_period cfg) of
              Inl err \<Rightarrow> Inl err
            | Inr vwap \<Rightarrow>
                (case series_last (map bar_close historical_data) of
                   Inl err \<Rightarrow> Inl err
                 | Inr current_close \<Rightarrow>
                     (case series_last vwap of
                        Inl err \<Rightarrow> Inl err
                      | Inr None \<Rightarrow> Inr True
                      | Inr (Some current_vwap) \<Rightarrow>
                          let mode = upper (vwap_mode cfg) in
                          if mode = ''ABOVE'' then Inr (current_close > current_vwap)
                          else if mode = ''BELOW'' then Inr (current_close < current_vwap)
                          else Inr True)))"

text \<open>\<open>_check_adx_filter\<close>.\<close>

definition check_adx_filter ::
  "indicator_lib \<Rightarrow> BacktestConfig \<Rightarrow> string \<Rightarrow> int \<Rightarrow> stock_data \<Rightarrow> py_error + bool" where
  "check_adx_filter lib cfg sname current_date data =
     (case data sname of
        None \<Rightarrow> Inr True
      | Some df \<Rightarrow>
          let historical_data = up_to_date df current_date;
              min_required = (2 * adx_period cfg) + 10
          in
          if int (length historical_data) < min_required then Inr True
          else
            case lib_adx lib historical_data (adx_period cfg) of
              Inl err \<Rightarrow> Inl err
            | Inr (adx, plus_di, minus_di) \<Rightarrow>
                (case series_last adx of
                   Inl err \<Rightarrow> Inl err
                 | Inr current_adx \<Rightarrow>
                     (case series_last plus_di of
                        Inl err \<Rightarrow> Inl err
                      | Inr current_plus_di \<Rightarrow>
                          (case series_last minus_di of
                             Inl err \<Rightarrow> Inl err
                           | Inr current_minus_di \<Rightarrow>
                               (case (current_adx, current_plus_di, current_minus_di) of
                                  (Some a, Some pdi, Some mdi) \<Rightarrow>
                                    let adx_condition = (a > adx_threshold cfg) in
                                    if adx_require_bullish cfg
                                    then Inr (adx_condition \<and> pdi > mdi)
                                    else Inr adx_condition
                                | _ \<Rightarrow> Inr True)))))"

text \<open>\<open>_check_bollinger_filter\<close>.\<close>

definition check_bollinger_filter ::
  "indicator_lib \<Rightarrow> BacktestConfig \<Rightarrow> string \<Rightarrow> int \<Rightarrow> stock_data \<Rightarrow> py_error + bool" where
  "check_bollinger_filter lib cfg sname current_date data =
     (case data sname of
        None \<Rightarrow> Inr True
      | Some df \<Rightarrow>
          let historical_data = up_to_date df current_date;
              min_required = bollinger_period cfg + 5
          in
          if int (length historical_data) < min_required then Inr True
          else
            case lib_bollinger_bands lib historical_data (bollinger_period cfg) (bollinger_std cfg) of
              Inl err \<Rightarrow> Inl err
            | Inr (upper_band, middle_band, lower_band) \<Rightarrow>
                (case series_last (map bar_close historical_data) of
                   Inl err \<Rightarrow> Inl err
                 | Inr current_close \<Rightarrow>
                     (case series_last upper_band of
                        Inl err \<Rightarrow> Inl err
                      | Inr current_upper \<Rightarrow>
                          (case series_last middle_band of
                             Inl err \<Rightarrow> Inl err
                           | Inr current_middle \<Rightarrow>
                               (case (current_upper, current_middle) of
                                  (Some u, Some m) \<Rightarrow> Inr (current_close < u)
                                | _ \<Rightarrow> Inr True)))))"

text \<open>
  \<open>_calculate_macd\<close> and \<open>_check_macd_filter\<close>. pandas rejects a span below 1. The
  three series are EMAs of the closes, so they have no NaN and the filter's NaN test never
  holds.
\<close>

definition calculate_macd ::
  "bar list \<Rightarrow> int \<Rightarrow> int \<Rightarrow> int \<Rightarrow> py_error + (real list \<times> real list \<times> real list)" where
  "calculate_macd df fast slow signal =
     (if fast < 1 \<or> slow < 1 then Inl ValueError
      else
        let close = map bar_close df;
            fast_ema = ewm_mean (real_of_int fast) close;
            slow_ema = ewm_mean (real_of_int slow) close;
            macd_line = map (\<lambda>(f, s). f - s) (zip fast_ema slow_ema)
        in
        if signal < 1 then Inl ValueError
        else
          let signal_line = ewm_mean (real_of_int signal) macd_line;
              histogram = map (\<lambda>(m, s). m - s) (zip macd_line signal_line)
          in Inr (macd_line, signal_line, histogram))"

definition check_macd_filter ::
  "BacktestConfig \<Rightarrow> string \<Rightarrow> int \<Rightarrow> stock_data \<Rightarrow> py_error + bool" where
  "check_macd_filter cfg sname current_date data =
     (case data sname of
        None \<Rightarrow> Inr True
      | Some df \<Rightarrow>
          let historical_data = up_to_date df current_date;
              min_required = macd_slow cfg + macd_signal cfg + 5
          in
          if int (length historical_data) < min_required then Inr True
          else
            case calculate_macd historical_data (macd_fast cfg) (macd_slow cfg) (macd_signal cfg) of
              Inl err \<Rightarrow> Inl err
            | Inr (macd_line, signal_line, histogram) \<Rightarrow>
                if length macd_line < 2 \<or> length signal_line < 2 \<or> length histogram < 2 then Inr True
                else
                  let current_macd = last macd_line;
                      current_signal = last signal_line;
                      current_histogram = last histogram;
                      previous_histogram = histogram ! (length histogram - 2);
                      mode = upper (macd_mode cfg)
                  in
                  if mode = ''BULLISH'' then Inr (current_macd > current_signal)
                  else if mode = ''REVERSAL''
                  then Inr ((previous_histogram > 0 \<and> current_histogram < previous_histogram)
                            \<or> (current_histogram < 0 \<and> previous_histogram \<ge> 0))
                  else Inr True)"

text \<open>\<open>_check_williams_filter\<close>.\<close>

definition check_williams_filter ::
  "indicator_lib \<Rightarrow> BacktestConfig \<Rightarrow> string \<Rightarrow> int \<Rightarrow> stock_data \<Rightarrow> py_error + bool" where
  "check_williams_filter lib cfg sname current_date data =
     (case data sname of
        None \<Rightarrow> Inr True
      | Some df \<Rightarrow>
          let historical_data = up_to_date df current_date;
              min_required = williams_period cfg + 5
          in
          if int (length historical_data) < min_required then Inr True
          else
            case lib_williams_r lib historical_data (williams_period cfg) of
              Inl err \<Rightarrow> Inl err
            | Inr williams_r \<Rightarrow>
                if length williams_r < 2 then Inr True
                else
                  (case (last williams_r, williams_r ! (length williams_r - 2)) of
                     (Some current_wr, Some previous_wr) \<Rightarrow>
                       let overbought = williams_overbought cfg;
                           was_overbought = (previous_wr > overbought \<or> current_wr > (overbought - 10));
                           momentum_turning = (current_wr < previous_wr)
                       in Inr (was_overbought \<and> momentum_turning)
                   | _ \<Rightarrow> Inr True))"

section \<open>The day loop\<close>

text \<open>
  Dates are day numbers, so what the engine reads from the calendar and from other modules
  is a record of parameters: \<open>current_date.day\<close> (read by \<open>_is_entry_day\<close>), the last
  Thursday of the month that \<open>_get_monthly_expiry\<close> computes with \<open>calendar\<close> and
  \<open>datetime\<close>, \<open>get_lot_size\<close> of data\_manager.py, \<open>calculate_metrics\<close> of the IV
  percentile service, the pandas standard deviation of the log returns of a close series
  (\<open>None\<close> for NaN) and scipy's \<open>norm.pdf\<close>.
\<close>

record market =
  day_of_month :: "int \<Rightarrow> int"
  monthly_expiry :: "int \<Rightarrow> int"
  get_lot_size :: "string \<Rightarrow> int"
  calculate_metrics :: "string \<Rightarrow> bar list \<Rightarrow> int \<Rightarrow> py_error + IVMetrics"
  log_returns_std :: "real list \<Rightarrow> real option"
  norm_pdf :: "real \<Rightarrow> real"

text \<open>
  The engine state together with the two logs the day loop writes: the equity curve, a dict
  from date to portfolio value, and the IV metrics seen per symbol.
\<close>

record backtest =
  engine_state :: engine
  equity_curve :: "(int \<times> real) list"
  iv_history :: "(string \<times> IVMetrics list) list"

text \<open>
  \<open>calculate_theta\<close> of greeks\_calculator.py; \<open>rate\<close> is its optional parameter
  \<open>risk_free_rate\<close>.
\<close>

definition calculate_theta ::
  "(real \<Rightarrow> real) \<Rightarrow> (real \<Rightarrow> real) \<Rightarrow> real \<Rightarrow> real \<Rightarrow> real \<Rightarrow> real \<Rightarrow> real \<Rightarrow> string
     \<Rightarrow> real option \<Rightarrow> py_error + real" where
  "calculate_theta cdf pdf self_rate spot strike time_to_expiry volatility option_type rate =
     (let r = (case rate of None \<Rightarrow> self_rate | Some x \<Rightarrow> x) in
      case calculate_d1_d2 self_rate spot strike time_to_expiry volatility (Some r) of
        Inl e \<Rightarrow> Inl e
      | Inr (d1, d2) \<Rightarrow>
          if 2 * sqrt time_to_expiry = 0 then Inl ZeroDivisionError
          else
            let term1 = - (spot * pdf d1 * volatility) / (2 * sqrt time_to_expiry) in
            if option_type = ''CE''
            then Inr ((term1 + (- r * strike * exp (- r * time_to_expiry) * cdf d2)) / 365)
            else Inr ((term1 + r * strike * exp (- r * time_to_expiry) * cdf (- d2)) / 365))"

text \<open>
  \<open>_estimate_iv\<close>. With a NaN volatility \<open>min(0.80, iv)\<close> keeps its first argument, so
  the result is 0.80.
\<close>

definition estimate_iv :: "market \<Rightarrow> BacktestConfig \<Rightarrow> string \<Rightarrow> int \<Rightarrow> stock_data \<Rightarrow> real" where
  "estimate_iv mk cfg sname current_date data =
     (case data sname of
        None \<Rightarrow> default_iv cfg
      | Some df \<Rightarrow>
          let recent_data = tail 30 (up_to_date df current_date) in
          if length recent_data < 10 then default_iv cfg
          else
            (case log_returns_std mk (map bar_close recent_data) of
               None \<Rightarrow> 0.80
             | Some sd \<Rightarrow>
                 let hv = sd * sqrt 252;
                     iv = hv * 1.2
                 in max 0.10 (min 0.80 iv)))"

text \<open>
  \<open>_open_position\<close>. A strike of \<open>None\<close> makes the pricing call raise \<open>TypeError\<close>.
  The new position is stored under its symbol; the cash pays the stock and receives the
  premium.
\<close>

definition open_position ::
  "(real \<Rightarrow> real) \<Rightarrow> market \<Rightarrow> indicator_lib \<Rightarrow> BacktestConfig \<Rightarrow> backtest \<Rightarrow> string \<Rightarrow> int \<Rightarrow> real
     \<Rightarrow> stock_data \<Rightarrow> (py_error + backtest) option" where
  "open_position cdf mk lib cfg st sname entered stock_price data =
     (let lots = get_lot_size mk sname;
          expiry = monthly_expiry mk entered;
          dte = expiry - entered
      in
      if dte < 7 then Some (Inr st)
      else
        let time_to_expiry = real_of_int dte / 365 in
        case (if strike_method cfg = ADAPTIVE_DELTA
              then (case data sname of
                      None \<Rightarrow> Inr None
                    | Some df \<Rightarrow> map_sum id Some (calculate_metrics mk sname df entered))
              else Inr None) of
          Inl err \<Rightarrow> Some (Inl err)
        | Inr iv_metrics \<Rightarrow>
            let history = (case iv_metrics of
                             None \<Rightarrow> iv_history st
                           | Some m \<Rightarrow>
                               AList.update sname
                                 ((case map_of (iv_history st) sname of None \<Rightarrow> [] | Some ms \<Rightarrow> ms) @ [m])
                                 (iv_history st));
                iv = (case iv_metrics of
                        None \<Rightarrow> estimate_iv mk cfg sname entered data
                      | Some m \<Rightarrow> current_iv m)
            in
            case select_strike cdf lib cfg sname stock_price time_to_expiry iv iv_metrics entered data of
              None \<Rightarrow> None
            | Some (Inl err) \<Rightarrow> Some (Inl err)
            | Some (Inr None) \<Rightarrow> Some (Inl TypeError)
            | Some (Inr (Some strike)) \<Rightarrow>
                (case calculate_option_price cdf (risk_free_rate cfg) stock_price strike
                        time_to_expiry iv ''CE'' None of
                   Inl err \<Rightarrow> Some (Inl err)
                 | Inr premium \<Rightarrow>
                     (case calculate_delta cdf (risk_free_rate cfg) stock_price strike
                             time_to_expiry iv ''CE'' None of
                        Inl err \<Rightarrow> Some (Inl err)
                      | Inr delta \<Rightarrow>
                          (case calculate_theta cdf (norm_pdf mk) (risk_free_rate cfg) stock_price strike
                                  time_to_expiry iv ''CE'' None of
                             Inl err \<Rightarrow> Some (Inl err)
                           | Inr theta \<Rightarrow>
                               let position =
                                     (new_position sname (lots * position_size cfg) entered stock_price
                                        strike premium expiry)
                                       \<lparr> delta_at_entry := delta, theta_at_entry := theta,
                                         iv_at_entry := iv \<rparr>;
                                   e = engine_state st;
                                   stock_cost = stock_price * real_of_int (lot_size position);
                                   premium_total = premium * real_of_int (lot_size position)
                               in Some (Inr (st\<lparr>
                                    engine_state :=
                                      e\<lparr> positions := AList.update sname position (positions e),
                                         cash := cash e - stock_cost + premium_total \<rparr>,
                                    iv_history := history \<rparr>))))))"

text \<open>
  \<open>_check_new_entries\<close>. \<open>entry_filters\<close> is the chain of entry filters in the order
  of the loop body, each enabled filter ending the chain when it fails; \<open>enter_symbol\<close>
  is the loop body for one configured symbol.
\<close>

definition entry_filters ::
  "indicator_lib \<Rightarrow> BacktestConfig \<Rightarrow> string \<Rightarrow> int \<Rightarrow> stock_data \<Rightarrow> py_error + bool" where
  "entry_filters lib cfg sname current_date data =
     (if \<not> check_multi_timeframe_trend_filter cfg sname current_date data then Inr False
      else
      case (if use_rsi_filter cfg then check_rsi_filter lib cfg sname current_date data else Inr True) of
        Inl err \<Rightarrow> Inl err
      | Inr False \<Rightarrow> Inr False
      | Inr True \<Rightarrow>
      case (if use_stochastic_filter cfg then check_stochastic_filter lib cfg sname current_date data
            else Inr True) of
        Inl err \<Rightarrow> Inl err
      | Inr False \<Rightarrow> Inr False
      | Inr True \<Rightarrow>
      case (if use_supertrend_filter cfg then check_supertrend_filter lib cfg sname current_date data
            else Inr True) of
        Inl err \<Rightarrow> Inl err
      | Inr False \<Rightarrow> Inr False
      | Inr True \<Rightarrow>
      case (if use_vwap_filter cfg then check_vwap_filter lib cfg sname current_date data
            else Inr True) of
        Inl err \<Rightarrow> Inl err
      | Inr False \<Rightarrow> Inr False
      | Inr True \<Rightarrow>
      case (if use_adx_filter cfg then check_adx_filter lib cfg sname current_date data
            else Inr True) of
        Inl err \<Rightarrow> Inl err
      | Inr False \<Rightarrow> Inr False
      | Inr True \<Rightarrow>
      case (if use_bollinger_filter cfg then check_bollinger_filter lib cfg sname current_date data
            else Inr True) of
        Inl err \<Rightarrow> Inl err
      | Inr False \<Rightarrow> Inr False
      | Inr True \<Rightarrow>
      case (if use_macd_filter cfg then check_macd_filter cfg sname current_date data
            else Inr True) of
        Inl err \<Rightarrow> Inl err
      | Inr False \<Rightarrow> Inr False
      | Inr True \<Rightarrow>
      (if use_williams_filter cfg then check_williams_filter lib cfg sname current_date data
       else Inr True))"

definition enter_symbol ::
  "(real \<Rightarrow> real) \<Rightarrow> market \<Rightarrow> indicator_lib \<Rightarrow> BacktestConfig \<Rightarrow> backtest \<Rightarrow> string \<Rightarrow> int
     \<Rightarrow> stock_data \<Rightarrow> (py_error + backtest) option" where
  "enter_symbol cdf mk lib cfg st sname current_date data =
     (if map_of (positions (engine_state st)) sname \<noteq> None then Some (Inr st)
      else
        case get_price sname current_date data of
          None \<Rightarrow> Some (Inr st)
        | Some stock_price \<Rightarrow>
            (case entry_filters lib cfg sname current_date data of
               Inl err \<Rightarrow> Some (Inl err)
             | Inr False \<Rightarrow> Some (Inr st)
             | Inr True \<Rightarrow>
                 let lots = get_lot_size mk sname;
                     required_capital = stock_price * real_of_int lots * real_of_int (position_size cfg)
                 in if cash (engine_state st) < required_capital then Some (Inr st)
                    else open_position cdf mk lib cfg st sname current_date stock_price data))"

fun enter_symbols ::
  "(real \<Rightarrow> real) \<Rightarrow> market \<Rightarrow> indicator_lib \<Rightarrow> BacktestConfig \<Rightarrow> backtest \<Rightarrow> string list \<Rightarrow> int
     \<Rightarrow> stock_data \<Rightarrow> (py_error + backtest) option" where
  "enter_symbols cdf mk lib cfg st [] current_date data = Some (Inr st)"
| "enter_symbols cdf mk lib cfg st (sname # rest) current_date data =
     (case enter_symbol cdf mk lib cfg st sname current_date data of
        None \<Rightarrow> None
      | Some (Inl err) \<Rightarrow> Some (Inl err)
      | Some (Inr st') \<Rightarrow> enter_symbols cdf mk lib cfg st' rest current_date data)"

definition is_entry_day :: "market \<Rightarrow> int \<Rightarrow> bool" where
  "is_entry_day mk current_date = (day_of_month mk current_date \<le> 5)"

definition check_new_entries ::
  "(real \<Rightarrow> real) \<Rightarrow> market \<Rightarrow> indicator_lib \<Rightarrow> BacktestConfig \<Rightarrow> backtest \<Rightarrow> int \<Rightarrow> stock_data
     \<Rightarrow> (py_error + backtest) option" where
  "check_new_entries cdf mk lib cfg st current_date data =
     (if \<not> is_entry_day mk current_date then Some (Inr st)
      else enter_symbols cdf mk lib cfg st (symbols cfg) current_date data)"

text \<open>
  \<open>_update_equity\<close>: the cash plus, for every open position, the stock value less the
  value of the option, which is priced while days to expiry are left.
\<close>

definition option_value ::
  "(real \<Rightarrow> real) \<Rightarrow> BacktestConfig \<Rightarrow> Position \<Rightarrow> real \<Rightarrow> int \<Rightarrow> py_error + real" where
  "option_value cdf cfg position stock_price current_date =
     (let dte = max (expiry_date position - current_date) 0 in
      if dte > 0
      then calculate_option_price cdf (risk_free_rate cfg) stock_price (strike_price position)
             (real_of_int dte / 365) (iv_at_entry position) ''CE'' None
      else Inr (max 0 (stock_price - strike_price position)))"

fun portfolio_value ::
  "(real \<Rightarrow> real) \<Rightarrow> BacktestConfig \<Rightarrow> (string \<times> Position) list \<Rightarrow> int \<Rightarrow> stock_data \<Rightarrow> real
     \<Rightarrow> py_error + real" where
  "portfolio_value cdf cfg [] current_date data value = Inr value"
| "portfolio_value cdf cfg ((sname, position) # rest) current_date data value =
     (let stock_price = expiry_stock_price sname position current_date data;
          stock_value = stock_price * real_of_int (lot_size position)
      in case option_value cdf cfg position stock_price current_date of
           Inl err \<Rightarrow> Inl err
         | Inr ov \<Rightarrow>
             portfolio_value cdf cfg rest current_date data
               (value + (stock_value - ov * real_of_int (lot_size position))))"

definition update_equity ::
  "(real \<Rightarrow> real) \<Rightarrow> BacktestConfig \<Rightarrow> backtest \<Rightarrow> int \<Rightarrow> stock_data \<Rightarrow> py_error + backtest" where
  "update_equity cdf cfg st current_date data =
     (case portfolio_value cdf cfg (positions (engine_state st)) current_date data
             (cash (engine_state st)) of
        Inl err \<Rightarrow> Inl err
      | Inr value \<Rightarrow> Inr (st\<lparr> equity_curve := AList.update current_date value (equity_curve st) \<rparr>))"

text \<open>
  \<open>_process_day\<close>: expiries, then the early exits when the exit strategy is not
  \<open>HOLD_TO_EXPIRY\<close> or an advanced exit is enabled, then the new entries, then the equity
  curve.
\<close>

definition process_day ::
  "(real \<Rightarrow> real) \<Rightarrow> market \<Rightarrow> indicator_lib \<Rightarrow> BacktestConfig \<Rightarrow> backtest \<Rightarrow> int \<Rightarrow> stock_data
     \<Rightarrow> (py_error + backtest) option" where
  "process_day cdf mk lib cfg st current_date data =
     (case check_expiries cfg (engine_state st) current_date data of
        Inl err \<Rightarrow> Some (Inl err)
      | Inr e1 \<Rightarrow>
          let has_advanced_exits = (use_dte_exit cfg \<or> use_trailing_stop cfg) in
          case (if exit_strategy cfg \<noteq> HOLD_TO_EXPIRY \<or> has_advanced_exits
                then check_early_exits cdf cfg e1 current_date data
                else Some (Inr e1)) of
            None \<Rightarrow> None
          | Some (Inl err) \<Rightarrow> Some (Inl err)
          | Some (Inr e2) \<Rightarrow>
              (case check_new_entries cdf mk lib cfg (st\<lparr> engine_state := e2 \<rparr>) current_date data of
                 None \<Rightarrow> None
               | Some (Inl err) \<Rightarrow> Some (Inl err)
               | Some (Inr st3) \<Rightarrow> Some (update_equity cdf cfg st3 current_date data)))"

text \<open>
  \<open>run_backtest\<close>: the loop over \<open>all_dates\<close>, the list that \<open>_get_trading_dates\<close>
  returns (the dates of all tables within the configured range, sorted and without
  duplicates), from the state set up by \<open>__init__\<close>; then \<open>_close_all_positions\<close> at the
  configured end date.
\<close>

fun run_days ::
  "(real \<Rightarrow> real) \<Rightarrow> market \<Rightarrow> indicator_lib \<Rightarrow> BacktestConfig \<Rightarrow> backtest \<Rightarrow> int list \<Rightarrow> stock_data
     \<Rightarrow> (py_error + backtest) option" where
  "run_days cdf mk lib cfg st [] data = Some (Inr st)"
| "run_days cdf mk lib cfg st (current_date # rest) data =
     (case process_day cdf mk lib cfg st current_date data of
        None \<Rightarrow> None
      | Some (Inl err) \<Rightarrow> Some (Inl err)
      | Some (Inr st') \<Rightarrow> run_days cdf mk lib cfg st' rest data)"

definition initial_state :: "BacktestConfig \<Rightarrow> backtest" where
  "initial_state cfg =
     \<lparr> engine_state = \<lparr> positions = [], trades = [], cash = initial_capital cfg \<rparr>,
       equity_curve = [], iv_history = [] \<rparr>"

fun close_symbols ::
  "(real \<Rightarrow> real) \<Rightarrow> BacktestConfig \<Rightarrow> engine \<Rightarrow> string list \<Rightarrow> int \<Rightarrow> stock_data \<Rightarrow> py_error + engine" where
  "close_symbols cdf cfg e [] exit_date data = Inr e"
| "close_symbols cdf cfg e (sname # rest) exit_date data =
     (case map_of (positions e) sname of
        None \<Rightarrow> Inl KeyError
      | Some position \<Rightarrow>
          let stock_price = expiry_stock_price sname position exit_date data in
          case option_value cdf cfg position stock_price exit_date of
            Inl err \<Rightarrow> Inl err
          | Inr option_price \<Rightarrow>
              (case close_position cfg e sname exit_date stock_price option_price END_OF_BACKTEST of
                 Inl err \<Rightarrow> Inl err
               | Inr e' \<Rightarrow> close_symbols cdf cfg e' rest exit_date data))"

definition close_all_positions ::
  "(real \<Rightarrow> real) \<Rightarrow> BacktestConfig \<Rightarrow> engine \<Rightarrow> int \<Rightarrow> stock_data \<Rightarrow> py_error + engine" where
  "close_all_positions cdf cfg e exit_date data =
     close_symbols cdf cfg e (map fst (positions e)) exit_date data"

definition run_backtest ::
  "(real \<Rightarrow> real) \<Rightarrow> market \<Rightarrow> indicator_lib \<Rightarrow> BacktestConfig \<Rightarrow> int list \<Rightarrow> stock_data
     \<Rightarrow> (py_error + backtest) option" where
  "run_backtest cdf mk lib cfg all_dates data =
     (case run_days cdf mk lib cfg (initial_state cfg) all_dates data of
        None \<Rightarrow> None
      | Some (Inl err) \<Rightarrow> Some (Inl err)
      | Some (Inr st) \<Rightarrow>
          (case close_all_positions cdf cfg (engine_state st) (end_date cfg) data of
             Inl err \<Rightarrow> Some (Inl err)
           | Inr e \<Rightarrow> Some (Inr (st\<lparr> engine_state := e \<rparr>))))"

section \<open>Auxiliary facts\<close>

lemma generate_strikes_loop_closed:
  assumes "0 < i"
  shows "generate_strikes_loop i (real_of_int n * i) (real_of_int m * i) acc
           = Some (acc @ map (\<lambda>k. real_of_int k * i) [m..n])"
proof (induction "nat (n - m + 1)" arbitrary: m acc)
  case 0
  then have "n < m" by simp
  then have "\<not> real_of_int m * i \<le> real_of_int n * i" using assms by simp
  then show ?case using \<open>n < m\<close>
    by (subst generate_strikes_loop.simps) simp
next
  case (Suc d)
  then have le: "m \<le> n" by simp
  then have c: "real_of_int m * i \<le> real_of_int n * i" using assms by simp
  have d: "d = nat (n - (m + 1) + 1)" using Suc.hyps(2) by simp
  have nxt: "real_of_int m * i + i = real_of_int (m + 1) * i" by (simp add: algebra_simps)
  have up: "[m..n] = m # [m + 1..n]" using le by (simp add: upto_rec1)
  show ?case
    apply (subst generate_strikes_loop.simps)
    apply (simp only: c if_True nxt Suc.hyps(1)[OF d])
    apply (simp add: up)
    done
qed

lemma py_round_bounds: "\<bar>real_of_int (py_round x) - x\<bar> \<le> 1 / 2"
  unfolding py_round_def Let_def by (auto simp: abs_le_iff)

lemma py_round_floor: "\<lfloor>x\<rfloor> \<le> py_round x \<and> py_round x \<le> \<lfloor>x\<rfloor> + 1"
  by (simp add: py_round_def Let_def)

lemma py_round_mono:
  assumes "x \<le> y"
  shows "py_round x \<le> py_round y"
proof (cases "\<lfloor>x\<rfloor> = \<lfloor>y\<rfloor>")
  case True
  have "x - of_int \<lfloor>x\<rfloor> \<le> y - of_int \<lfloor>x\<rfloor>" using assms by simp
  then show ?thesis using True
    by (auto simp: py_round_def Let_def)
next
  case False
  have "\<lfloor>x\<rfloor> \<le> \<lfloor>y\<rfloor>" using assms by (rule floor_mono)
  with False have "\<lfloor>x\<rfloor> + 1 \<le> \<lfloor>y\<rfloor>" by simp
  then show ?thesis using py_round_floor[of x] py_round_floor[of y] by linarith
qed

lemma get_strike_interval_pos: "0 < get_strike_interval p"
  by (simp add: get_strike_interval_def)

lemma generate_strikes_closed:
  assumes "0 < i"
  shows "generate_strikes p i
           = Some (Inr (map (\<lambda>k. real_of_int k * i) [py_round ((p * 0.9) / i)..py_round ((p * 1.2) / i)]))"
  using assms by (simp add: generate_strikes_def Let_def generate_strikes_loop_closed)

lemma py_max_Max: "xs \<noteq> [] \<Longrightarrow> py_max xs = Inr (Max (set xs))"
proof -
  assume ne: "xs \<noteq> []"
  have f: "(\<lambda>y best. if y > best then y else best) = (max :: real \<Rightarrow> real \<Rightarrow> real)"
    by (auto simp: fun_eq_iff max_def)
  obtain x rest where xs: "xs = x # rest" using ne by (cases xs) auto
  show ?thesis unfolding py_max_def xs f list.case by (simp only: Max.set_eq_fold)
qed

lemma py_min_Min: "xs \<noteq> [] \<Longrightarrow> py_min xs = Inr (Min (set xs))"
proof -
  assume ne: "xs \<noteq> []"
  have f: "(\<lambda>y best. if y < best then y else best) = (min :: real \<Rightarrow> real \<Rightarrow> real)"
    by (auto simp: fun_eq_iff min_def)
  obtain x rest where xs: "xs = x # rest" using ne by (cases xs) auto
  show ?thesis unfolding py_min_def xs f list.case by (simp only: Min.set_eq_fold)
qed

lemma ladder_nonempty:
  assumes "0 \<le> p"
  shows "\<exists>ladder. generate_strikes p (get_strike_interval p) = Some (Inr ladder) \<and> ladder \<noteq> []"
proof -
  let ?i = "get_strike_interval p"
  have i: "0 < ?i" by (rule get_strike_interval_pos)
  have "p * 0.9 \<le> p * 1.2" using assms by (simp add: mult_left_mono)
  then have "(p * 0.9) / ?i \<le> (p * 1.2) / ?i"
    using i by (intro divide_right_mono) simp_all
  then have "py_round ((p * 0.9) / ?i) \<le> py_round ((p * 1.2) / ?i)" by (rule py_round_mono)
  then have "[py_round ((p * 0.9) / ?i)..py_round ((p * 1.2) / ?i)] \<noteq> []" by simp
  then show ?thesis by (simp add: generate_strikes_closed[OF i])
qed

lemma calculate_delta_call:
  assumes "0 < spot" "0 < strike" "0 < T" "0 < vol"
  shows "calculate_delta cdf r spot strike T vol ''CE'' None
           = Inr (cdf ((ln (spot / strike) + (r + 0.5 * vol ^ 2) * T) / (vol * sqrt T)))"
  using assms by (simp add: calculate_delta_def calculate_d1_d2_def Let_def not_le)

lemma calculate_option_price_call:
  assumes "0 < spot" "0 < strike" "0 < T" "0 < vol"
  shows "calculate_option_price cdf r spot strike T vol ''CE'' None
           = Inr (spot * cdf ((ln (spot / strike) + (r + 0.5 * vol ^ 2) * T) / (vol * sqrt T))
                  - strike * exp (- r * T)
                      * cdf ((ln (spot / strike) + (r + 0.5 * vol ^ 2) * T) / (vol * sqrt T)
                               - vol * sqrt T))"
  using assms by (simp add: calculate_option_price_def calculate_d1_d2_def Let_def not_le)

lemma early_exit_step_cases:
  fixes cfg :: BacktestConfig and p :: Position
  assumes price: "get_price s d data = Some sp"
    and open_days: "0 < expiry_date p - d"
    and priced: "calculate_option_price cdf (risk_free_rate cfg) sp (strike_price p)
                   (real_of_int (expiry_date p - d) / 365) (iv_at_entry p) ''CE'' None = Inr cop"
  defines "dte \<equiv> expiry_date p - d"
    and "pnl \<equiv> premium_received p - cop"
  defines "pct \<equiv> (if premium_received p > 0 then (pnl / premium_received p) * 100 else 0)"
  defines "hwm \<equiv> (if pct > profit_high_water_mark p then pct else profit_high_water_mark p)"
    and "active \<equiv> (trailing_stop_active p \<or> pct \<ge> trailing_stop_activation cfg)"
  defines "p' \<equiv> (if use_trailing_stop cfg
                  then p\<lparr> profit_high_water_mark := hwm, trailing_stop_active := active \<rparr> else p)"
    and "dte_exit \<equiv> (use_dte_exit cfg \<and> dte \<le> dte_exit_threshold cfg)"
    and "trailing_stop \<equiv> (use_trailing_stop cfg \<and> active \<and> hwm - pct \<ge> trailing_stop_distance cfg)"
    and "profit_target \<equiv> ((exit_strategy cfg = PROFIT_TARGET \<or> exit_strategy cfg = PROFIT_TARGET_AND_STOP_LOSS)
                            \<and> pnl \<ge> premium_received p * (profit_target_pct cfg / 100))"
    and "stop_loss \<equiv> ((exit_strategy cfg = STOP_LOSS \<or> exit_strategy cfg = PROFIT_TARGET_AND_STOP_LOSS)
                        \<and> pnl \<le> - stop_loss_multiple cfg * premium_received p)"
  shows "early_exit_step cdf cfg data d s p (cl, al) =
      (if dte_exit then Inr (p, cl @ [(s, sp, cop, DTE_EXIT dte)], al)
       else if trailing_stop
       then Inr (p', cl @ [(s, sp, cop, TRAILING_STOP_HWM (py_int hwm))], al)
       else if profit_target
       then Inr (p', cl @ [(s, sp, cop, PROFIT_TARGET_PCT (py_int (profit_target_pct cfg)))], al)
       else if stop_loss
       then (if allow_sl_adjustment cfg \<and> \<not> adjusted p
             then Inr (p', cl, al @ [(s, sp, cop, \<bar>pnl\<bar>, real_of_int dte / 365, iv_at_entry p)])
             else Inr (p', cl @ [(s, sp, cop, STOP_LOSS_X (stop_loss_multiple cfg) (adjusted p))], al))
       else Inr (p', cl, al))"
proof -
  have pos2: "(if use_trailing_stop cfg
                   \<and> \<not> trailing_stop_active
                         (if use_trailing_stop cfg \<and> pct > profit_high_water_mark p
                          then p\<lparr> profit_high_water_mark := pct \<rparr> else p)
                   \<and> pct \<ge> trailing_stop_activation cfg
               then (if use_trailing_stop cfg \<and> pct > profit_high_water_mark p
                     then p\<lparr> profit_high_water_mark := pct \<rparr> else p)\<lparr> trailing_stop_active := True \<rparr>
               else (if use_trailing_stop cfg \<and> pct > profit_high_water_mark p
                     then p\<lparr> profit_high_water_mark := pct \<rparr> else p)) = p'"
    unfolding p'_def hwm_def active_def by simp
  have p'_fields: "premium_received p' = premium_received p" "adjusted p' = adjusted p"
    "use_trailing_stop cfg \<Longrightarrow> trailing_stop_active p' = active"
    "use_trailing_stop cfg \<Longrightarrow> profit_high_water_mark p' = hwm"
    unfolding p'_def by simp_all
  show ?thesis
  proof (cases "use_trailing_stop cfg")
    case True
    have tf: "trailing_stop_active p' = active" "profit_high_water_mark p' = hwm"
      using True p'_fields by simp_all
    show ?thesis
      unfolding early_exit_step_def Let_def fst_conv snd_conv price option.case
        dte_def[symmetric] priced[unfolded dte_def[symmetric]] sum.case
        pnl_def[symmetric] pct_def[symmetric] pos2
      using open_days True
      by (simp add: p'_fields(1,2) tf dte_def[symmetric] dte_exit_def trailing_stop_def
            profit_target_def stop_loss_def)
  next
    case False
    show ?thesis
      unfolding early_exit_step_def Let_def fst_conv snd_conv price option.case
        dte_def[symmetric] priced[unfolded dte_def[symmetric]] sum.case
        pnl_def[symmetric] pct_def[symmetric] pos2
      using open_days False
      by (simp add: p'_fields(1,2) dte_def[symmetric] dte_exit_def trailing_stop_def
            profit_target_def stop_loss_def)
  qed
qed

lemma early_exit_step_skip_or_priced:
  assumes "early_exit_step cdf cfg data d s p (cl, al) = Inr (p', cl', al')"
  shows "(p' = p \<and> cl' = cl \<and> al' = al)
       \<or> (\<exists>sp cop. get_price s d data = Some sp \<and> 0 < expiry_date p - d
             \<and> calculate_option_price cdf (risk_free_rate cfg) sp (strike_price p)
                  (real_of_int (expiry_date p - d) / 365) (iv_at_entry p) ''CE'' None = Inr cop)"
proof (cases "get_price s d data")
  case None
  then show ?thesis using assms by (simp add: early_exit_step_def)
next
  case (Some sp)
  show ?thesis
  proof (cases "expiry_date p - d \<le> 0")
    case True
    then show ?thesis using assms Some by (simp add: early_exit_step_def)
  next
    case False
    show ?thesis
    proof (cases "calculate_option_price cdf (risk_free_rate cfg) sp (strike_price p)
                  (real_of_int (expiry_date p - d) / 365) (iv_at_entry p) ''CE'' None")
      case (Inl err)
      then show ?thesis using assms Some False
        by (simp add: early_exit_step_def Let_def)
    next
      case (Inr cop)
      then show ?thesis using Some False by simp
    qed
  qed
qed

lemma early_exit_step_adjusted:
  assumes "early_exit_step cdf cfg data d s p (cl, al) = Inr (p', cl', al')"
  shows "adjusted p' = adjusted p"
proof -
  from early_exit_step_skip_or_priced[OF assms]
  show ?thesis
  proof
    assume "p' = p \<and> cl' = cl \<and> al' = al"
    then show ?thesis by simp
  next
    assume "\<exists>sp cop. get_price s d data = Some sp \<and> 0 < expiry_date p - d
             \<and> calculate_option_price cdf (risk_free_rate cfg) sp (strike_price p)
                  (real_of_int (expiry_date p - d) / 365) (iv_at_entry p) ''CE'' None = Inr cop"
    then obtain sp cop where h: "get_price s d data = Some sp" "0 < expiry_date p - d"
      "calculate_option_price cdf (risk_free_rate cfg) sp (strike_price p)
                  (real_of_int (expiry_date p - d) / 365) (iv_at_entry p) ''CE'' None = Inr cop"
      by blast
    show ?thesis
      using assms unfolding early_exit_step_cases[OF h]
      by (auto split: if_splits)
  qed
qed

lemma early_exit_step_queues_adjustment:
  assumes "early_exit_step cdf cfg data d s p (cl, al) = Inr (p', cl', al')"
    and "al' \<noteq> al"
  shows "allow_sl_adjustment cfg \<and> \<not> adjusted p
       \<and> (exit_strategy cfg = STOP_LOSS \<or> exit_strategy cfg = PROFIT_TARGET_AND_STOP_LOSS)
       \<and> cl' = cl
       \<and> (\<exists>sp cop. get_price s d data = Some sp
             \<and> calculate_option_price cdf (risk_free_rate cfg) sp (strike_price p)
                  (real_of_int (expiry_date p - d) / 365) (iv_at_entry p) ''CE'' None = Inr cop
             \<and> premium_received p - cop \<le> - stop_loss_multiple cfg * premium_received p
             \<and> al' = al @ [(s, sp, cop, \<bar>premium_received p - cop\<bar>,
                             real_of_int (expiry_date p - d) / 365, iv_at_entry p)])"
proof -
  from early_exit_step_skip_or_priced[OF assms(1)]
  show ?thesis
  proof
    assume "p' = p \<and> cl' = cl \<and> al' = al"
    then show ?thesis using assms(2) by simp
  next
    assume "\<exists>sp cop. get_price s d data = Some sp \<and> 0 < expiry_date p - d
             \<and> calculate_option_price cdf (risk_free_rate cfg) sp (strike_price p)
                  (real_of_int (expiry_date p - d) / 365) (iv_at_entry p) ''CE'' None = Inr cop"
    then obtain sp cop where h: "get_price s d data = Some sp" "0 < expiry_date p - d"
      "calculate_option_price cdf (risk_free_rate cfg) sp (strike_price p)
                  (real_of_int (expiry_date p - d) / 365) (iv_at_entry p) ''CE'' None = Inr cop"
      by blast
    have "allow_sl_adjustment cfg \<and> \<not> adjusted p
       \<and> (exit_strategy cfg = STOP_LOSS \<or> exit_strategy cfg = PROFIT_TARGET_AND_STOP_LOSS)
       \<and> cl' = cl
       \<and> premium_received p - cop \<le> - stop_loss_multiple cfg * premium_received p
       \<and> al' = al @ [(s, sp, cop, \<bar>premium_received p - cop\<bar>,
                             real_of_int (expiry_date p - d) / 365, iv_at_entry p)]"
      using assms unfolding early_exit_step_cases[OF h]
      by (auto split: if_splits)
    then show ?thesis using h by blast
  qed
qed

lemma adjust_position_result:
  assumes "adjust_position cdf cfg e s d sp bb lost tte iv = Some (Inr e')"
  shows "\<exists>p k prem dl.
           map_of (positions e) s = Some p
         \<and> adjust_new_strike
              (if original_premium p = 0 then p\<lparr> original_premium := premium_received p \<rparr> else p)
              sp lost = Some (Inr k)
         \<and> calculate_option_price cdf (risk_free_rate cfg) sp k tte iv ''CE'' None = Inr prem
         \<and> calculate_delta cdf (risk_free_rate cfg) sp k tte iv ''CE'' None = Inr dl
         \<and> e' = e\<lparr> cash := cash e - bb * real_of_int (lot_size p) + prem * real_of_int (lot_size p),
                    positions := AList.update s
                      (p\<lparr> original_premium := (if original_premium p = 0 then premium_received p
                                                 else original_premium p),
                          adjustment_date := Some d, adjustment_cost := bb, strike_price := k,
                          premium_received := prem, delta_at_entry := dl, adjusted := True \<rparr>)
                      (positions e) \<rparr>"
  using assms
  unfolding adjust_position_def Let_def
  by (auto split: option.splits sum.splits if_splits)

lemma adjust_new_strike_clamps:
  assumes "0 < sp"
  shows "\<exists>ladder. generate_strikes sp (get_strike_interval sp) = Some (Inr ladder) \<and> ladder \<noteq> []
           \<and> ((\<forall>k\<in>set ladder. k < strike_price q + (lost / sp) * sp)
                 \<longrightarrow> adjust_new_strike q sp lost = Some (Inr (Max (set ladder))))
           \<and> (\<not> (\<forall>k\<in>set ladder. k < strike_price q + (lost / sp) * sp)
                 \<longrightarrow> adjust_new_strike q sp lost
                       = Some (Inr (Min {k \<in> set ladder. strike_price q + (lost / sp) * sp \<le> k})))"
proof -
  from ladder_nonempty[of sp] assms
  obtain ladder where l: "generate_strikes sp (get_strike_interval sp) = Some (Inr ladder)"
    and ne: "ladder \<noteq> []" by auto
  let ?m = "strike_price q + (lost / sp) * sp"
  have a: "(\<forall>k\<in>set ladder. k < ?m) \<longrightarrow> adjust_new_strike q sp lost = Some (Inr (Max (set ladder)))"
  proof
    assume "\<forall>k\<in>set ladder. k < ?m"
    then have "\<forall>k\<in>set ladder. \<not> ?m \<le> k" by (meson not_less)
    then have "filter (\<lambda>s. s \<ge> ?m) ladder = []" by (simp only: filter_empty_conv)
    then show "adjust_new_strike q sp lost = Some (Inr (Max (set ladder)))"
      using assms l ne by (simp add: adjust_new_strike_def Let_def py_max_Max)
  qed
  have b: "\<not> (\<forall>k\<in>set ladder. k < ?m)
             \<longrightarrow> adjust_new_strike q sp lost = Some (Inr (Min {k \<in> set ladder. ?m \<le> k}))"
  proof
    assume "\<not> (\<forall>k\<in>set ladder. k < ?m)"
    then obtain k where k: "k \<in> set ladder" "?m \<le> k" by (meson not_less)
    then have "k \<in> set (filter (\<lambda>s. s \<ge> ?m) ladder)" by (simp only: set_filter mem_Collect_eq) 
    then have f: "filter (\<lambda>s. s \<ge> ?m) ladder \<noteq> []" by (metis empty_iff list.set(1))
    have "adjust_new_strike q sp lost = Some (py_min (filter (\<lambda>s. s \<ge> ?m) ladder))"
      using assms l f by (simp add: adjust_new_strike_def Let_def)
    then show "adjust_new_strike q sp lost = Some (Inr (Min {k \<in> set ladder. ?m \<le> k}))"
      using py_min_Min[OF f] by simp
  qed
  from l ne a b show ?thesis by blast
qed

lemma ladder_110:
  "generate_strikes 110 (get_strike_interval 110) = Some (Inr [100, 105, 110, 115, 120, 125, 130])"
proof -
  have i: "get_strike_interval 110 = 5" by (simp add: get_strike_interval_def)
  have m: "py_round (99 / 5) = 20" by (simp add: py_round_def Let_def)
  have n: "py_round (132 / 5) = 26" by (simp add: py_round_def Let_def)
  have u: "[20..26] = [20, 21, 22, 23, 24, 25, 26 :: int]" by (simp add: upto_rec1)
  show ?thesis
    unfolding i by (simp add: generate_strikes_closed m n u)
qed

lemma adjust_position_example:
  "adjust_position (\<lambda>x. 1 / 2)
     ((default_config [''A''] 0 90 OTM_2PCT STOP_LOSS) \<lparr> risk_free_rate := 0, allow_sl_adjustment := True \<rparr>)
     \<lparr> positions = [(''A'', (new_position ''A'' 10 1 100 100 1 40) \<lparr> iv_at_entry := 2 / 10 \<rparr>)],
       trades = [], cash = 1000 \<rparr>
     ''A'' 10 110 5 4 (30 / 365) (2 / 10)
   = Some (Inr \<lparr> positions =
                   [(''A'', (new_position ''A'' 10 1 100 100 1 40)
                              \<lparr> iv_at_entry := 2 / 10, original_premium := 1,
                                adjustment_date := Some 10, adjustment_cost := 5,
                                strike_price := 105, premium_received := 5 / 2,
                                delta_at_entry := 1 / 2, adjusted := True \<rparr>)],
                 trades = [], cash = 1000 - 5 * 10 + 5 / 2 * 10 \<rparr>)"
proof -
  have k: "adjust_new_strike ((new_position ''A'' 10 1 100 100 1 40)
              \<lparr> iv_at_entry := 2 / 10, original_premium := 1 \<rparr>) 110 4 = Some (Inr 105)"
    by (simp add: adjust_new_strike_def ladder_110 Let_def new_position_def py_min_def)
  show ?thesis
    unfolding adjust_position_def
    by (simp add: Let_def k[unfolded new_position_def, simplified] new_position_def default_config_def
          calculate_option_price_call calculate_delta_call)
qed

lemma early_exit_step_example:
  "early_exit_step (\<lambda>x. 1 / 2)
     ((default_config [''A''] 0 90 OTM_2PCT STOP_LOSS) \<lparr> risk_free_rate := 0, allow_sl_adjustment := True \<rparr>)
     [''A'' \<mapsto> [\<lparr> bar_date = 10, bar_open = 108, bar_high = 111, bar_low = 107,
                   bar_close = 110, bar_volume = 1000 \<rparr>]]
     10 ''A''
     ((new_position ''A'' 10 1 100 100 1 40) \<lparr> iv_at_entry := 2 / 10 \<rparr>)
     ([], [])
   = Inr ((new_position ''A'' 10 1 100 100 1 40) \<lparr> iv_at_entry := 2 / 10 \<rparr>,
          [], [(''A'', 110, 5, 4, 30 / 365, 2 / 10)])"
proof -
  let ?data = "[''A'' \<mapsto> [\<lparr> bar_date = 10, bar_open = 108, bar_high = 111, bar_low = 107,
                   bar_close = 110, bar_volume = 1000 \<rparr>]]"
  have price: "get_price ''A'' 10 ?data = Some 110"
    by (simp add: get_price_def)
  have priced: "calculate_option_price (\<lambda>x. 1 / 2) 0 110 100 (real_of_int 30 / 365) (2 / 10) ''CE'' None = Inr 5"
    by (simp add: calculate_option_price_call)
  show ?thesis
    using early_exit_step_cases[where s="''A''" and d=10 and data="?data" and sp=110
        and cdf="\<lambda>x. 1 / 2" and cop=5 and cl="[]" and al="[]"
        and cfg="(default_config [''A''] 0 90 OTM_2PCT STOP_LOSS)
                   \<lparr> risk_free_rate := 0, allow_sl_adjustment := True \<rparr>"
        and p="(new_position ''A'' 10 1 100 100 1 40) \<lparr> iv_at_entry := 2 / 10 \<rparr>"]
      price priced
    by (simp add: default_config_def new_position_def)
qed

lemma fold_pick_mem:
  "fold (\<lambda>y best. if P y best then y else best) xs x \<in> set (x # xs)"
  by (induction xs arbitrary: x) auto

lemma py_min_key_mem: "py_min_key f xs = Inr k \<Longrightarrow> k \<in> set xs"
  unfolding py_min_key_def using fold_pick_mem[of "\<lambda>y best. f y < f best"]
  by (auto split: list.splits)

lemma py_min_key_total: "xs \<noteq> [] \<Longrightarrow> \<exists>k. py_min_key f xs = Inr k"
  unfolding py_min_key_def by (auto split: list.splits)

lemma py_min_mem: "py_min xs = Inr k \<Longrightarrow> k \<in> set xs"
  unfolding py_min_def using fold_pick_mem[of "\<lambda>y best. y < best"]
  by (auto split: list.splits)

lemma py_max_mem: "py_max xs = Inr k \<Longrightarrow> k \<in> set xs"
  unfolding py_max_def using fold_pick_mem[of "\<lambda>y best. y > best"]
  by (auto split: list.splits)

lemma find_strike_scan_mem:
  "find_strike_scan cdf r spot T vol tgt ty xs (bs, bd, md) = Inr (Some k, bd', md')
     \<Longrightarrow> k \<in> set xs \<or> bs = Some k"
proof (induction xs arbitrary: bs bd md)
  case Nil
  then show ?case by simp
next
  case (Cons x xs)
  show ?case
  proof (cases "calculate_delta cdf r spot x T vol ty None")
    case (Inl err)
    then show ?thesis using Cons.prems by simp
  next
    case (Inr dl)
    show ?thesis
    proof (cases "less_min_diff (delta_diff ty tgt dl) md")
      case True
      then have "find_strike_scan cdf r spot T vol tgt ty xs
                   (Some x, Some dl, Some (delta_diff ty tgt dl)) = Inr (Some k, bd', md')"
        using Cons.prems Inr by simp
      from Cons.IH[OF this] show ?thesis by auto
    next
      case False
      then have "find_strike_scan cdf r spot T vol tgt ty xs (bs, bd, md) = Inr (Some k, bd', md')"
        using Cons.prems Inr by simp
      from Cons.IH[OF this] show ?thesis by auto
    qed
  qed
qed

lemma delta_strike_mem:
  assumes "delta_strike cdf cfg sp T iv tgt strikes = Inr (Some k)"
  shows "k \<in> set strikes"
proof -
  from assms obtain bd md where
    "find_strike_scan cdf (risk_free_rate cfg) sp T iv tgt ''CE'' strikes (None, None, None)
       = Inr (Some k, bd, md)"
    by (auto simp: delta_strike_def find_strike_by_delta_def split: sum.splits prod.splits)
  from find_strike_scan_mem[OF this] show ?thesis by simp
qed

lemma nearest_strike_mem:
  "map_sum id Some (nearest_strike strikes t) = Inr (Some k) \<Longrightarrow> k \<in> set strikes"
  by (cases "nearest_strike strikes t") (auto simp: nearest_strike_def dest: py_min_key_mem)

lemma select_from_ladder_mem:
  assumes "select_from_ladder cdf lib cfg s sp T iv ivm d data strikes = Inr (Some k)"
  shows "k \<in> set strikes"
  using assms unfolding select_from_ladder_def Let_def
  by (auto split: if_splits option.splits sum.splits prod.splits
        dest: nearest_strike_mem delta_strike_mem)

lemma ladder_shape:
  fixes sp :: real
  defines "i \<equiv> get_strike_interval sp"
  defines "ladder \<equiv> map (\<lambda>k. real_of_int k * i) [py_round ((sp * 0.9) / i)..py_round ((sp * 1.2) / i)]"
  shows "generate_strikes sp i = Some (Inr ladder)"
    and "\<forall>k\<in>set ladder. \<exists>n::int. k = real_of_int n * i"
    and "\<forall>j. Suc j < length ladder \<longrightarrow> ladder ! Suc j = ladder ! j + i"
    and "0 \<le> sp \<longrightarrow> ladder \<noteq> [] \<and> \<bar>hd ladder - sp * 0.9\<bar> \<le> i / 2
                     \<and> \<bar>last ladder - sp * 1.2\<bar> \<le> i / 2"
proof -
  let ?m = "py_round ((sp * 0.9) / i)" and ?n = "py_round ((sp * 1.2) / i)"
  have i: "0 < i" unfolding i_def by (rule get_strike_interval_pos)
  show "generate_strikes sp i = Some (Inr ladder)"
    unfolding ladder_def by (rule generate_strikes_closed[OF i])
  show "\<forall>k\<in>set ladder. \<exists>n::int. k = real_of_int n * i"
    unfolding ladder_def by auto
  show "\<forall>j. Suc j < length ladder \<longrightarrow> ladder ! Suc j = ladder ! j + i"
  proof (intro allI impI)
    fix j assume j: "Suc j < length ladder"
    then have l: "Suc j < length [?m..?n]" unfolding ladder_def by simp
    then have b: "?m + int (Suc j) \<le> ?n" by simp
    have "[?m..?n] ! Suc j = ?m + int (Suc j)" using b by (simp add: nth_upto)
    moreover have "[?m..?n] ! j = ?m + int j" using b by (simp add: nth_upto)
    ultimately show "ladder ! Suc j = ladder ! j + i"
      unfolding ladder_def using l by (simp add: algebra_simps)
  qed
  have near: "\<bar>real_of_int (py_round (x / i)) * i - x\<bar> \<le> i / 2" for x
  proof -
    have "real_of_int (py_round (x / i)) * i - x = (real_of_int (py_round (x / i)) - x / i) * i"
      using i by (simp add: field_simps)
    then have "\<bar>real_of_int (py_round (x / i)) * i - x\<bar> = \<bar>real_of_int (py_round (x / i)) - x / i\<bar> * i"
      using i by (simp only: abs_mult abs_of_pos)
    also have "\<dots> \<le> (1 / 2) * i"
      using py_round_bounds[of "x / i"] i by (intro mult_right_mono) simp_all
    finally show ?thesis by simp
  qed
  show "0 \<le> sp \<longrightarrow> ladder \<noteq> [] \<and> \<bar>hd ladder - sp * 0.9\<bar> \<le> i / 2
                     \<and> \<bar>last ladder - sp * 1.2\<bar> \<le> i / 2"
  proof
    assume sp: "0 \<le> sp"
    have "sp * 0.9 \<le> sp * 1.2" using sp by (simp add: mult_left_mono)
    then have "(sp * 0.9) / i \<le> (sp * 1.2) / i" using i by (intro divide_right_mono) simp_all
    then have mn: "?m \<le> ?n" by (rule py_round_mono)
    have h: "hd [?m..?n] = ?m" using mn by (simp add: upto_rec1)
    have l: "last [?m..?n] = ?n" using mn by (simp add: upto_rec2)
    have ne: "[?m..?n] \<noteq> []" using mn by simp
    have "hd ladder = real_of_int ?m * i" unfolding ladder_def using ne h by (simp add: hd_map)
    moreover have "last ladder = real_of_int ?n * i" unfolding ladder_def using ne l by (simp add: last_map)
    ultimately show "ladder \<noteq> [] \<and> \<bar>hd ladder - sp * 0.9\<bar> \<le> i / 2
                     \<and> \<bar>last ladder - sp * 1.2\<bar> \<le> i / 2"
      using near[of "sp * 0.9"] near[of "sp * 1.2"] ne unfolding ladder_def by simp
  qed
qed

lemma select_strike_total:
  assumes "0 \<le> sp"
    and "strike_method cfg \<in> {OTM_2PCT, OTM_5PCT, ATM, ATR_BASED, PIVOT_R1, PIVOT_R2, UNKNOWN_METHOD}"
  shows "\<exists>k. select_strike cdf lib cfg s sp T iv ivm d data = Some (Inr (Some k))"
proof -
  from ladder_nonempty[OF assms(1)] obtain ladder
    where l: "generate_strikes sp (get_strike_interval sp) = Some (Inr ladder)" and ne: "ladder \<noteq> []"
    by blast
  have n: "\<exists>k. map_sum id Some (nearest_strike ladder t) = Inr (Some k)" for t
    using py_min_key_total[OF ne, of "\<lambda>x. \<bar>x - t\<bar>"] by (auto simp: nearest_strike_def)
  have "\<exists>k. select_from_ladder cdf lib cfg s sp T iv ivm d data ladder = Inr (Some k)"
    using assms(2) n unfolding select_from_ladder_def Let_def
    by (auto split: option.splits)
  then show ?thesis by (simp add: select_strike_def l)
qed

lemma adjust_new_strike_mem:
  assumes "adjust_new_strike q sp lost = Some (Inr k)"
    and "generate_strikes sp (get_strike_interval sp) = Some (Inr ladder)"
  shows "k \<in> set ladder"
proof -
  let ?m = "strike_price q + (lost / sp) * sp"
  from assms have "py_max ladder = Inr k \<or> py_min (filter (\<lambda>s. s \<ge> ?m) ladder) = Inr k"
    unfolding adjust_new_strike_def Let_def by (auto split: if_splits)
  then show ?thesis
  proof
    assume "py_max ladder = Inr k" then show ?thesis by (rule py_max_mem)
  next
    assume "py_min (filter (\<lambda>s. s \<ge> ?m) ladder) = Inr k"
    from py_min_mem[OF this] show ?thesis by simp
  qed
qed

lemma calculate_pivot_points_cases:
  "calculate_pivot_points s d data =
     (case data s of
        None \<Rightarrow> None
      | Some df \<Rightarrow>
          if up_to_date df d = [] then None
          else if length (up_to_date df d) = 1 then Some (pivot_levels (up_to_date df d ! 0))
          else Some (pivot_levels (up_to_date df d ! (length (up_to_date df d) - 2))))"
proof (cases "data s")
  case None
  then show ?thesis by (simp add: calculate_pivot_points_def)
next
  case (Some df)
  let ?h = "up_to_date df d"
  consider "?h = []" | "length ?h = 1" | "2 \<le> length ?h"
    by (cases ?h) (auto simp: Suc_le_eq)
  then show ?thesis
  proof cases
    case 1
    then show ?thesis using Some by (simp add: calculate_pivot_points_def tail_def)
  next
    case 2
    then show ?thesis using Some by (simp add: calculate_pivot_points_def tail_def Let_def)
  next
    case 3
    then have l: "length (tail 2 ?h) = 2" by (simp add: tail_def)
    have "tail 2 ?h ! 0 = ?h ! (length ?h - 2)" using 3 by (simp add: tail_def)
    moreover have "tail 2 ?h \<noteq> []" "?h \<noteq> []" "length ?h \<noteq> 1" using 3 l by auto
    ultimately show ?thesis using Some l
      by (simp add: calculate_pivot_points_def Let_def)
  qed
qed

lemma up_to_date_previous:
  assumes "sorted_wrt (\<lambda>a b. bar_date a < bar_date b) df"
    and "2 \<le> length (up_to_date df d)"
  shows "bar_date (up_to_date df d ! (length (up_to_date df d) - 2)) < d"
proof -
  let ?h = "up_to_date df d"
  have s: "sorted_wrt (\<lambda>a b. bar_date a < bar_date b) ?h"
    unfolding up_to_date_def using assms(1) by (rule sorted_wrt_filter)
  have i: "length ?h - 2 < length ?h - 1" "length ?h - 1 < length ?h" using assms(2) by auto
  have "bar_date (?h ! (length ?h - 2)) < bar_date (?h ! (length ?h - 1))"
    using sorted_wrt_nth_less[OF s i] .
  moreover have "?h ! (length ?h - 1) \<in> set ?h" using i(2) by (rule nth_mem)
  then have "bar_date (?h ! (length ?h - 1)) \<le> d" unfolding up_to_date_def by simp
  ultimately show ?thesis by simp
qed

lemma select_strike_pivot_fallback:
  assumes "calculate_pivot_points s d data = None
           \<or> (\<exists>pv. calculate_pivot_points s d data = Some pv \<and> level pv \<le> sp)"
  shows "strike_method cfg = PIVOT_R1 \<and> level = r1 \<longrightarrow>
           select_strike cdf lib cfg s sp T iv ivm d data
             = select_strike cdf lib (cfg\<lparr> strike_method := OTM_2PCT \<rparr>) s sp T iv ivm d data"
    and "strike_method cfg = PIVOT_R2 \<and> level = r2 \<longrightarrow>
           select_strike cdf lib cfg s sp T iv ivm d data
             = select_strike cdf lib (cfg\<lparr> strike_method := OTM_5PCT \<rparr>) s sp T iv ivm d data"
  using assms
  by (auto simp: select_strike_def select_from_ladder_def Let_def split: option.splits sum.splits)

lemma select_strike_pivot_level:
  assumes "calculate_pivot_points s d data = Some pv"
    and "generate_strikes sp (get_strike_interval sp) = Some (Inr ladder)"
  shows "strike_method cfg = PIVOT_R1 \<and> sp < r1 pv \<longrightarrow>
           select_strike cdf lib cfg s sp T iv ivm d data
             = Some (map_sum id Some (nearest_strike ladder (r1 pv)))"
    and "strike_method cfg = PIVOT_R2 \<and> sp < r2 pv \<longrightarrow>
           select_strike cdf lib cfg s sp T iv ivm d data
             = Some (map_sum id Some (nearest_strike ladder (r2 pv)))"
  using assms
  by (auto simp: select_strike_def select_from_ladder_def Let_def)

lemma ladder_12:
  "generate_strikes 12 (get_strike_interval 12) = Some (Inr [10, 25 / 2, 15])"
proof -
  have i: "get_strike_interval 12 = 5 / 2" by (simp add: get_strike_interval_def)
  have m: "py_round (108 / 25) = 4" by (simp add: py_round_def Let_def)
  have n: "py_round (144 / 25) = 6" by (simp add: py_round_def Let_def)
  have u: "[4..6] = [4, 5, 6 :: int]" by (simp add: upto_rec1)
  show ?thesis unfolding i by (simp add: generate_strikes_closed m n u)
qed

lemma ladder_15:
  "generate_strikes 15 (get_strike_interval 15) = Some (Inr [25 / 2, 15, 35 / 2])"
proof -
  have i: "get_strike_interval 15 = 5 / 2" by (simp add: get_strike_interval_def)
  have m: "py_round (27 / 5) = 5" by (simp add: py_round_def Let_def)
  have n: "py_round (36 / 5) = 7" by (simp add: py_round_def Let_def)
  have u: "[5..7] = [5, 6, 7 :: int]" by (simp add: upto_rec1)
  show ?thesis unfolding i by (simp add: generate_strikes_closed m n u)
qed

lemma trailing_frame_refl:
  "\<exists>h a. (p :: Position) = p\<lparr> profit_high_water_mark := h, trailing_stop_active := a \<rparr>"
  by (rule exI[of _ "profit_high_water_mark p"], rule exI[of _ "trailing_stop_active p"]) simp

lemma exit_chain_effect:
  assumes "(if a then Inr (p, cl @ [(s, x1)], al)
            else if b then Inr (P, cl @ [(s, x2)], al)
            else if c then Inr (P, cl @ [(s, x3)], al)
            else if e then (if f \<and> \<not> adj then Inr (P, cl, al @ [(s, y)])
                            else Inr (P, cl @ [(s, x4)], al))
            else Inr (P, cl, al)) = (Inr (p', cl', al') :: 'e + 'p \<times> ('k \<times> 'x) list \<times> ('k \<times> 'y) list)"
  shows "(p' = p \<or> p' = P)
       \<and> ((cl' = cl \<and> al' = al)
            \<or> (\<exists>x. cl' = cl @ [(s, x)] \<and> al' = al)
            \<or> (\<exists>y. cl' = cl \<and> al' = al @ [(s, y)] \<and> \<not> adj))"
  using assms by (auto split: if_splits)

lemma early_exit_step_effect:
  assumes "early_exit_step cdf cfg data d s p (cl, al) = Inr (p', cl', al')"
  shows "(\<exists>h a. p' = p\<lparr> profit_high_water_mark := h, trailing_stop_active := a \<rparr>)
       \<and> ((cl' = cl \<and> al' = al)
            \<or> (\<exists>x. cl' = cl @ [(s, x)] \<and> al' = al)
            \<or> (\<exists>y. cl' = cl \<and> al' = al @ [(s, y)] \<and> \<not> adjusted p))"
proof -
  from early_exit_step_skip_or_priced[OF assms]
  show ?thesis
  proof
    assume "p' = p \<and> cl' = cl \<and> al' = al"
    then show ?thesis using trailing_frame_refl[of p] by simp
  next
    assume "\<exists>sp cop. get_price s d data = Some sp \<and> 0 < expiry_date p - d
             \<and> calculate_option_price cdf (risk_free_rate cfg) sp (strike_price p)
                  (real_of_int (expiry_date p - d) / 365) (iv_at_entry p) ''CE'' None = Inr cop"
    then obtain sp cop where h: "get_price s d data = Some sp" "0 < expiry_date p - d"
      "calculate_option_price cdf (risk_free_rate cfg) sp (strike_price p)
                  (real_of_int (expiry_date p - d) / 365) (iv_at_entry p) ''CE'' None = Inr cop"
      by blast
    note chain = exit_chain_effect[OF assms[unfolded early_exit_step_cases[OF h]]]
    from chain have lists: "(cl' = cl \<and> al' = al)
            \<or> (\<exists>x. cl' = cl @ [(s, x)] \<and> al' = al)
            \<or> (\<exists>y. cl' = cl \<and> al' = al @ [(s, y)] \<and> \<not> adjusted p)"
      by (rule conjunct2)
    from chain[THEN conjunct1]
    have "\<exists>h a. p' = p\<lparr> profit_high_water_mark := h, trailing_stop_active := a \<rparr>"
    proof
      assume "p' = p"
      then show ?thesis using trailing_frame_refl[of p] by simp
    next
      assume P: "p' = (if use_trailing_stop cfg
                 then p\<lparr>profit_high_water_mark :=
                   if profit_high_water_mark p
                      < (if 0 < premium_received p
                         then (premium_received p - cop) / premium_received p * 100 else 0)
                   then if 0 < premium_received p
                        then (premium_received p - cop) / premium_received p * 100 else 0
                   else profit_high_water_mark p,
                 trailing_stop_active :=
                   trailing_stop_active p \<or>
                   trailing_stop_activation cfg
                   \<le> (if 0 < premium_received p
                       then (premium_received p - cop) / premium_received p * 100 else 0)\<rparr>
                 else p)"
      show ?thesis
      proof (cases "use_trailing_stop cfg")
        case True
        with P show ?thesis by (simp only: if_True) blast
      next
        case False
        with P show ?thesis using trailing_frame_refl[of p] by (simp only: if_False)
      qed
    qed
    with lists show ?thesis by blast
  qed
qed

lemma early_exit_scan_effect:
  assumes "early_exit_scan cdf cfg data d ps (cl, al) = Inr (ps', cl', al')"
  shows "map fst ps' = map fst ps
       \<and> (\<forall>s q. (s, q) \<in> set ps' \<longrightarrow>
             (\<exists>p h a. (s, p) \<in> set ps
                \<and> q = p\<lparr> profit_high_water_mark := h, trailing_stop_active := a \<rparr>))
       \<and> (\<exists>cs as. cl' = cl @ cs \<and> al' = al @ as
             \<and> set (map fst cs) \<union> set (map fst as) \<subseteq> set (map fst ps)
             \<and> (\<forall>s\<in>set (map fst as). \<exists>p. (s, p) \<in> set ps \<and> \<not> adjusted p)
             \<and> (distinct (map fst ps) \<longrightarrow> distinct (map fst cs @ map fst as)))"
  using assms
proof (induction ps arbitrary: cl al ps' cl' al')
  case Nil
  then show ?case by simp
next
  case (Cons sp ps)
  obtain s p where sp: "sp = (s, p)" by (cases sp)
  from Cons.prems obtain p1 cl1 al1 rest' where
    step: "early_exit_step cdf cfg data d s p (cl, al) = Inr (p1, cl1, al1)"
    and scan: "early_exit_scan cdf cfg data d ps (cl1, al1) = Inr (rest', cl', al')"
    and ps': "ps' = (s, p1) # rest'"
    unfolding sp by (auto split: sum.splits prod.splits)
  from early_exit_step_effect[OF step]
  have p1: "\<exists>h a. p1 = p\<lparr> profit_high_water_mark := h, trailing_stop_active := a \<rparr>"
    and l1: "(cl1 = cl \<and> al1 = al)
            \<or> (\<exists>x. cl1 = cl @ [(s, x)] \<and> al1 = al)
            \<or> (\<exists>y. cl1 = cl \<and> al1 = al @ [(s, y)] \<and> \<not> adjusted p)"
    by blast+
  from Cons.IH[OF scan]
  obtain cs as where k: "map fst rest' = map fst ps"
    and f: "\<forall>s q. (s, q) \<in> set rest' \<longrightarrow>
             (\<exists>p h a. (s, p) \<in> set ps
                \<and> q = p\<lparr> profit_high_water_mark := h, trailing_stop_active := a \<rparr>)"
    and c: "cl' = cl1 @ cs" and a: "al' = al1 @ as"
    and sub: "set (map fst cs) \<union> set (map fst as) \<subseteq> set (map fst ps)"
    and na: "\<forall>s\<in>set (map fst as). \<exists>p. (s, p) \<in> set ps \<and> \<not> adjusted p"
    and di: "distinct (map fst ps) \<longrightarrow> distinct (map fst cs @ map fst as)"
    by blast
  have keys: "map fst ps' = map fst (sp # ps)" using k ps' sp by simp
  have frame: "\<forall>s' q. (s', q) \<in> set ps' \<longrightarrow>
             (\<exists>p' h a. (s', p') \<in> set (sp # ps)
                \<and> q = p'\<lparr> profit_high_water_mark := h, trailing_stop_active := a \<rparr>)"
  proof (intro allI impI)
    fix s' q assume "(s', q) \<in> set ps'"
    then have "(s', q) = (s, p1) \<or> (s', q) \<in> set rest'" unfolding ps' by simp
    then show "\<exists>p' h a. (s', p') \<in> set (sp # ps)
                \<and> q = p'\<lparr> profit_high_water_mark := h, trailing_stop_active := a \<rparr>"
    proof
      assume "(s', q) = (s, p1)"
      then have "s' = s" "q = p1" by simp_all
      with p1 have "(s', p) \<in> set (sp # ps)
         \<and> (\<exists>h a. q = p\<lparr> profit_high_water_mark := h, trailing_stop_active := a \<rparr>)"
        unfolding sp by simp
      then show ?thesis by blast
    next
      assume "(s', q) \<in> set rest'"
      with f obtain p' h a where "(s', p') \<in> set ps"
        "q = p'\<lparr> profit_high_water_mark := h, trailing_stop_active := a \<rparr>" by blast
      then have "(s', p') \<in> set (sp # ps)
         \<and> q = p'\<lparr> profit_high_water_mark := h, trailing_stop_active := a \<rparr>" by simp
      then show ?thesis by blast
    qed
  qed
  have na': "\<forall>s'\<in>set (map fst as). \<exists>p'. (s', p') \<in> set (sp # ps) \<and> \<not> adjusted p'"
    using na by fastforce
  have hd_in: "(s, p) \<in> set (sp # ps)" unfolding sp by simp
  have fresh: "distinct (map fst (sp # ps)) \<Longrightarrow> s \<notin> set (map fst cs) \<and> s \<notin> set (map fst as)"
    using sub unfolding sp by auto
  from l1 have lists: "\<exists>cs' as'. cl' = cl @ cs' \<and> al' = al @ as'
             \<and> set (map fst cs') \<union> set (map fst as') \<subseteq> set (map fst (sp # ps))
             \<and> (\<forall>s'\<in>set (map fst as'). \<exists>p'. (s', p') \<in> set (sp # ps) \<and> \<not> adjusted p')
             \<and> (distinct (map fst (sp # ps)) \<longrightarrow> distinct (map fst cs' @ map fst as'))"
  proof (elim disjE exE conjE)
    assume "cl1 = cl" "al1 = al"
    then have "cl' = cl @ cs \<and> al' = al @ as
             \<and> set (map fst cs) \<union> set (map fst as) \<subseteq> set (map fst (sp # ps))
             \<and> (\<forall>s'\<in>set (map fst as). \<exists>p'. (s', p') \<in> set (sp # ps) \<and> \<not> adjusted p')
             \<and> (distinct (map fst (sp # ps)) \<longrightarrow> distinct (map fst cs @ map fst as))"
      using c a sub na' di by auto
    then show ?thesis by blast
  next
    fix x assume "cl1 = cl @ [(s, x)]" "al1 = al"
    then have "cl' = cl @ ((s, x) # cs) \<and> al' = al @ as
             \<and> set (map fst ((s, x) # cs)) \<union> set (map fst as) \<subseteq> set (map fst (sp # ps))
             \<and> (\<forall>s'\<in>set (map fst as). \<exists>p'. (s', p') \<in> set (sp # ps) \<and> \<not> adjusted p')
             \<and> (distinct (map fst (sp # ps)) \<longrightarrow> distinct (map fst ((s, x) # cs) @ map fst as))"
      using c a sub na' di fresh unfolding sp by auto
    then show ?thesis by blast
  next
    fix y assume "cl1 = cl" "al1 = al @ [(s, y)]" and nadj: "\<not> adjusted p"
    have na2: "\<forall>s'\<in>set (map fst ((s, y) # as)). \<exists>p'. (s', p') \<in> set (sp # ps) \<and> \<not> adjusted p'"
      using na' hd_in nadj by auto
    from \<open>cl1 = cl\<close> \<open>al1 = al @ [(s, y)]\<close>
    have "cl' = cl @ cs \<and> al' = al @ ((s, y) # as)
             \<and> set (map fst cs) \<union> set (map fst ((s, y) # as)) \<subseteq> set (map fst (sp # ps))
             \<and> (distinct (map fst (sp # ps)) \<longrightarrow> distinct (map fst cs @ map fst ((s, y) # as)))"
      using c a sub di fresh unfolding sp by auto
    with na2 show ?thesis by blast
  qed
  from keys frame lists show ?case by blast
qed

lemma adjust_all_frame:
  assumes "adjust_all cdf cfg e d as = Some (Inr e')"
    and "s \<notin> fst ` set as"
  shows "map_of (positions e') s = map_of (positions e) s"
  using assms
proof (induction as arbitrary: e)
  case Nil
  then show ?case by simp
next
  case (Cons a as)
  obtain s1 sp bb lost tte iv where a: "a = (s1, sp, bb, lost, tte, iv)" by (cases a)
  from Cons.prems(1) obtain e1 where
    one: "adjust_position cdf cfg e s1 d sp bb lost tte iv = Some (Inr e1)"
    and rest: "adjust_all cdf cfg e1 d as = Some (Inr e')"
    unfolding a by (auto split: option.splits sum.splits)
  have ne: "s \<noteq> s1" and notin: "s \<notin> fst ` set as" using Cons.prems(2) a by auto
  from adjust_position_result[OF one] ne
  have "map_of (positions e1) s = map_of (positions e) s"
    by (auto simp: AList.update_conv')
  with Cons.IH[OF rest notin] show ?case by simp
qed

lemma close_all_frame:
  assumes "close_all cfg e d cs = Inr e'"
    and "map_of (positions e') s = Some q"
  shows "map_of (positions e) s = Some q"
  using assms
proof (induction cs arbitrary: e)
  case Nil
  then show ?case by simp
next
  case (Cons c cs)
  obtain s1 sp op r where c: "c = (s1, sp, op, r)" by (cases c)
  from Cons.prems(1) obtain e1 where
    one: "close_position cfg e s1 d sp op r = Inr e1"
    and rest: "close_all cfg e1 d cs = Inr e'"
    unfolding c by (auto split: sum.splits)
  from Cons.IH[OF rest Cons.prems(2)] have q: "map_of (positions e1) s = Some q" .
  from one have "positions e1 = AList.delete s1 (positions e)"
    by (auto simp: close_position_def Let_def split: option.splits)
  with q show ?case by (auto simp: AList.delete_conv' split: if_splits)
qed

lemma check_early_exits_keeps_adjusted:
  assumes dist: "distinct (map fst (positions e))"
    and run: "check_early_exits cdf cfg e d data = Some (Inr e')"
    and before: "map_of (positions e) s = Some p" "adjusted p"
    and after: "map_of (positions e') s = Some q"
  shows "\<exists>h a. q = p\<lparr> profit_high_water_mark := h, trailing_stop_active := a \<rparr>"
proof -
  from run obtain ps' cl al e1 where
    scan: "early_exit_scan cdf cfg data d (positions e) ([], []) = Inr (ps', cl, al)"
    and adj: "adjust_all cdf cfg (e\<lparr> positions := ps' \<rparr>) d al = Some (Inr e1)"
    and cls: "close_all cfg e1 d cl = Inr e'"
    unfolding check_early_exits_def by (auto split: sum.splits prod.splits option.splits)
  from early_exit_scan_effect[OF scan]
  have frame: "\<forall>s q. (s, q) \<in> set ps' \<longrightarrow>
             (\<exists>p h a. (s, p) \<in> set (positions e)
                \<and> q = p\<lparr> profit_high_water_mark := h, trailing_stop_active := a \<rparr>)"
    and na: "\<forall>s\<in>set (map fst al). \<exists>p. (s, p) \<in> set (positions e) \<and> \<not> adjusted p"
    by auto
  have sp: "(s, p) \<in> set (positions e)" using before(1) by (rule map_of_SomeD)
  have notin: "s \<notin> fst ` set al"
  proof
    assume "s \<in> fst ` set al"
    then have "s \<in> set (map fst al)" by simp
    with na obtain p2 where p2: "(s, p2) \<in> set (positions e)" "\<not> adjusted p2" by blast
    from dist sp p2(1) have "p2 = p" by (meson eq_key_imp_eq_value)
    with p2(2) before(2) show False by simp
  qed
  from close_all_frame[OF cls after] have "map_of (positions e1) s = Some q" .
  with adjust_all_frame[OF adj notin] have "map_of ps' s = Some q" by simp
  then have "(s, q) \<in> set ps'" by (rule map_of_SomeD)
  with frame obtain p3 h a where p3: "(s, p3) \<in> set (positions e)"
    and q: "q = p3\<lparr> profit_high_water_mark := h, trailing_stop_active := a \<rparr>" by blast
  from dist sp p3 have "p3 = p" by (meson eq_key_imp_eq_value)
  with q show ?thesis by blast
qed

lemma check_early_exits_example:
  "check_early_exits (\<lambda>x. 1 / 2)
     ((default_config [''A''] 0 90 OTM_2PCT STOP_LOSS) \<lparr> risk_free_rate := 0, allow_sl_adjustment := True \<rparr>)
     \<lparr> positions = [(''A'', (new_position ''A'' 10 1 100 110 1 40)
                               \<lparr> iv_at_entry := 2 / 10, adjusted := True \<rparr>)],
       trades = [], cash = 1000 \<rparr>
     10
     [''A'' \<mapsto> [\<lparr> bar_date = 10, bar_open = 108, bar_high = 111, bar_low = 107,
                   bar_close = 110, bar_volume = 1000 \<rparr>]]
   = Some (Inr \<lparr> positions = [(''A'', (new_position ''A'' 10 1 100 110 1 40)
                                        \<lparr> iv_at_entry := 2 / 10, adjusted := True \<rparr>)],
                 trades = [], cash = 1000 \<rparr>)"
proof -
  let ?data = "[''A'' \<mapsto> [\<lparr> bar_date = 10, bar_open = 108, bar_high = 111, bar_low = 107,
                   bar_close = 110, bar_volume = 1000 \<rparr>]]"
  let ?cfg = "(default_config [''A''] 0 90 OTM_2PCT STOP_LOSS)
                \<lparr> risk_free_rate := 0, allow_sl_adjustment := True \<rparr>"
  let ?p = "(new_position ''A'' 10 1 100 110 1 40) \<lparr> iv_at_entry := 2 / 10, adjusted := True \<rparr>"
  have price: "get_price ''A'' 10 ?data = Some 110"
    by (simp add: get_price_def)
  have priced: "calculate_option_price (\<lambda>x. 1 / 2) 0 110 110 (real_of_int 30 / 365) (2 / 10) ''CE'' None = Inr 0"
    by (simp add: calculate_option_price_call)
  have step: "early_exit_step (\<lambda>x. 1 / 2) ?cfg ?data 10 ''A'' ?p ([], []) = Inr (?p, [], [])"
    using early_exit_step_cases[where s="''A''" and d=10 and data="?data" and sp=110
        and cdf="\<lambda>x. 1 / 2" and cop=0 and cl="[]" and al="[]" and cfg="?cfg" and p="?p"]
      price priced
    by (simp add: default_config_def new_position_def)
  show ?thesis
    unfolding check_early_exits_def engine.select_convs early_exit_scan.simps step
    by simp
qed

lemma up_to_date_row_today:
  assumes srt: "sorted_wrt (\<lambda>a b. bar_date a < bar_date b) df"
    and cur: "cur \<in> set df" "bar_date cur = d"
  shows "up_to_date df d = filter (\<lambda>b. bar_date b < d) df @ [cur]"
proof -
  from cur(1) obtain xs ys where df: "df = xs @ cur # ys" by (auto dest: split_list)
  from srt have before: "\<forall>b\<in>set xs. bar_date b < d" and after: "\<forall>b\<in>set ys. d < bar_date b"
    unfolding df using cur(2) by (auto simp: sorted_wrt_append)
  have 1: "filter (\<lambda>b. bar_date b \<le> d) xs = xs" "filter (\<lambda>b. bar_date b < d) xs = xs"
    using before by (auto simp: filter_id_conv less_imp_le)
  have 2: "filter (\<lambda>b. bar_date b \<le> d) ys = []" "filter (\<lambda>b. bar_date b < d) ys = []"
    using after by (auto simp: filter_empty_conv)
  show ?thesis unfolding up_to_date_def df using cur(2) by (simp add: 1 2)
qed

lemma calculate_pivot_points_first_row:
  assumes "data s = Some df"
    and srt: "sorted_wrt (\<lambda>a b. bar_date a < bar_date b) df"
    and cur: "cur \<in> set df" "bar_date cur = d"
    and first: "\<forall>b\<in>set df. d \<le> bar_date b"
  shows "calculate_pivot_points s d data = Some (pivot_levels cur)"
proof -
  have "filter (\<lambda>b. bar_date b < d) df = []" using first by (auto simp: filter_empty_conv)
  then have "up_to_date df d = [cur]" using up_to_date_row_today[OF srt cur] by simp
  then show ?thesis using assms(1) by (simp add: calculate_pivot_points_cases)
qed

lemma calculate_pivot_points_row_before:
  assumes "data s = Some df"
    and srt: "sorted_wrt (\<lambda>a b. bar_date a < bar_date b) df"
    and cur: "cur \<in> set df" "bar_date cur = d"
    and prev: "prev \<in> set df" "bar_date prev < d"
    and latest: "\<forall>b\<in>set df. bar_date b < d \<longrightarrow> bar_date b \<le> bar_date prev"
  shows "calculate_pivot_points s d data = Some (pivot_levels prev)"
proof -
  let ?xs = "filter (\<lambda>b. bar_date b < d) df"
  have sx: "sorted_wrt (\<lambda>a b. bar_date a < bar_date b) ?xs" using srt by (rule sorted_wrt_filter)
  have mem: "prev \<in> set ?xs" using prev by simp
  have ne: "?xs \<noteq> []"
    using length_pos_if_in_set[OF mem] by simp
  have "last ?xs = prev"
  proof (rule ccontr)
    assume neq: "last ?xs \<noteq> prev"
    from mem[unfolded in_set_conv_nth] obtain i where i: "i < length ?xs" "?xs ! i = prev" by blast
    have "i \<noteq> length ?xs - 1" using neq i ne by (auto simp: last_conv_nth)
    with i(1) have lt: "i < length ?xs - 1" "length ?xs - 1 < length ?xs" by auto
    from sorted_wrt_nth_less[OF sx lt] i(2)
    have "bar_date prev < bar_date (last ?xs)" using ne by (simp add: last_conv_nth)
    moreover have "last ?xs \<in> set ?xs" using ne by (rule last_in_set)
    then have "last ?xs \<in> set df" "bar_date (last ?xs) < d" by auto
    with latest have "bar_date (last ?xs) \<le> bar_date prev" by blast
    ultimately show False by simp
  qed
  then have lp: "?xs ! (length ?xs - 1) = prev" using ne by (simp add: last_conv_nth)
  have h: "up_to_date df d = ?xs @ [cur]" by (rule up_to_date_row_today[OF srt cur])
  have pos: "0 < length ?xs" using ne by simp
  have at: "up_to_date df d ! (length (up_to_date df d) - 2) = prev"
    unfolding h using pos lp by (simp add: nth_append)
  have "up_to_date df d \<noteq> []" "length (up_to_date df d) \<noteq> 1"
    unfolding h using pos by simp_all
  with at show ?thesis using assms(1) by (simp add: calculate_pivot_points_cases)
qed

lemma calculate_pivot_points_none_so_far:
  assumes "data s = Some df" and "\<forall>b\<in>set df. d < bar_date b"
  shows "calculate_pivot_points s d data = None"
proof -
  have "up_to_date df d = []" unfolding up_to_date_def using assms(2)
    by (auto simp: filter_empty_conv)
  then show ?thesis using assms(1) by (simp add: calculate_pivot_points_cases)
qed

lemma calculate_pivot_points_no_row_today:
  assumes "data s = Some (xs @ [a, b] @ ys)"
    and "\<forall>x\<in>set xs. bar_date x \<le> d" "bar_date a \<le> d" "bar_date b \<le> d"
    and "\<forall>y\<in>set ys. d < bar_date y"
  shows "calculate_pivot_points s d data = Some (pivot_levels a)"
proof -
  have "filter (\<lambda>b. bar_date b \<le> d) xs = xs" using assms(2) by (auto simp: filter_id_conv)
  moreover have "filter (\<lambda>b. bar_date b \<le> d) ys = []" using assms(5) by (auto simp: filter_empty_conv)
  ultimately have "up_to_date (xs @ [a, b] @ ys) d = xs @ [a, b]"
    unfolding up_to_date_def using assms(3,4) by simp
  then show ?thesis using assms(1) by (simp add: calculate_pivot_points_cases nth_append)
qed

lemma exit_chain_append:
  "(if a then Inr (p, cl @ [x1], al)
    else if b then Inr (P, cl @ [x2], al)
    else if c then Inr (P, cl @ [x3], al)
    else if e then (if f then Inr (P, cl, al @ [y]) else Inr (P, cl @ [x4], al))
    else Inr (P, cl, al))
   = (case (if a then Inr (p, [] @ [x1], [])
            else if b then Inr (P, [] @ [x2], [])
            else if c then Inr (P, [] @ [x3], [])
            else if e then (if f then Inr (P, [], [] @ [y]) else Inr (P, [] @ [x4], []))
            else Inr (P, [], [])) of
        Inl (err :: 'e) \<Rightarrow> Inl err
      | Inr (p1, cs, as) \<Rightarrow> Inr (p1 :: 'p, cl @ (cs :: 'x list), al @ (as :: 'y list)))"
  by simp

lemma early_exit_step_append:
  "early_exit_step cdf cfg data d s p (cl, al)
     = (case early_exit_step cdf cfg data d s p ([], []) of
          Inl err \<Rightarrow> Inl err
        | Inr (p1, cs, as) \<Rightarrow> Inr (p1, cl @ cs, al @ as))"
proof (cases "get_price s d data")
  case None
  then show ?thesis by (simp add: early_exit_step_def)
next
  case (Some sp)
  show ?thesis
  proof (cases "expiry_date p - d \<le> 0")
    case True
    then show ?thesis using Some by (simp add: early_exit_step_def)
  next
    case False
    then have od: "0 < expiry_date p - d" by simp
    show ?thesis
    proof (cases "calculate_option_price cdf (risk_free_rate cfg) sp (strike_price p)
                  (real_of_int (expiry_date p - d) / 365) (iv_at_entry p) ''CE'' None")
      case (Inl err)
      then show ?thesis using Some False by (simp add: early_exit_step_def Let_def)
    next
      case (Inr cop)
      show ?thesis
        unfolding early_exit_step_cases[OF Some od Inr, of cl al]
          early_exit_step_cases[OF Some od Inr, of "[]" "[]"]
        by (rule exit_chain_append)
    qed
  qed
qed

lemma early_exit_scan_outcome:
  assumes "early_exit_scan cdf cfg data d ps (cl, al) = Inr (ps', cl', al')"
    and "distinct (map fst ps)"
  shows "(\<forall>s. s \<notin> fst ` set ps \<longrightarrow>
            filter (\<lambda>x. fst x = s) cl' = filter (\<lambda>x. fst x = s) cl
          \<and> filter (\<lambda>x. fst x = s) al' = filter (\<lambda>x. fst x = s) al)
       \<and> (\<forall>s p. (s, p) \<in> set ps \<longrightarrow>
            (\<exists>p1 cs as. early_exit_step cdf cfg data d s p ([], []) = Inr (p1, cs, as)
               \<and> map_of ps' s = Some p1
               \<and> filter (\<lambda>x. fst x = s) cl' = filter (\<lambda>x. fst x = s) cl @ cs
               \<and> filter (\<lambda>x. fst x = s) al' = filter (\<lambda>x. fst x = s) al @ as))"
  using assms
proof (induction ps arbitrary: cl al ps' cl' al')
  case Nil
  then show ?case by simp
next
  case (Cons sp ps)
  obtain s0 p0 where sp: "sp = (s0, p0)" by (cases sp)
  from Cons.prems(1) obtain p1 cl1 al1 rest' where
    step: "early_exit_step cdf cfg data d s0 p0 (cl, al) = Inr (p1, cl1, al1)"
    and scan: "early_exit_scan cdf cfg data d ps (cl1, al1) = Inr (rest', cl', al')"
    and ps': "ps' = (s0, p1) # rest'"
    unfolding sp by (auto split: sum.splits prod.splits)
  from step obtain cs0 as0 where
    step0: "early_exit_step cdf cfg data d s0 p0 ([], []) = Inr (p1, cs0, as0)"
    and cl1: "cl1 = cl @ cs0" and al1: "al1 = al @ as0"
    by (subst (asm) early_exit_step_append) (auto split: sum.splits prod.splits)
  from early_exit_step_effect[OF step0]
  have shape: "(cs0 = [] \<and> as0 = [])
            \<or> (\<exists>x. cs0 = [(s0, x)] \<and> as0 = [])
            \<or> (\<exists>y. cs0 = [] \<and> as0 = [(s0, y)] \<and> \<not> adjusted p0)"
    by simp
  then have own: "filter (\<lambda>x. fst x = s0) cs0 = cs0" "filter (\<lambda>x. fst x = s0) as0 = as0"
    by auto
  from shape have other: "\<And>s. s \<noteq> s0 \<Longrightarrow> filter (\<lambda>x. fst x = s) cs0 = []
                                         \<and> filter (\<lambda>x. fst x = s) as0 = []"
    by auto
  have dist: "distinct (map fst ps)" and fresh: "s0 \<notin> fst ` set ps"
    using Cons.prems(2) unfolding sp by auto
  note ih = Cons.IH[OF scan dist]
  from ih have ih1: "\<And>s. s \<notin> fst ` set ps \<Longrightarrow>
            filter (\<lambda>x. fst x = s) cl' = filter (\<lambda>x. fst x = s) cl1
          \<and> filter (\<lambda>x. fst x = s) al' = filter (\<lambda>x. fst x = s) al1"
    by blast
  from ih have ih2: "\<And>s p. (s, p) \<in> set ps \<Longrightarrow>
            (\<exists>p1 cs as. early_exit_step cdf cfg data d s p ([], []) = Inr (p1, cs, as)
               \<and> map_of rest' s = Some p1
               \<and> filter (\<lambda>x. fst x = s) cl' = filter (\<lambda>x. fst x = s) cl1 @ cs
               \<and> filter (\<lambda>x. fst x = s) al' = filter (\<lambda>x. fst x = s) al1 @ as)"
    by blast
  have a: "\<forall>s. s \<notin> fst ` set (sp # ps) \<longrightarrow>
            filter (\<lambda>x. fst x = s) cl' = filter (\<lambda>x. fst x = s) cl
          \<and> filter (\<lambda>x. fst x = s) al' = filter (\<lambda>x. fst x = s) al"
  proof (intro allI impI)
    fix s assume "s \<notin> fst ` set (sp # ps)"
    then have ne: "s \<noteq> s0" and nin: "s \<notin> fst ` set ps" unfolding sp by auto
    from ih1[OF nin] other[OF ne]
    show "filter (\<lambda>x. fst x = s) cl' = filter (\<lambda>x. fst x = s) cl
          \<and> filter (\<lambda>x. fst x = s) al' = filter (\<lambda>x. fst x = s) al"
      unfolding cl1 al1 by simp
  qed
  have b: "\<forall>s p. (s, p) \<in> set (sp # ps) \<longrightarrow>
            (\<exists>p1 cs as. early_exit_step cdf cfg data d s p ([], []) = Inr (p1, cs, as)
               \<and> map_of ps' s = Some p1
               \<and> filter (\<lambda>x. fst x = s) cl' = filter (\<lambda>x. fst x = s) cl @ cs
               \<and> filter (\<lambda>x. fst x = s) al' = filter (\<lambda>x. fst x = s) al @ as)"
  proof (intro allI impI)
    fix s p assume "(s, p) \<in> set (sp # ps)"
    then consider "s = s0" "p = p0" | "(s, p) \<in> set ps" unfolding sp by auto
    then show "\<exists>p1 cs as. early_exit_step cdf cfg data d s p ([], []) = Inr (p1, cs, as)
               \<and> map_of ps' s = Some p1
               \<and> filter (\<lambda>x. fst x = s) cl' = filter (\<lambda>x. fst x = s) cl @ cs
               \<and> filter (\<lambda>x. fst x = s) al' = filter (\<lambda>x. fst x = s) al @ as"
    proof cases
      case 1
      have "early_exit_step cdf cfg data d s p ([], []) = Inr (p1, cs0, as0)
               \<and> map_of ps' s = Some p1
               \<and> filter (\<lambda>x. fst x = s) cl' = filter (\<lambda>x. fst x = s) cl @ cs0
               \<and> filter (\<lambda>x. fst x = s) al' = filter (\<lambda>x. fst x = s) al @ as0"
        using step0 ih1[OF fresh] own unfolding 1 ps' cl1 al1 by simp
      then show ?thesis by blast
    next
      case 2
      then have ne: "s \<noteq> s0" using fresh by force
      from ih2[OF 2] obtain q cs as where
        "early_exit_step cdf cfg data d s p ([], []) = Inr (q, cs, as)"
        "map_of rest' s = Some q"
        "filter (\<lambda>x. fst x = s) cl' = filter (\<lambda>x. fst x = s) cl1 @ cs"
        "filter (\<lambda>x. fst x = s) al' = filter (\<lambda>x. fst x = s) al1 @ as"
        by blast
      then have "early_exit_step cdf cfg data d s p ([], []) = Inr (q, cs, as)
               \<and> map_of ps' s = Some q
               \<and> filter (\<lambda>x. fst x = s) cl' = filter (\<lambda>x. fst x = s) cl @ cs
               \<and> filter (\<lambda>x. fst x = s) al' = filter (\<lambda>x. fst x = s) al @ as"
        using other[OF ne] ne unfolding ps' cl1 al1 by simp
      then show ?thesis by blast
    qed
  qed
  from a b show ?case by blast
qed

lemma adjust_all_trades:
  assumes "adjust_all cdf cfg e d al = Some (Inr e')"
  shows "trades e' = trades e"
  using assms
proof (induction al arbitrary: e)
  case Nil
  then show ?case by simp
next
  case (Cons a al)
  obtain sb sp bb lost tte iv where a: "a = (sb, sp, bb, lost, tte, iv)" by (cases a)
  from Cons.prems(1) obtain e1 where
    one: "adjust_position cdf cfg e sb d sp bb lost tte iv = Some (Inr e1)"
    and rest: "adjust_all cdf cfg e1 d al = Some (Inr e')"
    unfolding a by (auto split: option.splits sum.splits)
  from adjust_position_result[OF one] have "trades e1 = trades e" by auto
  with Cons.IH[OF rest] show ?case by simp
qed

lemma adjust_all_outcome:
  assumes "adjust_all cdf cfg e d al = Some (Inr e')"
    and "distinct (map fst al)"
    and "(s, sp, bb, lost, tte, iv) \<in> set al"
  shows "\<exists>e1 e2. adjust_position cdf cfg e1 s d sp bb lost tte iv = Some (Inr e2)
           \<and> map_of (positions e1) s = map_of (positions e) s
           \<and> map_of (positions e') s = map_of (positions e2) s"
  using assms
proof (induction al arbitrary: e)
  case Nil
  then show ?case by simp
next
  case (Cons a al)
  obtain sb sp1 bb1 lost1 tte1 iv1 where a: "a = (sb, sp1, bb1, lost1, tte1, iv1)" by (cases a)
  from Cons.prems(1) obtain e1 where
    one: "adjust_position cdf cfg e sb d sp1 bb1 lost1 tte1 iv1 = Some (Inr e1)"
    and rest: "adjust_all cdf cfg e1 d al = Some (Inr e')"
    unfolding a by (auto split: option.splits sum.splits)
  have dist: "distinct (map fst al)" and fresh: "sb \<notin> fst ` set al"
    using Cons.prems(2) unfolding a by auto
  from Cons.prems(3) consider "(s, sp, bb, lost, tte, iv) = a" | "(s, sp, bb, lost, tte, iv) \<in> set al"
    by auto
  then show ?case
  proof cases
    case 1
    then have eq: "sb = s" "sp1 = sp" "bb1 = bb" "lost1 = lost" "tte1 = tte" "iv1 = iv"
      unfolding a by simp_all
    have "s \<notin> fst ` set al" using fresh eq by simp
    from adjust_all_frame[OF rest this]
    have "adjust_position cdf cfg e s d sp bb lost tte iv = Some (Inr e1)
           \<and> map_of (positions e) s = map_of (positions e) s
           \<and> map_of (positions e') s = map_of (positions e1) s"
      using one eq by simp
    then show ?thesis by blast
  next
    case 2
    then have "s \<in> fst ` set al" by force
    with fresh have ne: "s \<noteq> sb" by auto
    from adjust_position_result[OF one] ne
    have same: "map_of (positions e1) s = map_of (positions e) s"
      by (auto simp: AList.update_conv')
    from Cons.IH[OF rest dist 2] obtain ea eb where
      "adjust_position cdf cfg ea s d sp bb lost tte iv = Some (Inr eb)"
      "map_of (positions ea) s = map_of (positions e1) s"
      "map_of (positions e') s = map_of (positions eb) s" by blast
    with same have "adjust_position cdf cfg ea s d sp bb lost tte iv = Some (Inr eb)
           \<and> map_of (positions ea) s = map_of (positions e) s
           \<and> map_of (positions e') s = map_of (positions eb) s" by simp
    then show ?thesis by blast
  qed
qed

lemma close_position_effect:
  assumes "close_position cfg e sb d sp op r = Inr e1"
  shows "\<exists>q. map_of (positions e) sb = Some q
           \<and> positions e1 = AList.delete sb (positions e)
           \<and> trades e1 = trades e @ [make_trade cfg sb q d sp op r]"
  using assms by (auto simp: close_position_def Let_def split: option.splits)

lemma make_trade_symbol: "t_symbol (make_trade cfg s q d sp op r) = s"
  by (simp add: make_trade_def Let_def)

lemma close_all_other:
  assumes "close_all cfg e d cl = Inr e'"
    and "s \<notin> fst ` set cl"
  shows "map_of (positions e') s = map_of (positions e) s
       \<and> filter (\<lambda>t. t_symbol t = s) (trades e') = filter (\<lambda>t. t_symbol t = s) (trades e)"
  using assms
proof (induction cl arbitrary: e)
  case Nil
  then show ?case by simp
next
  case (Cons c cl)
  obtain sb sp op r where c: "c = (sb, sp, op, r)" by (cases c)
  from Cons.prems(1) obtain e1 where
    one: "close_position cfg e sb d sp op r = Inr e1"
    and rest: "close_all cfg e1 d cl = Inr e'"
    unfolding c by (auto split: sum.splits)
  have ne: "s \<noteq> sb" and nin: "s \<notin> fst ` set cl" using Cons.prems(2) c by auto
  from close_position_effect[OF one] ne
  have "map_of (positions e1) s = map_of (positions e) s
       \<and> filter (\<lambda>t. t_symbol t = s) (trades e1) = filter (\<lambda>t. t_symbol t = s) (trades e)"
    by (auto simp: AList.delete_conv' make_trade_symbol)
  with Cons.IH[OF rest nin] show ?case by simp
qed

lemma close_all_outcome:
  assumes "close_all cfg e d cl = Inr e'"
    and "distinct (map fst cl)"
    and "(s, sp, op, r) \<in> set cl"
  shows "\<exists>q. map_of (positions e) s = Some q
           \<and> map_of (positions e') s = None
           \<and> filter (\<lambda>t. t_symbol t = s) (trades e')
               = filter (\<lambda>t. t_symbol t = s) (trades e) @ [make_trade cfg s q d sp op r]"
  using assms
proof (induction cl arbitrary: e)
  case Nil
  then show ?case by simp
next
  case (Cons c cl)
  obtain sb sp1 op1 rb where c: "c = (sb, sp1, op1, rb)" by (cases c)
  from Cons.prems(1) obtain e1 where
    one: "close_position cfg e sb d sp1 op1 rb = Inr e1"
    and rest: "close_all cfg e1 d cl = Inr e'"
    unfolding c by (auto split: sum.splits)
  have dist: "distinct (map fst cl)" and fresh: "sb \<notin> fst ` set cl"
    using Cons.prems(2) unfolding c by auto
  from close_position_effect[OF one] obtain q1 where
    q1: "map_of (positions e) sb = Some q1"
    and p1: "positions e1 = AList.delete sb (positions e)"
    and t1: "trades e1 = trades e @ [make_trade cfg sb q1 d sp1 op1 rb]" by blast
  from Cons.prems(3) consider "(s, sp, op, r) = c" | "(s, sp, op, r) \<in> set cl" by auto
  then show ?case
  proof cases
    case 1
    then have eq: "sb = s" "sp1 = sp" "op1 = op" "rb = r" unfolding c by simp_all
    have "s \<notin> fst ` set cl" using fresh eq by simp
    from close_all_other[OF rest this]
    have "map_of (positions e) s = Some q1
           \<and> map_of (positions e') s = None
           \<and> filter (\<lambda>t. t_symbol t = s) (trades e')
               = filter (\<lambda>t. t_symbol t = s) (trades e) @ [make_trade cfg s q1 d sp op r]"
      using q1 p1 t1 eq by (simp add: AList.delete_conv' make_trade_symbol)
    then show ?thesis by blast
  next
    case 2
    then have "s \<in> fst ` set cl" by force
    with fresh have ne: "s \<noteq> sb" by auto
    from Cons.IH[OF rest dist 2] obtain q where
      "map_of (positions e1) s = Some q" "map_of (positions e') s = None"
      "filter (\<lambda>t. t_symbol t = s) (trades e')
               = filter (\<lambda>t. t_symbol t = s) (trades e1) @ [make_trade cfg s q d sp op r]"
      by blast
    then have "map_of (positions e) s = Some q
           \<and> map_of (positions e') s = None
           \<and> filter (\<lambda>t. t_symbol t = s) (trades e')
               = filter (\<lambda>t. t_symbol t = s) (trades e) @ [make_trade cfg s q d sp op r]"
      using p1 t1 ne by (simp add: AList.delete_conv' make_trade_symbol)
    then show ?thesis by blast
  qed
qed

lemma filter_fst_single:
  assumes "filter (\<lambda>x. fst x = s) xs = [(s, y)]"
  shows "(s, y) \<in> set xs"
proof -
  have "(s, y) \<in> set (filter (\<lambda>x. fst x = s) xs)" unfolding assms by simp
  then show ?thesis by simp
qed

lemma filter_fst_none:
  assumes "filter (\<lambda>x. fst x = s) xs = []"
  shows "s \<notin> fst ` set xs"
  using assms by (auto simp: filter_empty_conv)

lemma check_early_exits_position:
  assumes dist: "distinct (map fst (positions e))"
    and run: "check_early_exits cdf cfg e d data = Some (Inr e')"
    and pos: "map_of (positions e) s = Some p"
  shows "\<exists>p1 cs as. early_exit_step cdf cfg data d s p ([], []) = Inr (p1, cs, as)
     \<and> (cs = [] \<and> as = [] \<longrightarrow>
           map_of (positions e') s = Some p1
         \<and> filter (\<lambda>t. t_symbol t = s) (trades e') = filter (\<lambda>t. t_symbol t = s) (trades e))
     \<and> (\<forall>sp op r. cs = [(s, sp, op, r)] \<longrightarrow>
           map_of (positions e') s = None
         \<and> filter (\<lambda>t. t_symbol t = s) (trades e')
             = filter (\<lambda>t. t_symbol t = s) (trades e) @ [make_trade cfg s p1 d sp op r])
     \<and> (\<forall>sp bb lost tte iv. as = [(s, sp, bb, lost, tte, iv)] \<longrightarrow>
           filter (\<lambda>t. t_symbol t = s) (trades e') = filter (\<lambda>t. t_symbol t = s) (trades e)
         \<and> (\<exists>k prem dl.
               adjust_new_strike
                 (if original_premium p1 = 0 then p1\<lparr> original_premium := premium_received p1 \<rparr> else p1)
                 sp lost = Some (Inr k)
             \<and> calculate_option_price cdf (risk_free_rate cfg) sp k tte iv ''CE'' None = Inr prem
             \<and> calculate_delta cdf (risk_free_rate cfg) sp k tte iv ''CE'' None = Inr dl
             \<and> map_of (positions e') s
                 = Some (p1\<lparr> original_premium := (if original_premium p1 = 0 then premium_received p1
                                                     else original_premium p1),
                             adjustment_date := Some d, adjustment_cost := bb, strike_price := k,
                             premium_received := prem, delta_at_entry := dl, adjusted := True \<rparr>)))"
proof -
  from run obtain ps' cl al e2 where
    scan: "early_exit_scan cdf cfg data d (positions e) ([], []) = Inr (ps', cl, al)"
    and adj: "adjust_all cdf cfg (e\<lparr> positions := ps' \<rparr>) d al = Some (Inr e2)"
    and cls: "close_all cfg e2 d cl = Inr e'"
    unfolding check_early_exits_def by (auto split: sum.splits prod.splits option.splits)
  from early_exit_scan_effect[OF scan] dist
  have dd: "distinct (map fst cl @ map fst al)" by auto
  then have dcl: "distinct (map fst cl)" and dal: "distinct (map fst al)"
    and disj: "fst ` set cl \<inter> fst ` set al = {}" by auto
  have sp: "(s, p) \<in> set (positions e)" using pos by (rule map_of_SomeD)
  from early_exit_scan_outcome[OF scan dist] sp
  obtain p1 cs as where
    step: "early_exit_step cdf cfg data d s p ([], []) = Inr (p1, cs, as)"
    and at: "map_of ps' s = Some p1"
    and fc: "filter (\<lambda>x. fst x = s) cl = cs"
    and fa: "filter (\<lambda>x. fst x = s) al = as"
    by fastforce
  have t2: "trades e2 = trades e" using adjust_all_trades[OF adj] by simp
  have none: "cs = [] \<and> as = [] \<longrightarrow>
           map_of (positions e') s = Some p1
         \<and> filter (\<lambda>t. t_symbol t = s) (trades e') = filter (\<lambda>t. t_symbol t = s) (trades e)"
  proof
    assume "cs = [] \<and> as = []"
    then have nc: "s \<notin> fst ` set cl" and na: "s \<notin> fst ` set al"
      using fc fa filter_fst_none by metis+
    from adjust_all_frame[OF adj na] at have "map_of (positions e2) s = Some p1" by simp
    with close_all_other[OF cls nc] t2
    show "map_of (positions e') s = Some p1
         \<and> filter (\<lambda>t. t_symbol t = s) (trades e') = filter (\<lambda>t. t_symbol t = s) (trades e)"
      by simp
  qed
  have closed: "\<forall>sp op r. cs = [(s, sp, op, r)] \<longrightarrow>
           map_of (positions e') s = None
         \<and> filter (\<lambda>t. t_symbol t = s) (trades e')
             = filter (\<lambda>t. t_symbol t = s) (trades e) @ [make_trade cfg s p1 d sp op r]"
  proof (intro allI impI)
    fix sp op r assume c: "cs = [(s, sp, op, r)]"
    then have mem: "(s, sp, op, r) \<in> set cl" using fc filter_fst_single by metis
    then have "s \<in> fst ` set cl" by force
    with disj have na: "s \<notin> fst ` set al" by auto
    from adjust_all_frame[OF adj na] at have q: "map_of (positions e2) s = Some p1" by simp
    from close_all_outcome[OF cls dcl mem] q t2
    show "map_of (positions e') s = None
         \<and> filter (\<lambda>t. t_symbol t = s) (trades e')
             = filter (\<lambda>t. t_symbol t = s) (trades e) @ [make_trade cfg s p1 d sp op r]"
      by auto
  qed
  have adjusted: "\<forall>sp bb lost tte iv. as = [(s, sp, bb, lost, tte, iv)] \<longrightarrow>
           filter (\<lambda>t. t_symbol t = s) (trades e') = filter (\<lambda>t. t_symbol t = s) (trades e)
         \<and> (\<exists>k prem dl.
               adjust_new_strike
                 (if original_premium p1 = 0 then p1\<lparr> original_premium := premium_received p1 \<rparr> else p1)
                 sp lost = Some (Inr k)
             \<and> calculate_option_price cdf (risk_free_rate cfg) sp k tte iv ''CE'' None = Inr prem
             \<and> calculate_delta cdf (risk_free_rate cfg) sp k tte iv ''CE'' None = Inr dl
             \<and> map_of (positions e') s
                 = Some (p1\<lparr> original_premium := (if original_premium p1 = 0 then premium_received p1
                                                     else original_premium p1),
                             adjustment_date := Some d, adjustment_cost := bb, strike_price := k,
                             premium_received := prem, delta_at_entry := dl, adjusted := True \<rparr>))"
  proof (intro allI impI)
    fix sp bb lost tte iv assume a: "as = [(s, sp, bb, lost, tte, iv)]"
    then have mem: "(s, sp, bb, lost, tte, iv) \<in> set al" using fa filter_fst_single by metis
    then have "s \<in> fst ` set al" by force
    with disj have nc: "s \<notin> fst ` set cl" by auto
    from adjust_all_outcome[OF adj dal mem] obtain ea eb where
      one: "adjust_position cdf cfg ea s d sp bb lost tte iv = Some (Inr eb)"
      and before: "map_of (positions ea) s = map_of (positions (e\<lparr> positions := ps' \<rparr>)) s"
      and after: "map_of (positions e2) s = map_of (positions eb) s" by blast
    from before at have pa: "map_of (positions ea) s = Some p1" by simp
    from adjust_position_result[OF one] pa obtain k prem dl where
      k: "adjust_new_strike
            (if original_premium p1 = 0 then p1\<lparr> original_premium := premium_received p1 \<rparr> else p1)
            sp lost = Some (Inr k)"
      and prem: "calculate_option_price cdf (risk_free_rate cfg) sp k tte iv ''CE'' None = Inr prem"
      and dl: "calculate_delta cdf (risk_free_rate cfg) sp k tte iv ''CE'' None = Inr dl"
      and eb: "map_of (positions eb) s
                 = Some (p1\<lparr> original_premium := (if original_premium p1 = 0 then premium_received p1
                                                     else original_premium p1),
                             adjustment_date := Some d, adjustment_cost := bb, strike_price := k,
                             premium_received := prem, delta_at_entry := dl, adjusted := True \<rparr>)"
      by (auto simp: AList.update_conv')
    from close_all_other[OF cls nc] after eb t2
    have "filter (\<lambda>t. t_symbol t = s) (trades e') = filter (\<lambda>t. t_symbol t = s) (trades e)"
      and "map_of (positions e') s
                 = Some (p1\<lparr> original_premium := (if original_premium p1 = 0 then premium_received p1
                                                     else original_premium p1),
                             adjustment_date := Some d, adjustment_cost := bb, strike_price := k,
                             premium_received := prem, delta_at_entry := dl, adjusted := True \<rparr>)"
      by simp_all
    with k prem dl
    show "filter (\<lambda>t. t_symbol t = s) (trades e') = filter (\<lambda>t. t_symbol t = s) (trades e)
         \<and> (\<exists>k prem dl.
               adjust_new_strike
                 (if original_premium p1 = 0 then p1\<lparr> original_premium := premium_received p1 \<rparr> else p1)
                 sp lost = Some (Inr k)
             \<and> calculate_option_price cdf (risk_free_rate cfg) sp k tte iv ''CE'' None = Inr prem
             \<and> calculate_delta cdf (risk_free_rate cfg) sp k tte iv ''CE'' None = Inr dl
             \<and> map_of (positions e') s
                 = Some (p1\<lparr> original_premium := (if original_premium p1 = 0 then premium_received p1
                                                     else original_premium p1),
                             adjustment_date := Some d, adjustment_cost := bb, strike_price := k,
                             premium_received := prem, delta_at_entry := dl, adjusted := True \<rparr>))"
      by blast
  qed
  from step none closed adjusted show ?thesis by blast
qed

lemma calculate_option_price_half:
  assumes "0 < spot" "0 < strike" "0 < T" "0 < vol"
  shows "calculate_option_price (\<lambda>x. 1 / 2) 0 spot strike T vol ''CE'' None = Inr ((spot - strike) / 2)"
  using assms by (simp add: calculate_option_price_call field_simps)

lemma calculate_delta_half:
  assumes "0 < spot" "0 < strike" "0 < T" "0 < vol"
  shows "calculate_delta (\<lambda>x. 1 / 2) 0 spot strike T vol ''CE'' None = Inr (1 / 2)"
  using assms by (simp add: calculate_delta_call)

lemma exit_day_example:
  fixes cfg :: BacktestConfig and data :: stock_data
  defines "cfg \<equiv> (default_config [''A'', ''B'', ''C''] 0 90 OTM_2PCT PROFIT_TARGET_AND_STOP_LOSS)
                     \<lparr> risk_free_rate := 0, allow_sl_adjustment := True \<rparr>"
    and "data \<equiv> [''A'' \<mapsto> [\<lparr> bar_date = 10, bar_open = 108, bar_high = 111, bar_low = 107,
                                bar_close = 110, bar_volume = 1000 \<rparr>],
                   ''B'' \<mapsto> [\<lparr> bar_date = 10, bar_open = 108, bar_high = 111, bar_low = 107,
                                bar_close = 110, bar_volume = 1000 \<rparr>,
                              \<lparr> bar_date = 11, bar_open = 112, bar_high = 121, bar_low = 111,
                                bar_close = 120, bar_volume = 1000 \<rparr>],
                   ''C'' \<mapsto> [\<lparr> bar_date = 10, bar_open = 108, bar_high = 111, bar_low = 107,
                                bar_close = 110, bar_volume = 1000 \<rparr>]]"
  defines "pa \<equiv> (new_position ''A'' 10 1 100 100 10 40) \<lparr> iv_at_entry := 2 / 10 \<rparr>"
    and "pb \<equiv> (new_position ''B'' 10 1 100 100 1 40) \<lparr> iv_at_entry := 2 / 10 \<rparr>"
    and "pc \<equiv> (new_position ''C'' 10 1 100 108 (3 / 2) 40) \<lparr> iv_at_entry := 2 / 10 \<rparr>"
  defines "pb2 \<equiv> pb\<lparr> original_premium := 1, adjustment_date := Some 10, adjustment_cost := 5,
                       strike_price := 105, premium_received := 5 / 2, delta_at_entry := 1 / 2,
                       adjusted := True \<rparr>"
  shows "check_early_exits (\<lambda>x. 1 / 2) cfg
           \<lparr> positions = [(''A'', pa), (''B'', pb), (''C'', pc)], trades = [], cash = 1000 \<rparr> 10 data
         = Some (Inr \<lparr> positions = [(''B'', pb2), (''C'', pc)],
                       trades = [make_trade cfg ''A'' pa 10 110 5 (PROFIT_TARGET_PCT 50)],
                       cash = 2025 \<rparr>)"
    and "check_early_exits (\<lambda>x. 1 / 2) cfg
           \<lparr> positions = [(''B'', pb2), (''C'', pc)],
             trades = [make_trade cfg ''A'' pa 10 110 5 (PROFIT_TARGET_PCT 50)],
             cash = 2025 \<rparr> 11 data
         = Some (Inr \<lparr> positions = [(''C'', pc)],
                       trades = [make_trade cfg ''A'' pa 10 110 5 (PROFIT_TARGET_PCT 50),
                                 make_trade cfg ''B'' pb2 11 120 (15 / 2) (STOP_LOSS_X 2 True)],
                       cash = 3150 \<rparr>)"
proof -
  let ?cdf = "\<lambda>x::real. 1 / 2 :: real"
  have pr: "get_price ''A'' 10 data = Some 110" "get_price ''B'' 10 data = Some 110"
    "get_price ''C'' 10 data = Some 110" "get_price ''B'' 11 data = Some 120"
    "get_price ''C'' 11 data = Some 110"
    unfolding data_def by (simp_all add: get_price_def)
  have rf: "risk_free_rate cfg = 0" unfolding cfg_def by simp
  have fa: "strike_price pa = 100" "expiry_date pa = 40" "iv_at_entry pa = 2 / 10"
    "premium_received pa = 10"
    unfolding pa_def new_position_def by simp_all
  have fb: "strike_price pb = 100" "expiry_date pb = 40" "iv_at_entry pb = 2 / 10"
    "premium_received pb = 1" "\<not> adjusted pb" "original_premium pb = 0" "lot_size pb = 10"
    unfolding pb_def new_position_def by simp_all
  have fc: "strike_price pc = 108" "expiry_date pc = 40" "iv_at_entry pc = 2 / 10"
    "premium_received pc = 3 / 2"
    unfolding pc_def new_position_def by simp_all
  have fb2: "strike_price pb2 = 105" "expiry_date pb2 = 40" "iv_at_entry pb2 = 2 / 10"
    "premium_received pb2 = 5 / 2" "adjusted pb2" "lot_size pb2 = 10"
    unfolding pb2_def pb_def new_position_def by simp_all
  have cf: "\<not> use_dte_exit cfg" "\<not> use_trailing_stop cfg"
    "exit_strategy cfg = PROFIT_TARGET_AND_STOP_LOSS" "profit_target_pct cfg = 50"
    "stop_loss_multiple cfg = 2" "allow_sl_adjustment cfg"
    unfolding cfg_def default_config_def by simp_all
  have sa: "early_exit_step ?cdf cfg data 10 ''A'' pa (cl, al)
              = Inr (pa, cl @ [(''A'', 110, 5, PROFIT_TARGET_PCT 50)], al)" for cl al
    using early_exit_step_cases[where s="''A''" and d=10 and data=data and sp=110
        and cdf="?cdf" and cop=5 and cl=cl and al=al and cfg=cfg and p=pa]
      pr(1) calculate_option_price_half[of 110 100 "30 / 365" "2 / 10"]
    by (simp add: rf fa cf py_int_def)
  have sb: "early_exit_step ?cdf cfg data 10 ''B'' pb (cl, al)
              = Inr (pb, cl, al @ [(''B'', 110, 5, 4, 30 / 365, 2 / 10)])" for cl al
    using early_exit_step_cases[where s="''B''" and d=10 and data=data and sp=110
        and cdf="?cdf" and cop=5 and cl=cl and al=al and cfg=cfg and p=pb]
      pr(2) calculate_option_price_half[of 110 100 "30 / 365" "2 / 10"]
    by (simp add: rf fb cf)
  have sc: "early_exit_step ?cdf cfg data 10 ''C'' pc (cl, al) = Inr (pc, cl, al)" for cl al
    using early_exit_step_cases[where s="''C''" and d=10 and data=data and sp=110
        and cdf="?cdf" and cop=1 and cl=cl and al=al and cfg=cfg and p=pc]
      pr(3) calculate_option_price_half[of 110 108 "30 / 365" "2 / 10"]
    by (simp add: rf fc cf)
  have scan: "early_exit_scan ?cdf cfg data 10 [(''A'', pa), (''B'', pb), (''C'', pc)] ([], [])
      = Inr ([(''A'', pa), (''B'', pb), (''C'', pc)],
             [(''A'', 110, 5, PROFIT_TARGET_PCT 50)], [(''B'', 110, 5, 4, 30 / 365, 2 / 10)])"
    by (simp add: sa sb sc)
  have ns: "adjust_new_strike (pb\<lparr> original_premium := 1 \<rparr>) 110 4 = Some (Inr 105)"
    using ladder_110 by (simp add: adjust_new_strike_def Let_def fb py_min_def)
  have adj: "adjust_position ?cdf cfg
               \<lparr> positions = [(''A'', pa), (''B'', pb), (''C'', pc)], trades = [], cash = 1000 \<rparr>
               ''B'' 10 110 5 4 (30 / 365) (2 / 10)
             = Some (Inr \<lparr> positions = [(''A'', pa), (''B'', pb2), (''C'', pc)], trades = [],
                           cash = 975 \<rparr>)"
    unfolding adjust_position_def
    using calculate_option_price_half[of 110 105 "30 / 365" "2 / 10"]
      calculate_delta_half[of 110 105 "30 / 365" "2 / 10"]
    by (simp add: Let_def fb ns rf pb2_def)
  have cls: "close_position cfg
               \<lparr> positions = [(''A'', pa), (''B'', pb2), (''C'', pc)], trades = [], cash = 975 \<rparr>
               ''A'' 10 110 5 (PROFIT_TARGET_PCT 50)
             = Inr \<lparr> positions = [(''B'', pb2), (''C'', pc)],
                     trades = [make_trade cfg ''A'' pa 10 110 5 (PROFIT_TARGET_PCT 50)],
                     cash = 2025 \<rparr>"
    by (simp add: close_position_def Let_def pa_def new_position_def)
  show "check_early_exits ?cdf cfg
           \<lparr> positions = [(''A'', pa), (''B'', pb), (''C'', pc)], trades = [], cash = 1000 \<rparr> 10 data
         = Some (Inr \<lparr> positions = [(''B'', pb2), (''C'', pc)],
                       trades = [make_trade cfg ''A'' pa 10 110 5 (PROFIT_TARGET_PCT 50)],
                       cash = 2025 \<rparr>)"
    unfolding check_early_exits_def engine.select_convs scan
    using adj cls by simp
  have tb: "early_exit_step ?cdf cfg data 11 ''B'' pb2 (cl, al)
              = Inr (pb2, cl @ [(''B'', 120, 15 / 2, STOP_LOSS_X 2 True)], al)" for cl al
    using early_exit_step_cases[where s="''B''" and d=11 and data=data and sp=120
        and cdf="?cdf" and cop="15 / 2" and cl=cl and al=al and cfg=cfg and p=pb2]
      pr(4) calculate_option_price_half[of 120 105 "29 / 365" "2 / 10"]
    by (simp add: rf fb2 cf)
  have tc: "early_exit_step ?cdf cfg data 11 ''C'' pc (cl, al) = Inr (pc, cl, al)" for cl al
    using early_exit_step_cases[where s="''C''" and d=11 and data=data and sp=110
        and cdf="?cdf" and cop=1 and cl=cl and al=al and cfg=cfg and p=pc]
      pr(5) calculate_option_price_half[of 110 108 "29 / 365" "2 / 10"]
    by (simp add: rf fc cf)
  have scan2: "early_exit_scan ?cdf cfg data 11 [(''B'', pb2), (''C'', pc)] ([], [])
      = Inr ([(''B'', pb2), (''C'', pc)], [(''B'', 120, 15 / 2, STOP_LOSS_X 2 True)], [])"
    by (simp add: tb tc)
  have cls2: "close_position cfg
               \<lparr> positions = [(''B'', pb2), (''C'', pc)],
                 trades = [make_trade cfg ''A'' pa 10 110 5 (PROFIT_TARGET_PCT 50)], cash = 2025 \<rparr>
               ''B'' 11 120 (15 / 2) (STOP_LOSS_X 2 True)
             = Inr \<lparr> positions = [(''C'', pc)],
                     trades = [make_trade cfg ''A'' pa 10 110 5 (PROFIT_TARGET_PCT 50),
                               make_trade cfg ''B'' pb2 11 120 (15 / 2) (STOP_LOSS_X 2 True)],
                     cash = 3150 \<rparr>"
    by (simp add: close_position_def Let_def fb2)
  show "check_early_exits ?cdf cfg
           \<lparr> positions = [(''B'', pb2), (''C'', pc)],
             trades = [make_trade cfg ''A'' pa 10 110 5 (PROFIT_TARGET_PCT 50)],
             cash = 2025 \<rparr> 11 data
         = Some (Inr \<lparr> positions = [(''C'', pc)],
                       trades = [make_trade cfg ''A'' pa 10 110 5 (PROFIT_TARGET_PCT 50),
                                 make_trade cfg ''B'' pb2 11 120 (15 / 2) (STOP_LOSS_X 2 True)],
                       cash = 3150 \<rparr>)"
    unfolding check_early_exits_def engine.select_convs scan2
    using cls2 by simp
qed

lemma check_early_exits_stop_loss:
  fixes cfg :: BacktestConfig and p :: Position and e :: engine and e' :: engine
  assumes keys: "distinct (map fst (positions e))"
    and day: "check_early_exits cdf cfg e d data = Some (Inr e')"
    and held: "map_of (positions e) s = Some p"
    and price: "get_price s d data = Some sp"
    and open_days: "0 < expiry_date p - d"
    and priced: "calculate_option_price cdf (risk_free_rate cfg) sp (strike_price p)
                   (real_of_int (expiry_date p - d) / 365) (iv_at_entry p) ''CE'' None = Inr cop"
  defines "dte \<equiv> expiry_date p - d"
    and "pnl \<equiv> premium_received p - cop"
  defines "pct \<equiv> (if premium_received p > 0 then (pnl / premium_received p) * 100 else 0)"
  defines "hwm \<equiv> (if pct > profit_high_water_mark p then pct else profit_high_water_mark p)"
    and "active \<equiv> (trailing_stop_active p \<or> pct \<ge> trailing_stop_activation cfg)"
  defines "p' \<equiv> (if use_trailing_stop cfg
                  then p\<lparr> profit_high_water_mark := hwm, trailing_stop_active := active \<rparr> else p)"
    and "dte_exit \<equiv> (use_dte_exit cfg \<and> dte \<le> dte_exit_threshold cfg)"
    and "trailing_stop \<equiv> (use_trailing_stop cfg \<and> active \<and> hwm - pct \<ge> trailing_stop_distance cfg)"
    and "profit_target \<equiv> ((exit_strategy cfg = PROFIT_TARGET \<or> exit_strategy cfg = PROFIT_TARGET_AND_STOP_LOSS)
                            \<and> pnl \<ge> premium_received p * (profit_target_pct cfg / 100))"
    and "stop_loss \<equiv> ((exit_strategy cfg = STOP_LOSS \<or> exit_strategy cfg = PROFIT_TARGET_AND_STOP_LOSS)
                        \<and> pnl \<le> - stop_loss_multiple cfg * premium_received p)"
  assumes hit: "\<not> dte_exit" "\<not> trailing_stop" "\<not> profit_target" "stop_loss"
  shows "allow_sl_adjustment cfg \<and> \<not> adjusted p \<longrightarrow>
           filter (\<lambda>t. t_symbol t = s) (trades e') = filter (\<lambda>t. t_symbol t = s) (trades e)
         \<and> (\<exists>k prem dl.
               adjust_new_strike
                 (if original_premium p' = 0 then p'\<lparr> original_premium := premium_received p' \<rparr>
                  else p')
                 sp \<bar>pnl\<bar> = Some (Inr k)
             \<and> calculate_option_price cdf (risk_free_rate cfg) sp k (real_of_int dte / 365)
                  (iv_at_entry p) ''CE'' None = Inr prem
             \<and> calculate_delta cdf (risk_free_rate cfg) sp k (real_of_int dte / 365)
                  (iv_at_entry p) ''CE'' None = Inr dl
             \<and> map_of (positions e') s
                 = Some (p'\<lparr> original_premium := (if original_premium p' = 0
                                                    then premium_received p'
                                                    else original_premium p'),
                             adjustment_date := Some d, adjustment_cost := cop,
                             strike_price := k, premium_received := prem,
                             delta_at_entry := dl, adjusted := True \<rparr>))"
    and "\<not> (allow_sl_adjustment cfg \<and> \<not> adjusted p) \<longrightarrow>
           map_of (positions e') s = None
         \<and> filter (\<lambda>t. t_symbol t = s) (trades e')
             = filter (\<lambda>t. t_symbol t = s) (trades e)
                 @ [make_trade cfg s p' d sp cop (STOP_LOSS_X (stop_loss_multiple cfg) (adjusted p))]"
proof -
  have step: "early_exit_step cdf cfg data d s p ([], []) =
      (if dte_exit then Inr (p, [] @ [(s, sp, cop, DTE_EXIT dte)], [])
       else if trailing_stop
       then Inr (p', [] @ [(s, sp, cop, TRAILING_STOP_HWM (py_int hwm))], [])
       else if profit_target
       then Inr (p', [] @ [(s, sp, cop, PROFIT_TARGET_PCT (py_int (profit_target_pct cfg)))], [])
       else if stop_loss
       then (if allow_sl_adjustment cfg \<and> \<not> adjusted p
             then Inr (p', [], [] @ [(s, sp, cop, \<bar>pnl\<bar>, real_of_int dte / 365, iv_at_entry p)])
             else Inr (p', [] @ [(s, sp, cop, STOP_LOSS_X (stop_loss_multiple cfg) (adjusted p))], []))
       else Inr (p', [], []))"
    unfolding dte_def pnl_def pct_def hwm_def active_def p'_def dte_exit_def trailing_stop_def
      profit_target_def stop_loss_def
    by (rule early_exit_step_cases[OF price open_days priced])
  from check_early_exits_position[OF keys day held] obtain p1 cs as where
    st: "early_exit_step cdf cfg data d s p ([], []) = Inr (p1, cs, as)"
    and closed: "\<forall>sp op r. cs = [(s, sp, op, r)] \<longrightarrow>
           map_of (positions e') s = None
         \<and> filter (\<lambda>t. t_symbol t = s) (trades e')
             = filter (\<lambda>t. t_symbol t = s) (trades e) @ [make_trade cfg s p1 d sp op r]"
    and adj: "\<forall>sp bb lost tte iv. as = [(s, sp, bb, lost, tte, iv)] \<longrightarrow>
           filter (\<lambda>t. t_symbol t = s) (trades e') = filter (\<lambda>t. t_symbol t = s) (trades e)
         \<and> (\<exists>k prem dl.
               adjust_new_strike
                 (if original_premium p1 = 0 then p1\<lparr> original_premium := premium_received p1 \<rparr> else p1)
                 sp lost = Some (Inr k)
             \<and> calculate_option_price cdf (risk_free_rate cfg) sp k tte iv ''CE'' None = Inr prem
             \<and> calculate_delta cdf (risk_free_rate cfg) sp k tte iv ''CE'' None = Inr dl
             \<and> map_of (positions e') s
                 = Some (p1\<lparr> original_premium := (if original_premium p1 = 0 then premium_received p1
                                                     else original_premium p1),
                             adjustment_date := Some d, adjustment_cost := bb, strike_price := k,
                             premium_received := prem, delta_at_entry := dl, adjusted := True \<rparr>))"
    by blast
  show "allow_sl_adjustment cfg \<and> \<not> adjusted p \<longrightarrow>
           filter (\<lambda>t. t_symbol t = s) (trades e') = filter (\<lambda>t. t_symbol t = s) (trades e)
         \<and> (\<exists>k prem dl.
               adjust_new_strike
                 (if original_premium p' = 0 then p'\<lparr> original_premium := premium_received p' \<rparr>
                  else p')
                 sp \<bar>pnl\<bar> = Some (Inr k)
             \<and> calculate_option_price cdf (risk_free_rate cfg) sp k (real_of_int dte / 365)
                  (iv_at_entry p) ''CE'' None = Inr prem
             \<and> calculate_delta cdf (risk_free_rate cfg) sp k (real_of_int dte / 365)
                  (iv_at_entry p) ''CE'' None = Inr dl
             \<and> map_of (positions e') s
                 = Some (p'\<lparr> original_premium := (if original_premium p' = 0
                                                    then premium_received p'
                                                    else original_premium p'),
                             adjustment_date := Some d, adjustment_cost := cop,
                             strike_price := k, premium_received := prem,
                             delta_at_entry := dl, adjusted := True \<rparr>))"
  proof
    assume c: "allow_sl_adjustment cfg \<and> \<not> adjusted p"
    have s0: "early_exit_step cdf cfg data d s p ([], [])
                = Inr (p', [], [(s, sp, cop, \<bar>pnl\<bar>, real_of_int dte / 365, iv_at_entry p)])"
      unfolding step using c hit by simp
    from st s0 have eq: "p1 = p'"
      "as = [(s, sp, cop, \<bar>pnl\<bar>, real_of_int dte / 365, iv_at_entry p)]" by simp_all
    show "filter (\<lambda>t. t_symbol t = s) (trades e') = filter (\<lambda>t. t_symbol t = s) (trades e)
         \<and> (\<exists>k prem dl.
               adjust_new_strike
                 (if original_premium p' = 0 then p'\<lparr> original_premium := premium_received p' \<rparr>
                  else p')
                 sp \<bar>pnl\<bar> = Some (Inr k)
             \<and> calculate_option_price cdf (risk_free_rate cfg) sp k (real_of_int dte / 365)
                  (iv_at_entry p) ''CE'' None = Inr prem
             \<and> calculate_delta cdf (risk_free_rate cfg) sp k (real_of_int dte / 365)
                  (iv_at_entry p) ''CE'' None = Inr dl
             \<and> map_of (positions e') s
                 = Some (p'\<lparr> original_premium := (if original_premium p' = 0
                                                    then premium_received p'
                                                    else original_premium p'),
                             adjustment_date := Some d, adjustment_cost := cop,
                             strike_price := k, premium_received := prem,
                             delta_at_entry := dl, adjusted := True \<rparr>))"
      by (rule adj[rule_format, OF eq(2), unfolded eq(1)])
  qed
  show "\<not> (allow_sl_adjustment cfg \<and> \<not> adjusted p) \<longrightarrow>
           map_of (positions e') s = None
         \<and> filter (\<lambda>t. t_symbol t = s) (trades e')
             = filter (\<lambda>t. t_symbol t = s) (trades e)
                 @ [make_trade cfg s p' d sp cop (STOP_LOSS_X (stop_loss_multiple cfg) (adjusted p))]"
  proof
    assume c: "\<not> (allow_sl_adjustment cfg \<and> \<not> adjusted p)"
    have s0: "early_exit_step cdf cfg data d s p ([], [])
                = Inr (p', [(s, sp, cop, STOP_LOSS_X (stop_loss_multiple cfg) (adjusted p))], [])"
      unfolding step using c hit by auto
    from st s0 have eq: "p1 = p'"
      "cs = [(s, sp, cop, STOP_LOSS_X (stop_loss_multiple cfg) (adjusted p))]" by simp_all
    show "map_of (positions e') s = None
         \<and> filter (\<lambda>t. t_symbol t = s) (trades e')
             = filter (\<lambda>t. t_symbol t = s) (trades e)
                 @ [make_trade cfg s p' d sp cop (STOP_LOSS_X (stop_loss_multiple cfg) (adjusted p))]"
      by (rule closed[rule_format, OF eq(2), unfolded eq(1)])
  qed
qed
section \<open>Volatility percentile and the empty strike list\<close>

lemma below_count_filter: "below_count c hs = length (filter (\<lambda>iv. iv < c) hs)"
  by (induction hs) auto

text \<open>
  C9. The IV percentile is the fraction of the trailing estimates strictly below the current
  estimate, times 100; estimates equal to the current one do not count; for an empty
  trailing list it is 50.
\<close>

theorem iv_percentile_strictly_below:
  "calculate_iv_percentile c [] = 50 \<and>
   calculate_iv_percentile c (h # hs) =
     real (card {i. i < length (h # hs) \<and> (h # hs) ! i < c}) / real (length (h # hs)) * 100 \<and>
   calculate_iv_percentile c (replicate (Suc n) c) = 0"
proof -
  have card_eq: "card {i. i < length xs \<and> xs ! i < c} = length (filter (\<lambda>iv. iv < c) xs)"
    for xs :: "real list"
    by (simp add: length_filter_conv_card)
  have "filter (\<lambda>iv. iv < c) (replicate (Suc n) c) = []"
    by (simp add: filter_empty_conv)
  then have "below_count c (replicate (Suc n) c) = 0"
    by (simp only: below_count_filter list.size)
  then show ?thesis
    unfolding calculate_iv_percentile_def below_count_filter card_eq
    by (simp add: below_count_filter)
qed

text \<open>
  C10. On an empty list of available strikes \<open>find_strike_by_delta\<close> raises nothing and
  returns \<open>(None, None)\<close>; the delta methods of \<open>_select_strike\<close> hand that \<open>None\<close>
  on to their caller as the strike.
\<close>

theorem find_strike_by_delta_empty:
  "find_strike_by_delta cdf self_rate spot time_to_expiry volatility tgt [] option_type
     = Inr (None, None)
   \<and> select_from_ladder cdf lib (cfg\<lparr> strike_method := DELTA_30 \<rparr>) s sp T iv ivm d data [] = Inr None
   \<and> select_from_ladder cdf lib (cfg\<lparr> strike_method := DELTA_40 \<rparr>) s sp T iv ivm d data [] = Inr None
   \<and> select_from_ladder cdf lib (cfg\<lparr> strike_method := ADAPTIVE_DELTA \<rparr>) s sp T iv ivm d data []
       = Inr None"
  by (simp add: find_strike_by_delta_def select_from_ladder_def delta_strike_def)

lemma handle_expiry_settles:
  assumes "map_of (positions e) s = Some p"
  shows "handle_expiry cfg e s d data
           = Inr (e\<lparr> positions := AList.delete s (positions e),
                     trades := trades e @
                       [if expiry_stock_price s p d data \<ge> strike_price p
                        then make_trade cfg s p d (strike_price p) 0 ASSIGNED
                        else make_trade cfg s p d (expiry_stock_price s p d data) 0 EXPIRY],
                     cash := cash e +
                       (if expiry_stock_price s p d data \<ge> strike_price p
                        then strike_price p * real_of_int (lot_size p)
                        else expiry_stock_price s p d data * real_of_int (lot_size p)
                               - 0 * real_of_int (lot_size p)) \<rparr>)"
  using assms
  by (simp add: handle_expiry_def close_position_def Let_def)

lemma filter_delete_keys:
  "filter (\<lambda>(s, p). s \<notin> A) (AList.delete k xs) = filter (\<lambda>(s, p). s \<notin> insert k A) xs"
  by (induction xs) auto

lemma handle_expiries_settle:
  assumes "distinct (map fst ps)"
    and "\<forall>(s, p)\<in>set ps. map_of (positions e) s = Some p"
  shows "handle_expiries cfg e (map fst ps) d data
           = Inr (e\<lparr> positions := filter (\<lambda>(s, p). s \<notin> set (map fst ps)) (positions e),
                     trades := trades e @
                       map (\<lambda>(s, p). if expiry_stock_price s p d data \<ge> strike_price p
                                     then make_trade cfg s p d (strike_price p) 0 ASSIGNED
                                     else make_trade cfg s p d (expiry_stock_price s p d data) 0 EXPIRY) ps,
                     cash := cash e +
                       (\<Sum>(s, p)\<leftarrow>ps. if expiry_stock_price s p d data \<ge> strike_price p
                                      then strike_price p * real_of_int (lot_size p)
                                      else expiry_stock_price s p d data * real_of_int (lot_size p)
                                             - 0 * real_of_int (lot_size p)) \<rparr>)"
  using assms
proof (induction ps arbitrary: e)
  case Nil
  then show ?case by simp
next
  case (Cons sp ps)
  obtain s p where sp: "sp = (s, p)" by (cases sp)
  have look: "map_of (positions e) s = Some p" using Cons.prems sp by simp
  let ?t = "if expiry_stock_price s p d data \<ge> strike_price p
                        then make_trade cfg s p d (strike_price p) 0 ASSIGNED
                        else make_trade cfg s p d (expiry_stock_price s p d data) 0 EXPIRY"
  let ?c = "if expiry_stock_price s p d data \<ge> strike_price p
                        then strike_price p * real_of_int (lot_size p)
                        else expiry_stock_price s p d data * real_of_int (lot_size p)
                               - 0 * real_of_int (lot_size p)"
  let ?e1 = "e\<lparr> positions := AList.delete s (positions e), trades := trades e @ [?t],
                      cash := cash e + ?c \<rparr>"
  have t: "handle_expiry cfg e s d data = Inr ?e1"
    by (rule handle_expiry_settles[OF look])
  have d1: "distinct (map fst ps)" using Cons.prems by simp
  have snot: "s \<notin> fst ` set ps" using Cons.prems sp by simp
  have l1: "\<forall>(s', p')\<in>set ps. map_of (positions ?e1) s' = Some p'"
  proof (clarify)
    fix s' p' assume m: "(s', p') \<in> set ps"
    then have "s' \<noteq> s" using snot by force
    moreover have "map_of (positions e) s' = Some p'" using Cons.prems m by auto
    ultimately show "map_of (positions ?e1) s' = Some p'"
      by (simp add: AList.delete_conv')
  qed
  have pos: "filter (\<lambda>(s, p). s \<notin> set (map fst ps)) (AList.delete s (positions e))
             = filter (\<lambda>(s', p). s' \<notin> set (map fst (sp # ps))) (positions e)"
    unfolding sp by (simp add: filter_delete_keys)
  show ?case
    unfolding list.map sp fst_conv handle_expiries.simps t sum.case
    unfolding Cons.IH[OF d1 l1]
    using pos by (simp add: sp add.assoc)
qed

lemma filter_keys_distinct:
  assumes "distinct (map fst ps)"
  shows "filter (\<lambda>(s, p). s \<notin> set (map fst (filter Q ps))) ps = filter (\<lambda>x. \<not> Q x) ps"
proof (rule filter_cong[OF refl])
  fix x assume x: "x \<in> set ps"
  obtain s p where sp: "x = (s, p)" by (cases x)
  have "s \<in> fst ` set (filter Q ps) \<longleftrightarrow> Q (s, p)"
  proof
    assume "s \<in> fst ` set (filter Q ps)"
    then obtain p' where p': "(s, p') \<in> set ps" "Q (s, p')" by auto
    with assms x sp have "p' = p" by (meson eq_key_imp_eq_value)
    with p' show "Q (s, p)" by simp
  next
    assume "Q (s, p)"
    with x sp show "s \<in> fst ` set (filter Q ps)" by force
  qed
  then show "(case x of (s, p) \<Rightarrow> s \<notin> set (map fst (filter Q ps))) = (\<not> Q x)"
    using sp by simp
qed

text \<open>
  C1. \<open>_check_expiries\<close> settles exactly the open positions whose expiry date has been
  reached (\<open>current_date >= expiry_date\<close>), each by the inclusive boundary: with the stock
  price at or above the strike the trade closes as \<open>ASSIGNED\<close>, the option exit price is 0
  and the cash is credited strike times lot size; below the strike it closes as \<open>EXPIRY\<close>
  with option exit price 0 and the cash is credited stock price times lot size less option
  exit price times lot size. A stock price equal to the strike is \<open>ASSIGNED\<close>. The stock
  price is the day's price, or the stock entry price when the symbol has none.
\<close>

theorem expiry_settlement:
  assumes "distinct (map fst (positions e))"
  shows "check_expiries cfg e d data
           = Inr (e\<lparr> positions := filter (\<lambda>(s, p). \<not> d \<ge> expiry_date p) (positions e),
                     trades := trades e @
                       map (\<lambda>(s, p). if expiry_stock_price s p d data \<ge> strike_price p
                                     then make_trade cfg s p d (strike_price p) 0 ASSIGNED
                                     else make_trade cfg s p d (expiry_stock_price s p d data) 0 EXPIRY)
                         (filter (\<lambda>(s, p). d \<ge> expiry_date p) (positions e)),
                     cash := cash e +
                       (\<Sum>(s, p)\<leftarrow>filter (\<lambda>(s, p). d \<ge> expiry_date p) (positions e).
                           if expiry_stock_price s p d data \<ge> strike_price p
                           then strike_price p * real_of_int (lot_size p)
                           else expiry_stock_price s p d data * real_of_int (lot_size p)
                                  - 0 * real_of_int (lot_size p)) \<rparr>)
         \<and> (map_of (positions e) s' = Some p' \<and> expiry_stock_price s' p' d data = strike_price p'
              \<longrightarrow> handle_expiry cfg e s' d data
                    = Inr (e\<lparr> positions := AList.delete s' (positions e),
                              trades := trades e @ [make_trade cfg s' p' d (strike_price p') 0 ASSIGNED],
                              cash := cash e + strike_price p' * real_of_int (lot_size p') \<rparr>))
         \<and> t_exit_reason (make_trade cfg s p d x oep r) = r
         \<and> t_option_exit_price (make_trade cfg s p d x oep r) = oep"
proof -
  let ?ps = "filter (\<lambda>(s, p). d \<ge> expiry_date p) (positions e)"
  have d1: "distinct (map fst ?ps)" using assms by (simp add: distinct_map_filter)
  have l1: "\<forall>(s, p)\<in>set ?ps. map_of (positions e) s = Some p"
    using assms by auto
  have f: "filter (\<lambda>(s, p). s \<notin> set (map fst ?ps)) (positions e)
             = filter (\<lambda>(s, p). \<not> d \<ge> expiry_date p) (positions e)"
    using filter_keys_distinct[OF assms, of "\<lambda>(s, p). d \<ge> expiry_date p"]
    by (simp add: case_prod_beta cong: filter_cong)
  have boundary: "map_of (positions e) s' = Some p' \<and> expiry_stock_price s' p' d data = strike_price p'
              \<longrightarrow> handle_expiry cfg e s' d data
                    = Inr (e\<lparr> positions := AList.delete s' (positions e),
                              trades := trades e @ [make_trade cfg s' p' d (strike_price p') 0 ASSIGNED],
                              cash := cash e + strike_price p' * real_of_int (lot_size p') \<rparr>)"
    by (simp add: handle_expiry_settles)
  show ?thesis
    unfolding check_expiries_def expired_symbols_def
    unfolding handle_expiries_settle[OF d1 l1] f
    using boundary by (simp add: make_trade_def Let_def)
qed

theorem expiry_settlement_witness:
  "\<exists>e'. check_expiries (default_config [''A'', ''B'', ''C''] 0 90 OTM_2PCT HOLD_TO_EXPIRY)
           \<lparr> positions = [(''A'', new_position ''A'' 10 1 95 100 3 30),
                          (''B'', new_position ''B'' 5 1 45 50 2 30),
                          (''C'', new_position ''C'' 1 1 20 25 1 60)],
             trades = [], cash = 0 \<rparr>
           30
           [''A'' \<mapsto> [\<lparr> bar_date = 30, bar_open = 99, bar_high = 101, bar_low = 98,
                         bar_close = 100, bar_volume = 1000 \<rparr>],
            ''B'' \<mapsto> [\<lparr> bar_date = 30, bar_open = 41, bar_high = 42, bar_low = 39,
                         bar_close = 40, bar_volume = 1000 \<rparr>]] = Inr e'
        \<and> map fst (positions e') = [''C'']
        \<and> map t_exit_reason (trades e') = [ASSIGNED, EXPIRY]
        \<and> map t_option_exit_price (trades e') = [0, 0]
        \<and> cash e' = 100 * 10 + (40 * 5 - 0 * 5)"
proof -
  let ?e = "\<lparr> positions = [(''A'', new_position ''A'' 10 1 95 100 3 30),
                          (''B'', new_position ''B'' 5 1 45 50 2 30),
                          (''C'', new_position ''C'' 1 1 20 25 1 60)],
             trades = [], cash = 0 \<rparr>"
  have dist: "distinct (map fst (positions ?e))" by simp
  show ?thesis
    using expiry_settlement[OF dist, THEN conjunct1]
    by (simp add: new_position_def expiry_stock_price_def get_price_def make_trade_def)
qed

lemma find_strike_scan_best:
  assumes ok: "\<forall>k\<in>set xs. calculate_delta cdf r spot k T vol ty None = Inr (dl k)"
  shows "(find_strike_scan cdf r spot T vol tgt ty xs (bs, bd, Some m) = Inr (bs, bd, Some m)
            \<and> (\<forall>k\<in>set xs. m \<le> delta_diff ty tgt (dl k)))
         \<or> (\<exists>i<length xs.
               find_strike_scan cdf r spot T vol tgt ty xs (bs, bd, Some m)
                 = Inr (Some (xs ! i), Some (dl (xs ! i)), Some (delta_diff ty tgt (dl (xs ! i))))
               \<and> delta_diff ty tgt (dl (xs ! i)) < m
               \<and> (\<forall>j<length xs. delta_diff ty tgt (dl (xs ! i)) \<le> delta_diff ty tgt (dl (xs ! j)))
               \<and> (\<forall>j<i. delta_diff ty tgt (dl (xs ! i)) < delta_diff ty tgt (dl (xs ! j))))"
  using ok
proof (induction xs arbitrary: bs bd m)
  case Nil
  then show ?case by simp
next
  case (Cons x xs)
  let ?f = "\<lambda>k. delta_diff ty tgt (dl k)"
  have dx: "calculate_delta cdf r spot x T vol ty None = Inr (dl x)"
    using Cons.prems by simp
  have okxs: "\<forall>k\<in>set xs. calculate_delta cdf r spot k T vol ty None = Inr (dl k)"
    using Cons.prems by simp
  show ?case
  proof (cases "?f x < m")
    case True
    have step: "find_strike_scan cdf r spot T vol tgt ty (x # xs) (bs, bd, Some m)
                = find_strike_scan cdf r spot T vol tgt ty xs (Some x, Some (dl x), Some (?f x))"
      using True dx by (simp add: less_min_diff_def)
    from Cons.IH[OF okxs, of "Some x" "Some (dl x)" "?f x"]
    show ?thesis
    proof
      assume a: "find_strike_scan cdf r spot T vol tgt ty xs (Some x, Some (dl x), Some (?f x))
                   = Inr (Some x, Some (dl x), Some (?f x)) \<and> (\<forall>k\<in>set xs. ?f x \<le> ?f k)"
      have "\<forall>j<length (x # xs). ?f x \<le> ?f ((x # xs) ! j)"
        using a by (auto simp: nth_Cons')
      then have "0 < length (x # xs) \<and>
            find_strike_scan cdf r spot T vol tgt ty (x # xs) (bs, bd, Some m)
              = Inr (Some ((x # xs) ! 0), Some (dl ((x # xs) ! 0)), Some (?f ((x # xs) ! 0)))
            \<and> ?f ((x # xs) ! 0) < m
            \<and> (\<forall>j<length (x # xs). ?f ((x # xs) ! 0) \<le> ?f ((x # xs) ! j))
            \<and> (\<forall>j<0. ?f ((x # xs) ! 0) < ?f ((x # xs) ! j))"
        using a True step by simp
      then show ?thesis by blast
    next
      assume "\<exists>i<length xs.
               find_strike_scan cdf r spot T vol tgt ty xs (Some x, Some (dl x), Some (?f x))
                 = Inr (Some (xs ! i), Some (dl (xs ! i)), Some (?f (xs ! i)))
               \<and> ?f (xs ! i) < ?f x
               \<and> (\<forall>j<length xs. ?f (xs ! i) \<le> ?f (xs ! j))
               \<and> (\<forall>j<i. ?f (xs ! i) < ?f (xs ! j))"
      then obtain i where i: "i < length xs"
        and res: "find_strike_scan cdf r spot T vol tgt ty xs (Some x, Some (dl x), Some (?f x))
                 = Inr (Some (xs ! i), Some (dl (xs ! i)), Some (?f (xs ! i)))"
        and lt: "?f (xs ! i) < ?f x"
        and mn: "\<forall>j<length xs. ?f (xs ! i) \<le> ?f (xs ! j)"
        and fst: "\<forall>j<i. ?f (xs ! i) < ?f (xs ! j)" by blast
      have "Suc i < length (x # xs) \<and>
            find_strike_scan cdf r spot T vol tgt ty (x # xs) (bs, bd, Some m)
              = Inr (Some ((x # xs) ! Suc i), Some (dl ((x # xs) ! Suc i)), Some (?f ((x # xs) ! Suc i)))
            \<and> ?f ((x # xs) ! Suc i) < m
            \<and> (\<forall>j<length (x # xs). ?f ((x # xs) ! Suc i) \<le> ?f ((x # xs) ! j))
            \<and> (\<forall>j<Suc i. ?f ((x # xs) ! Suc i) < ?f ((x # xs) ! j))"
        using i res lt mn fst True step by (auto simp: nth_Cons' less_Suc_eq_0_disj)
      then show ?thesis by blast
    qed
  next
    case False
    have step: "find_strike_scan cdf r spot T vol tgt ty (x # xs) (bs, bd, Some m)
                = find_strike_scan cdf r spot T vol tgt ty xs (bs, bd, Some m)"
      using False dx by (simp add: less_min_diff_def)
    from Cons.IH[OF okxs, of bs bd m]
    show ?thesis
    proof
      assume a: "find_strike_scan cdf r spot T vol tgt ty xs (bs, bd, Some m) = Inr (bs, bd, Some m)
                  \<and> (\<forall>k\<in>set xs. m \<le> ?f k)"
      then show ?thesis using False step by auto
    next
      assume "\<exists>i<length xs.
               find_strike_scan cdf r spot T vol tgt ty xs (bs, bd, Some m)
                 = Inr (Some (xs ! i), Some (dl (xs ! i)), Some (?f (xs ! i)))
               \<and> ?f (xs ! i) < m
               \<and> (\<forall>j<length xs. ?f (xs ! i) \<le> ?f (xs ! j))
               \<and> (\<forall>j<i. ?f (xs ! i) < ?f (xs ! j))"
      then obtain i where i: "i < length xs"
        and res: "find_strike_scan cdf r spot T vol tgt ty xs (bs, bd, Some m)
                 = Inr (Some (xs ! i), Some (dl (xs ! i)), Some (?f (xs ! i)))"
        and lt: "?f (xs ! i) < m"
        and mn: "\<forall>j<length xs. ?f (xs ! i) \<le> ?f (xs ! j)"
        and fst: "\<forall>j<i. ?f (xs ! i) < ?f (xs ! j)" by blast
      have "Suc i < length (x # xs) \<and>
            find_strike_scan cdf r spot T vol tgt ty (x # xs) (bs, bd, Some m)
              = Inr (Some ((x # xs) ! Suc i), Some (dl ((x # xs) ! Suc i)), Some (?f ((x # xs) ! Suc i)))
            \<and> ?f ((x # xs) ! Suc i) < m
            \<and> (\<forall>j<length (x # xs). ?f ((x # xs) ! Suc i) \<le> ?f ((x # xs) ! j))
            \<and> (\<forall>j<Suc i. ?f ((x # xs) ! Suc i) < ?f ((x # xs) ! j))"
        using i res lt mn fst False step by (auto simp: nth_Cons' less_Suc_eq_0_disj)
      then show ?thesis by blast
    qed
  qed
qed

text \<open>
  C6. On a non-empty list of strikes whose deltas all compute, \<open>find_strike_by_delta\<close>
  returns a strike of the list that minimises the distance \<open>delta_diff\<close> of its delta from
  the target (absolute deltas for puts), and among the strikes at that minimum the first in
  list order: every earlier strike is strictly farther (the update is a strict less-than).
\<close>

theorem find_strike_by_delta_first_minimum:
  assumes ne: "xs \<noteq> []"
    and ok: "\<forall>k\<in>set xs. calculate_delta cdf r spot k T vol ty None = Inr (dl k)"
  shows "\<exists>i<length xs.
           find_strike_by_delta cdf r spot T vol tgt xs ty = Inr (Some (xs ! i), Some (dl (xs ! i)))
           \<and> (\<forall>j<length xs. delta_diff ty tgt (dl (xs ! i)) \<le> delta_diff ty tgt (dl (xs ! j)))
           \<and> (\<forall>j<i. delta_diff ty tgt (dl (xs ! i)) < delta_diff ty tgt (dl (xs ! j)))"
proof -
  let ?f = "\<lambda>k. delta_diff ty tgt (dl k)"
  obtain x rest where xs: "xs = x # rest" using ne by (cases xs) auto
  have dx: "calculate_delta cdf r spot x T vol ty None = Inr (dl x)"
    using ok xs by simp
  have okr: "\<forall>k\<in>set rest. calculate_delta cdf r spot k T vol ty None = Inr (dl k)"
    using ok xs by simp
  have step: "find_strike_scan cdf r spot T vol tgt ty xs (None, None, None)
              = find_strike_scan cdf r spot T vol tgt ty rest (Some x, Some (dl x), Some (?f x))"
    using dx xs by (simp add: less_min_diff_def)
  from find_strike_scan_best[OF okr, of tgt "Some x" "Some (dl x)" "?f x"]
  show ?thesis
  proof
    assume a: "find_strike_scan cdf r spot T vol tgt ty rest (Some x, Some (dl x), Some (?f x))
                   = Inr (Some x, Some (dl x), Some (?f x)) \<and> (\<forall>k\<in>set rest. ?f x \<le> ?f k)"
    have "\<forall>j<length xs. ?f x \<le> ?f (xs ! j)"
      using a xs by (auto simp: nth_Cons')
    then have "0 < length xs \<and>
          find_strike_by_delta cdf r spot T vol tgt xs ty = Inr (Some (xs ! 0), Some (dl (xs ! 0)))
          \<and> (\<forall>j<length xs. ?f (xs ! 0) \<le> ?f (xs ! j))
          \<and> (\<forall>j<0. ?f (xs ! 0) < ?f (xs ! j))"
      using a step xs by (simp add: find_strike_by_delta_def)
    then show ?thesis by blast
  next
    assume "\<exists>i<length rest.
               find_strike_scan cdf r spot T vol tgt ty rest (Some x, Some (dl x), Some (?f x))
                 = Inr (Some (rest ! i), Some (dl (rest ! i)), Some (?f (rest ! i)))
               \<and> ?f (rest ! i) < ?f x
               \<and> (\<forall>j<length rest. ?f (rest ! i) \<le> ?f (rest ! j))
               \<and> (\<forall>j<i. ?f (rest ! i) < ?f (rest ! j))"
    then obtain i where i: "i < length rest"
      and res: "find_strike_scan cdf r spot T vol tgt ty rest (Some x, Some (dl x), Some (?f x))
                 = Inr (Some (rest ! i), Some (dl (rest ! i)), Some (?f (rest ! i)))"
      and lt: "?f (rest ! i) < ?f x"
      and mn: "\<forall>j<length rest. ?f (rest ! i) \<le> ?f (rest ! j)"
      and fst: "\<forall>j<i. ?f (rest ! i) < ?f (rest ! j)" by blast
    have "Suc i < length xs \<and>
          find_strike_by_delta cdf r spot T vol tgt xs ty
            = Inr (Some (xs ! Suc i), Some (dl (xs ! Suc i)))
          \<and> (\<forall>j<length xs. ?f (xs ! Suc i) \<le> ?f (xs ! j))
          \<and> (\<forall>j<Suc i. ?f (xs ! Suc i) < ?f (xs ! j))"
      using i res lt mn fst step xs
      by (auto simp: nth_Cons' less_Suc_eq_0_disj find_strike_by_delta_def)
    then show ?thesis by blast
  qed
qed


theorem find_strike_by_delta_first_minimum_witness:
  "find_strike_by_delta (\<lambda>x. if x < 0 then 0 else 1) (- (2 / 100)) 100 (30 / 365) (2 / 10) (3 / 10)
     [95, 100, 105, 110] ''CE'' = Inr (Some 105, Some 0)"
proof -
  let ?cdf = "\<lambda>x::real. if x < 0 then 0 else (1::real)"
  let ?dl = "\<lambda>k::real. if 100 < k then 0 else (1::real)"
  let ?xs = "[95, 100, 105, 110] :: real list"
  have ok: "\<forall>k\<in>set ?xs. calculate_delta ?cdf (- (2 / 100)) 100 k (30 / 365) (2 / 10) ''CE'' None
               = Inr (?dl k)"
    by (simp add: calculate_delta_call power2_eq_square divide_less_0_iff)
  have ne: "?xs \<noteq> []" by simp
  from find_strike_by_delta_first_minimum[OF ne ok, of "3 / 10"]
  obtain i where i: "i < length ?xs"
    and res: "find_strike_by_delta ?cdf (- (2 / 100)) 100 (30 / 365) (2 / 10) (3 / 10) ?xs ''CE''
                = Inr (Some (?xs ! i), Some (?dl (?xs ! i)))"
    and mn: "\<forall>j<length ?xs. delta_diff ''CE'' (3 / 10) (?dl (?xs ! i))
                \<le> delta_diff ''CE'' (3 / 10) (?dl (?xs ! j))"
    and fst: "\<forall>j<i. delta_diff ''CE'' (3 / 10) (?dl (?xs ! i))
                < delta_diff ''CE'' (3 / 10) (?dl (?xs ! j))"
    by blast
  from i have "i = 0 \<or> i = 1 \<or> i = 2 \<or> i = 3" by (simp add: less_Suc_eq numeral_eq_Suc) 
  moreover have "i \<noteq> 0"
  proof
    assume "i = 0"
    with mn[rule_format, of 2] show False by (simp add: delta_diff_def)
  qed
  moreover have "i \<noteq> 1"
  proof
    assume "i = 1"
    with mn[rule_format, of 2] show False by (simp add: delta_diff_def)
  qed
  moreover have "i \<noteq> 3"
  proof
    assume "i = 3"
    with fst[rule_format, of 2] show False by (simp add: delta_diff_def)
  qed
  ultimately have "i = 2" by blast
  with res show ?thesis by simp
qed

text \<open>
  C2. For an open position with a price for the day, days to expiry left and an option
  price, the loop body of \<open>_check_early_exits\<close> tests the exits in a fixed order and
  the first test that holds decides the position's single entry for the day:
  (1) the DTE exit, when enabled and the days to expiry are at most the threshold;
  (2) the trailing stop, when enabled, active (after the day's update of the high-water mark
  and of the activation) and the retracement from the high-water mark is at least the
  configured distance; (3) the profit target, when the exit strategy includes it and the
  option P&L is at least the target fraction of the premium; (4) the stop loss, when the exit
  strategy includes it and the option P&L is at most minus the multiple times the premium
  received, which queues the adjustment when that is allowed and the position is not yet
  adjusted and a close otherwise. A later test is not applied once an earlier one holds.
  That entry is what the whole of \<open>_check_early_exits\<close> carries out for the position
  (\<open>whole_day\<close>: the positions dict has one entry per symbol and the day ends without an
  exception): a close removes the position and appends exactly one trade for the symbol,
  with the reason of the first test that held; an adjustment leaves the position open, rolled
  once by \<open>_adjust_position\<close>, and appends no trade; when no test holds the position
  stays as it is, up to the trailing-stop fields, and no trade is appended.
\<close>

theorem early_exit_precedence:
  fixes cfg :: BacktestConfig and p :: Position and e :: engine and e' :: engine
  assumes price: "get_price s d data = Some sp"
    and open_days: "0 < expiry_date p - d"
    and priced: "calculate_option_price cdf (risk_free_rate cfg) sp (strike_price p)
                   (real_of_int (expiry_date p - d) / 365) (iv_at_entry p) ''CE'' None = Inr cop"
  defines "dte \<equiv> expiry_date p - d"
    and "pnl \<equiv> premium_received p - cop"
  defines "pct \<equiv> (if premium_received p > 0 then (pnl / premium_received p) * 100 else 0)"
  defines "hwm \<equiv> (if pct > profit_high_water_mark p then pct else profit_high_water_mark p)"
    and "active \<equiv> (trailing_stop_active p \<or> pct \<ge> trailing_stop_activation cfg)"
  defines "p' \<equiv> (if use_trailing_stop cfg
                  then p\<lparr> profit_high_water_mark := hwm, trailing_stop_active := active \<rparr> else p)"
    and "dte_exit \<equiv> (use_dte_exit cfg \<and> dte \<le> dte_exit_threshold cfg)"
    and "trailing_stop \<equiv> (use_trailing_stop cfg \<and> active \<and> hwm - pct \<ge> trailing_stop_distance cfg)"
    and "profit_target \<equiv> ((exit_strategy cfg = PROFIT_TARGET \<or> exit_strategy cfg = PROFIT_TARGET_AND_STOP_LOSS)
                            \<and> pnl \<ge> premium_received p * (profit_target_pct cfg / 100))"
    and "stop_loss \<equiv> ((exit_strategy cfg = STOP_LOSS \<or> exit_strategy cfg = PROFIT_TARGET_AND_STOP_LOSS)
                        \<and> pnl \<le> - stop_loss_multiple cfg * premium_received p)"
    and "whole_day \<equiv> (distinct (map fst (positions e))
                        \<and> check_early_exits cdf cfg e d data = Some (Inr e')
                        \<and> map_of (positions e) s = Some p)"
    and "trades_before \<equiv> filter (\<lambda>t. t_symbol t = s) (trades e)"
    and "trades_after \<equiv> filter (\<lambda>t. t_symbol t = s) (trades e')"
  shows "(dte_exit \<longrightarrow>
            early_exit_step cdf cfg data d s p (cl, al)
              = Inr (p, cl @ [(s, sp, cop, DTE_EXIT dte)], al)
          \<and> (whole_day \<longrightarrow> map_of (positions e') s = None
                \<and> trades_after = trades_before @ [make_trade cfg s p d sp cop (DTE_EXIT dte)]))
       \<and> (\<not> dte_exit \<and> trailing_stop \<longrightarrow>
            early_exit_step cdf cfg data d s p (cl, al)
              = Inr (p', cl @ [(s, sp, cop, TRAILING_STOP_HWM (py_int hwm))], al)
          \<and> (whole_day \<longrightarrow> map_of (positions e') s = None
                \<and> trades_after
                    = trades_before @ [make_trade cfg s p' d sp cop (TRAILING_STOP_HWM (py_int hwm))]))
       \<and> (\<not> dte_exit \<and> \<not> trailing_stop \<and> profit_target \<longrightarrow>
            early_exit_step cdf cfg data d s p (cl, al)
              = Inr (p', cl @ [(s, sp, cop, PROFIT_TARGET_PCT (py_int (profit_target_pct cfg)))], al)
          \<and> (whole_day \<longrightarrow> map_of (positions e') s = None
                \<and> trades_after
                    = trades_before
                        @ [make_trade cfg s p' d sp cop (PROFIT_TARGET_PCT (py_int (profit_target_pct cfg)))]))
       \<and> (\<not> dte_exit \<and> \<not> trailing_stop \<and> \<not> profit_target \<and> stop_loss
             \<and> allow_sl_adjustment cfg \<and> \<not> adjusted p \<longrightarrow>
            early_exit_step cdf cfg data d s p (cl, al)
              = Inr (p', cl, al @ [(s, sp, cop, \<bar>pnl\<bar>, real_of_int dte / 365, iv_at_entry p)])
          \<and> (whole_day \<longrightarrow> trades_after = trades_before
                \<and> (\<exists>k prem dl.
                      adjust_new_strike
                        (if original_premium p' = 0 then p'\<lparr> original_premium := premium_received p' \<rparr>
                         else p')
                        sp \<bar>pnl\<bar> = Some (Inr k)
                    \<and> calculate_option_price cdf (risk_free_rate cfg) sp k (real_of_int dte / 365)
                         (iv_at_entry p) ''CE'' None = Inr prem
                    \<and> calculate_delta cdf (risk_free_rate cfg) sp k (real_of_int dte / 365)
                         (iv_at_entry p) ''CE'' None = Inr dl
                    \<and> map_of (positions e') s
                        = Some (p'\<lparr> original_premium := (if original_premium p' = 0
                                                           then premium_received p'
                                                           else original_premium p'),
                                    adjustment_date := Some d, adjustment_cost := cop,
                                    strike_price := k, premium_received := prem,
                                    delta_at_entry := dl, adjusted := True \<rparr>))))
       \<and> (\<not> dte_exit \<and> \<not> trailing_stop \<and> \<not> profit_target \<and> stop_loss
             \<and> \<not> (allow_sl_adjustment cfg \<and> \<not> adjusted p) \<longrightarrow>
            early_exit_step cdf cfg data d s p (cl, al)
              = Inr (p', cl @ [(s, sp, cop, STOP_LOSS_X (stop_loss_multiple cfg) (adjusted p))], al)
          \<and> (whole_day \<longrightarrow> map_of (positions e') s = None
                \<and> trades_after
                    = trades_before
                        @ [make_trade cfg s p' d sp cop (STOP_LOSS_X (stop_loss_multiple cfg) (adjusted p))]))
       \<and> (\<not> dte_exit \<and> \<not> trailing_stop \<and> \<not> profit_target \<and> \<not> stop_loss \<longrightarrow>
            early_exit_step cdf cfg data d s p (cl, al) = Inr (p', cl, al)
          \<and> (whole_day \<longrightarrow> map_of (positions e') s = Some p' \<and> trades_after = trades_before))"
proof -
  have step: "early_exit_step cdf cfg data d s p (cl, al) =
      (if dte_exit then Inr (p, cl @ [(s, sp, cop, DTE_EXIT dte)], al)
       else if trailing_stop
       then Inr (p', cl @ [(s, sp, cop, TRAILING_STOP_HWM (py_int hwm))], al)
       else if profit_target
       then Inr (p', cl @ [(s, sp, cop, PROFIT_TARGET_PCT (py_int (profit_target_pct cfg)))], al)
       else if stop_loss
       then (if allow_sl_adjustment cfg \<and> \<not> adjusted p
             then Inr (p', cl, al @ [(s, sp, cop, \<bar>pnl\<bar>, real_of_int dte / 365, iv_at_entry p)])
             else Inr (p', cl @ [(s, sp, cop, STOP_LOSS_X (stop_loss_multiple cfg) (adjusted p))], al))
       else Inr (p', cl, al))" for cl al
    unfolding dte_def pnl_def pct_def hwm_def active_def p'_def dte_exit_def trailing_stop_def
      profit_target_def stop_loss_def
    by (rule early_exit_step_cases[OF price open_days priced])
  have day: "\<exists>p1 cs as. early_exit_step cdf cfg data d s p ([], []) = Inr (p1, cs, as)
     \<and> (cs = [] \<and> as = [] \<longrightarrow>
           map_of (positions e') s = Some p1 \<and> trades_after = trades_before)
     \<and> (\<forall>sp op r. cs = [(s, sp, op, r)] \<longrightarrow>
           map_of (positions e') s = None
         \<and> trades_after = trades_before @ [make_trade cfg s p1 d sp op r])
     \<and> (\<forall>sp bb lost tte iv. as = [(s, sp, bb, lost, tte, iv)] \<longrightarrow>
           trades_after = trades_before
         \<and> (\<exists>k prem dl.
               adjust_new_strike
                 (if original_premium p1 = 0 then p1\<lparr> original_premium := premium_received p1 \<rparr> else p1)
                 sp lost = Some (Inr k)
             \<and> calculate_option_price cdf (risk_free_rate cfg) sp k tte iv ''CE'' None = Inr prem
             \<and> calculate_delta cdf (risk_free_rate cfg) sp k tte iv ''CE'' None = Inr dl
             \<and> map_of (positions e') s
                 = Some (p1\<lparr> original_premium := (if original_premium p1 = 0 then premium_received p1
                                                     else original_premium p1),
                             adjustment_date := Some d, adjustment_cost := bb, strike_price := k,
                             premium_received := prem, delta_at_entry := dl, adjusted := True \<rparr>)))"
    if whole_day
    unfolding trades_after_def trades_before_def
    using that unfolding whole_day_def
    by (intro check_early_exits_position) simp_all
  have c1: "dte_exit \<longrightarrow>
            early_exit_step cdf cfg data d s p (cl, al)
              = Inr (p, cl @ [(s, sp, cop, DTE_EXIT dte)], al)
          \<and> (whole_day \<longrightarrow> map_of (positions e') s = None
                \<and> trades_after = trades_before @ [make_trade cfg s p d sp cop (DTE_EXIT dte)])"
  proof (intro impI conjI)
    assume c: dte_exit
    show "early_exit_step cdf cfg data d s p (cl, al)
              = Inr (p, cl @ [(s, sp, cop, DTE_EXIT dte)], al)"
      unfolding step using c by simp
    assume w: whole_day
    have s0: "early_exit_step cdf cfg data d s p ([], []) = Inr (p, [(s, sp, cop, DTE_EXIT dte)], [])"
      unfolding step using c by simp
    from day[OF w] show "map_of (positions e') s = None"
      and "trades_after = trades_before @ [make_trade cfg s p d sp cop (DTE_EXIT dte)]"
      unfolding s0 by auto
  qed
  have c2: "\<not> dte_exit \<and> trailing_stop \<longrightarrow>
            early_exit_step cdf cfg data d s p (cl, al)
              = Inr (p', cl @ [(s, sp, cop, TRAILING_STOP_HWM (py_int hwm))], al)
          \<and> (whole_day \<longrightarrow> map_of (positions e') s = None
                \<and> trades_after
                    = trades_before @ [make_trade cfg s p' d sp cop (TRAILING_STOP_HWM (py_int hwm))])"
  proof (intro impI conjI)
    assume c: "\<not> dte_exit \<and> trailing_stop"
    show "early_exit_step cdf cfg data d s p (cl, al)
              = Inr (p', cl @ [(s, sp, cop, TRAILING_STOP_HWM (py_int hwm))], al)"
      unfolding step using c by simp
    assume w: whole_day
    have s0: "early_exit_step cdf cfg data d s p ([], [])
                = Inr (p', [(s, sp, cop, TRAILING_STOP_HWM (py_int hwm))], [])"
      unfolding step using c by simp
    from day[OF w] show "map_of (positions e') s = None"
      and "trades_after
             = trades_before @ [make_trade cfg s p' d sp cop (TRAILING_STOP_HWM (py_int hwm))]"
      unfolding s0 by auto
  qed
  have c3: "\<not> dte_exit \<and> \<not> trailing_stop \<and> profit_target \<longrightarrow>
            early_exit_step cdf cfg data d s p (cl, al)
              = Inr (p', cl @ [(s, sp, cop, PROFIT_TARGET_PCT (py_int (profit_target_pct cfg)))], al)
          \<and> (whole_day \<longrightarrow> map_of (positions e') s = None
                \<and> trades_after
                    = trades_before
                        @ [make_trade cfg s p' d sp cop (PROFIT_TARGET_PCT (py_int (profit_target_pct cfg)))])"
  proof (intro impI conjI)
    assume c: "\<not> dte_exit \<and> \<not> trailing_stop \<and> profit_target"
    show "early_exit_step cdf cfg data d s p (cl, al)
              = Inr (p', cl @ [(s, sp, cop, PROFIT_TARGET_PCT (py_int (profit_target_pct cfg)))], al)"
      unfolding step using c by simp
    assume w: whole_day
    have s0: "early_exit_step cdf cfg data d s p ([], [])
                = Inr (p', [(s, sp, cop, PROFIT_TARGET_PCT (py_int (profit_target_pct cfg)))], [])"
      unfolding step using c by simp
    from day[OF w] show "map_of (positions e') s = None"
      and "trades_after
             = trades_before
                 @ [make_trade cfg s p' d sp cop (PROFIT_TARGET_PCT (py_int (profit_target_pct cfg)))]"
      unfolding s0 by auto
  qed
  have c4: "\<not> dte_exit \<and> \<not> trailing_stop \<and> \<not> profit_target \<and> stop_loss
             \<and> allow_sl_adjustment cfg \<and> \<not> adjusted p \<longrightarrow>
            early_exit_step cdf cfg data d s p (cl, al)
              = Inr (p', cl, al @ [(s, sp, cop, \<bar>pnl\<bar>, real_of_int dte / 365, iv_at_entry p)])
          \<and> (whole_day \<longrightarrow> trades_after = trades_before
                \<and> (\<exists>k prem dl.
                      adjust_new_strike
                        (if original_premium p' = 0 then p'\<lparr> original_premium := premium_received p' \<rparr>
                         else p')
                        sp \<bar>pnl\<bar> = Some (Inr k)
                    \<and> calculate_option_price cdf (risk_free_rate cfg) sp k (real_of_int dte / 365)
                         (iv_at_entry p) ''CE'' None = Inr prem
                    \<and> calculate_delta cdf (risk_free_rate cfg) sp k (real_of_int dte / 365)
                         (iv_at_entry p) ''CE'' None = Inr dl
                    \<and> map_of (positions e') s
                        = Some (p'\<lparr> original_premium := (if original_premium p' = 0
                                                           then premium_received p'
                                                           else original_premium p'),
                                    adjustment_date := Some d, adjustment_cost := cop,
                                    strike_price := k, premium_received := prem,
                                    delta_at_entry := dl, adjusted := True \<rparr>)))"
  proof (intro impI conjI)
    assume c: "\<not> dte_exit \<and> \<not> trailing_stop \<and> \<not> profit_target \<and> stop_loss
             \<and> allow_sl_adjustment cfg \<and> \<not> adjusted p"
    show "early_exit_step cdf cfg data d s p (cl, al)
              = Inr (p', cl, al @ [(s, sp, cop, \<bar>pnl\<bar>, real_of_int dte / 365, iv_at_entry p)])"
      unfolding step using c by simp
    assume w: whole_day
    have s0: "early_exit_step cdf cfg data d s p ([], [])
                = Inr (p', [], [(s, sp, cop, \<bar>pnl\<bar>, real_of_int dte / 365, iv_at_entry p)])"
      unfolding step using c by simp
    from day[OF w] obtain p1 cs as where
      st: "early_exit_step cdf cfg data d s p ([], []) = Inr (p1, cs, as)"
      and adj: "\<forall>sp bb lost tte iv. as = [(s, sp, bb, lost, tte, iv)] \<longrightarrow>
           trades_after = trades_before
         \<and> (\<exists>k prem dl.
               adjust_new_strike
                 (if original_premium p1 = 0 then p1\<lparr> original_premium := premium_received p1 \<rparr> else p1)
                 sp lost = Some (Inr k)
             \<and> calculate_option_price cdf (risk_free_rate cfg) sp k tte iv ''CE'' None = Inr prem
             \<and> calculate_delta cdf (risk_free_rate cfg) sp k tte iv ''CE'' None = Inr dl
             \<and> map_of (positions e') s
                 = Some (p1\<lparr> original_premium := (if original_premium p1 = 0 then premium_received p1
                                                     else original_premium p1),
                             adjustment_date := Some d, adjustment_cost := bb, strike_price := k,
                             premium_received := prem, delta_at_entry := dl, adjusted := True \<rparr>))"
      by blast
    from st s0 have eq: "p1 = p'"
      "as = [(s, sp, cop, \<bar>pnl\<bar>, real_of_int dte / 365, iv_at_entry p)]" by simp_all
    note r = adj[rule_format, OF eq(2), unfolded eq(1)]
    from r show "trades_after = trades_before" by (rule conjunct1)
    from r show "\<exists>k prem dl.
                      adjust_new_strike
                        (if original_premium p' = 0 then p'\<lparr> original_premium := premium_received p' \<rparr>
                         else p')
                        sp \<bar>pnl\<bar> = Some (Inr k)
                    \<and> calculate_option_price cdf (risk_free_rate cfg) sp k (real_of_int dte / 365)
                         (iv_at_entry p) ''CE'' None = Inr prem
                    \<and> calculate_delta cdf (risk_free_rate cfg) sp k (real_of_int dte / 365)
                         (iv_at_entry p) ''CE'' None = Inr dl
                    \<and> map_of (positions e') s
                        = Some (p'\<lparr> original_premium := (if original_premium p' = 0
                                                           then premium_received p'
                                                           else original_premium p'),
                                    adjustment_date := Some d, adjustment_cost := cop,
                                    strike_price := k, premium_received := prem,
                                    delta_at_entry := dl, adjusted := True \<rparr>)"
      by (rule conjunct2)
  qed
  have c5: "\<not> dte_exit \<and> \<not> trailing_stop \<and> \<not> profit_target \<and> stop_loss
             \<and> \<not> (allow_sl_adjustment cfg \<and> \<not> adjusted p) \<longrightarrow>
            early_exit_step cdf cfg data d s p (cl, al)
              = Inr (p', cl @ [(s, sp, cop, STOP_LOSS_X (stop_loss_multiple cfg) (adjusted p))], al)
          \<and> (whole_day \<longrightarrow> map_of (positions e') s = None
                \<and> trades_after
                    = trades_before
                        @ [make_trade cfg s p' d sp cop (STOP_LOSS_X (stop_loss_multiple cfg) (adjusted p))])"
  proof (intro impI conjI)
    assume c: "\<not> dte_exit \<and> \<not> trailing_stop \<and> \<not> profit_target \<and> stop_loss
             \<and> \<not> (allow_sl_adjustment cfg \<and> \<not> adjusted p)"
    show "early_exit_step cdf cfg data d s p (cl, al)
              = Inr (p', cl @ [(s, sp, cop, STOP_LOSS_X (stop_loss_multiple cfg) (adjusted p))], al)"
      unfolding step using c by auto
    assume w: whole_day
    have s0: "early_exit_step cdf cfg data d s p ([], [])
                = Inr (p', [(s, sp, cop, STOP_LOSS_X (stop_loss_multiple cfg) (adjusted p))], [])"
      unfolding step using c by auto
    from day[OF w] show "map_of (positions e') s = None"
      and "trades_after
             = trades_before
                 @ [make_trade cfg s p' d sp cop (STOP_LOSS_X (stop_loss_multiple cfg) (adjusted p))]"
      unfolding s0 by auto
  qed
  have c6: "\<not> dte_exit \<and> \<not> trailing_stop \<and> \<not> profit_target \<and> \<not> stop_loss \<longrightarrow>
            early_exit_step cdf cfg data d s p (cl, al) = Inr (p', cl, al)
          \<and> (whole_day \<longrightarrow> map_of (positions e') s = Some p' \<and> trades_after = trades_before)"
  proof (intro impI conjI)
    assume c: "\<not> dte_exit \<and> \<not> trailing_stop \<and> \<not> profit_target \<and> \<not> stop_loss"
    show "early_exit_step cdf cfg data d s p (cl, al) = Inr (p', cl, al)"
      unfolding step using c by simp
    assume w: whole_day
    have s0: "early_exit_step cdf cfg data d s p ([], []) = Inr (p', [], [])"
      unfolding step using c by simp
    from day[OF w] show "map_of (positions e') s = Some p'" and "trades_after = trades_before"
      unfolding s0 by auto
  qed
  from c1 c2 c3 c4 c5 c6 show ?thesis by (intro conjI)
qed

theorem early_exit_precedence_witness:
  "early_exit_step (\<lambda>x. 1 / 2)
     ((default_config [''A''] 0 90 OTM_2PCT HOLD_TO_EXPIRY)
        \<lparr> risk_free_rate := 0, use_dte_exit := True, use_trailing_stop := True \<rparr>)
     [''A'' \<mapsto> [\<lparr> bar_date = 10, bar_open = 108, bar_high = 111, bar_low = 107,
                   bar_close = 110, bar_volume = 1000 \<rparr>]]
     10 ''A''
     ((new_position ''A'' 10 1 100 100 10 15)
        \<lparr> iv_at_entry := 2 / 10, profit_high_water_mark := 80, trailing_stop_active := True \<rparr>)
     ([], [])
   = Inr ((new_position ''A'' 10 1 100 100 10 15)
            \<lparr> iv_at_entry := 2 / 10, profit_high_water_mark := 80, trailing_stop_active := True \<rparr>,
          [(''A'', 110, 5, DTE_EXIT 5)], [])
   \<and>
   early_exit_step (\<lambda>x. 1 / 2)
     ((default_config [''A''] 0 90 OTM_2PCT PROFIT_TARGET_AND_STOP_LOSS)
        \<lparr> risk_free_rate := 0, use_trailing_stop := True \<rparr>)
     [''A'' \<mapsto> [\<lparr> bar_date = 10, bar_open = 108, bar_high = 111, bar_low = 107,
                   bar_close = 110, bar_volume = 1000 \<rparr>]]
     10 ''A''
     ((new_position ''A'' 10 1 100 100 10 40)
        \<lparr> iv_at_entry := 2 / 10, profit_high_water_mark := 80, trailing_stop_active := True \<rparr>)
     ([], [])
   = Inr ((new_position ''A'' 10 1 100 100 10 40)
            \<lparr> iv_at_entry := 2 / 10, profit_high_water_mark := 80, trailing_stop_active := True \<rparr>,
          [(''A'', 110, 5, TRAILING_STOP_HWM 80)], [])
   \<and>
   early_exit_step (\<lambda>x. 1 / 2)
     ((default_config [''A''] 0 90 OTM_2PCT PROFIT_TARGET_AND_STOP_LOSS) \<lparr> risk_free_rate := 0 \<rparr>)
     [''A'' \<mapsto> [\<lparr> bar_date = 10, bar_open = 108, bar_high = 111, bar_low = 107,
                   bar_close = 110, bar_volume = 1000 \<rparr>]]
     10 ''A''
     ((new_position ''A'' 10 1 100 100 10 40) \<lparr> iv_at_entry := 2 / 10 \<rparr>)
     ([], [])
   = Inr ((new_position ''A'' 10 1 100 100 10 40) \<lparr> iv_at_entry := 2 / 10 \<rparr>,
          [(''A'', 110, 5, PROFIT_TARGET_PCT 50)], [])
   \<and>
   early_exit_step (\<lambda>x. 1 / 2)
     ((default_config [''A''] 0 90 OTM_2PCT PROFIT_TARGET_AND_STOP_LOSS)
        \<lparr> risk_free_rate := 0, allow_sl_adjustment := True \<rparr>)
     [''A'' \<mapsto> [\<lparr> bar_date = 10, bar_open = 108, bar_high = 111, bar_low = 107,
                   bar_close = 110, bar_volume = 1000 \<rparr>]]
     10 ''A''
     ((new_position ''A'' 10 1 100 100 1 40) \<lparr> iv_at_entry := 2 / 10 \<rparr>)
     ([], [])
   = Inr ((new_position ''A'' 10 1 100 100 1 40) \<lparr> iv_at_entry := 2 / 10 \<rparr>,
          [], [(''A'', 110, 5, 4, 30 / 365, 2 / 10)])
   \<and>
   early_exit_step (\<lambda>x. 1 / 2)
     ((default_config [''A''] 0 90 OTM_2PCT PROFIT_TARGET_AND_STOP_LOSS)
        \<lparr> risk_free_rate := 0, allow_sl_adjustment := True \<rparr>)
     [''A'' \<mapsto> [\<lparr> bar_date = 10, bar_open = 108, bar_high = 111, bar_low = 107,
                   bar_close = 110, bar_volume = 1000 \<rparr>]]
     10 ''A''
     ((new_position ''A'' 10 1 100 100 1 40) \<lparr> iv_at_entry := 2 / 10, adjusted := True \<rparr>)
     ([], [])
   = Inr ((new_position ''A'' 10 1 100 100 1 40) \<lparr> iv_at_entry := 2 / 10, adjusted := True \<rparr>,
          [(''A'', 110, 5, STOP_LOSS_X 2 True)], [])
   \<and>
   early_exit_step (\<lambda>x. 1 / 2)
     ((default_config [''A''] 0 90 OTM_2PCT STOP_LOSS) \<lparr> risk_free_rate := 0 \<rparr>)
     [''A'' \<mapsto> [\<lparr> bar_date = 10, bar_open = 108, bar_high = 111, bar_low = 107,
                   bar_close = 110, bar_volume = 1000 \<rparr>]]
     10 ''A''
     ((new_position ''A'' 10 1 100 100 10 40) \<lparr> iv_at_entry := 2 / 10 \<rparr>)
     ([], [])
   = Inr ((new_position ''A'' 10 1 100 100 10 40) \<lparr> iv_at_entry := 2 / 10 \<rparr>, [], [])
   \<and>
   (\<exists>e1. check_early_exits (\<lambda>x. 1 / 2)
           ((default_config [''A'', ''B'', ''C''] 0 90 OTM_2PCT PROFIT_TARGET_AND_STOP_LOSS)
              \<lparr> risk_free_rate := 0, allow_sl_adjustment := True \<rparr>)
           \<lparr> positions = [(''A'', (new_position ''A'' 10 1 100 100 10 40) \<lparr> iv_at_entry := 2 / 10 \<rparr>),
                          (''B'', (new_position ''B'' 10 1 100 100 1 40) \<lparr> iv_at_entry := 2 / 10 \<rparr>),
                          (''C'', (new_position ''C'' 10 1 100 108 (3 / 2) 40) \<lparr> iv_at_entry := 2 / 10 \<rparr>)],
             trades = [], cash = 1000 \<rparr>
           10
           [''A'' \<mapsto> [\<lparr> bar_date = 10, bar_open = 108, bar_high = 111, bar_low = 107,
                         bar_close = 110, bar_volume = 1000 \<rparr>],
            ''B'' \<mapsto> [\<lparr> bar_date = 10, bar_open = 108, bar_high = 111, bar_low = 107,
                         bar_close = 110, bar_volume = 1000 \<rparr>,
                       \<lparr> bar_date = 11, bar_open = 112, bar_high = 121, bar_low = 111,
                         bar_close = 120, bar_volume = 1000 \<rparr>],
            ''C'' \<mapsto> [\<lparr> bar_date = 10, bar_open = 108, bar_high = 111, bar_low = 107,
                         bar_close = 110, bar_volume = 1000 \<rparr>]]
         = Some (Inr e1)
      \<and> map_of (positions e1) ''A'' = None
      \<and> map (\<lambda>t. (t_symbol t, t_exit_date t, t_stock_exit_price t, t_option_exit_price t, t_exit_reason t))
           (filter (\<lambda>t. t_symbol t = ''A'') (trades e1))
         = [(''A'', 10, 110, 5, PROFIT_TARGET_PCT 50)]
      \<and> map_of (positions e1) ''B''
         = Some ((new_position ''B'' 10 1 100 100 1 40)
                   \<lparr> iv_at_entry := 2 / 10, original_premium := 1, adjustment_date := Some 10,
                     adjustment_cost := 5, strike_price := 105, premium_received := 5 / 2,
                     delta_at_entry := 1 / 2, adjusted := True \<rparr>)
      \<and> filter (\<lambda>t. t_symbol t = ''B'') (trades e1) = []
      \<and> map_of (positions e1) ''C''
         = Some ((new_position ''C'' 10 1 100 108 (3 / 2) 40) \<lparr> iv_at_entry := 2 / 10 \<rparr>)
      \<and> filter (\<lambda>t. t_symbol t = ''C'') (trades e1) = []
      \<and> (\<exists>e2. check_early_exits (\<lambda>x. 1 / 2)
                 ((default_config [''A'', ''B'', ''C''] 0 90 OTM_2PCT PROFIT_TARGET_AND_STOP_LOSS)
                    \<lparr> risk_free_rate := 0, allow_sl_adjustment := True \<rparr>)
                 e1 11
                 [''A'' \<mapsto> [\<lparr> bar_date = 10, bar_open = 108, bar_high = 111, bar_low = 107,
                               bar_close = 110, bar_volume = 1000 \<rparr>],
                  ''B'' \<mapsto> [\<lparr> bar_date = 10, bar_open = 108, bar_high = 111, bar_low = 107,
                               bar_close = 110, bar_volume = 1000 \<rparr>,
                             \<lparr> bar_date = 11, bar_open = 112, bar_high = 121, bar_low = 111,
                               bar_close = 120, bar_volume = 1000 \<rparr>],
                  ''C'' \<mapsto> [\<lparr> bar_date = 10, bar_open = 108, bar_high = 111, bar_low = 107,
                               bar_close = 110, bar_volume = 1000 \<rparr>]]
               = Some (Inr e2)
            \<and> map_of (positions e2) ''B'' = None
            \<and> map (\<lambda>t. (t_symbol t, t_exit_date t, t_stock_exit_price t, t_option_exit_price t,
                         t_exit_reason t))
                 (filter (\<lambda>t. t_symbol t = ''B'') (trades e2))
               = [(''B'', 11, 120, 15 / 2, STOP_LOSS_X 2 True)]))"
proof -
  let ?data = "[''A'' \<mapsto> [\<lparr> bar_date = 10, bar_open = 108, bar_high = 111, bar_low = 107,
                   bar_close = 110, bar_volume = 1000 \<rparr>]]"
  let ?cdf = "\<lambda>x::real. 1 / 2 :: real"
  have price: "get_price ''A'' 10 ?data = Some 110"
    by (simp add: get_price_def)
  have priced: "calculate_option_price ?cdf 0 110 100 (real_of_int n / 365) (2 / 10) ''CE'' None = Inr 5"
    if "0 < n" for n
    using that by (simp add: calculate_option_price_call)
  note defs = default_config_def new_position_def py_int_def
  have w1: "early_exit_step ?cdf
     ((default_config [''A''] 0 90 OTM_2PCT HOLD_TO_EXPIRY)
        \<lparr> risk_free_rate := 0, use_dte_exit := True, use_trailing_stop := True \<rparr>)
     ?data 10 ''A''
     ((new_position ''A'' 10 1 100 100 10 15)
        \<lparr> iv_at_entry := 2 / 10, profit_high_water_mark := 80, trailing_stop_active := True \<rparr>)
     ([], [])
   = Inr ((new_position ''A'' 10 1 100 100 10 15)
            \<lparr> iv_at_entry := 2 / 10, profit_high_water_mark := 80, trailing_stop_active := True \<rparr>,
          [(''A'', 110, 5, DTE_EXIT 5)], [])"
    using early_exit_precedence[where s="''A''" and d=10 and data="?data" and sp=110 and cdf="?cdf"
        and cop=5 and cl="[]" and al="[]"
        and cfg="(default_config [''A''] 0 90 OTM_2PCT HOLD_TO_EXPIRY)
                   \<lparr> risk_free_rate := 0, use_dte_exit := True, use_trailing_stop := True \<rparr>"
        and p="(new_position ''A'' 10 1 100 100 10 15)
                 \<lparr> iv_at_entry := 2 / 10, profit_high_water_mark := 80, trailing_stop_active := True \<rparr>"]
      price priced[of 5]
    by (simp add: defs)
  have w2: "early_exit_step ?cdf
     ((default_config [''A''] 0 90 OTM_2PCT PROFIT_TARGET_AND_STOP_LOSS)
        \<lparr> risk_free_rate := 0, use_trailing_stop := True \<rparr>)
     ?data 10 ''A''
     ((new_position ''A'' 10 1 100 100 10 40)
        \<lparr> iv_at_entry := 2 / 10, profit_high_water_mark := 80, trailing_stop_active := True \<rparr>)
     ([], [])
   = Inr ((new_position ''A'' 10 1 100 100 10 40)
            \<lparr> iv_at_entry := 2 / 10, profit_high_water_mark := 80, trailing_stop_active := True \<rparr>,
          [(''A'', 110, 5, TRAILING_STOP_HWM 80)], [])"
    using early_exit_precedence[where s="''A''" and d=10 and data="?data" and sp=110 and cdf="?cdf"
        and cop=5 and cl="[]" and al="[]"
        and cfg="(default_config [''A''] 0 90 OTM_2PCT PROFIT_TARGET_AND_STOP_LOSS)
                   \<lparr> risk_free_rate := 0, use_trailing_stop := True \<rparr>"
        and p="(new_position ''A'' 10 1 100 100 10 40)
                 \<lparr> iv_at_entry := 2 / 10, profit_high_water_mark := 80, trailing_stop_active := True \<rparr>"]
      price priced[of 30]
    by (simp add: defs)
  have w3: "early_exit_step ?cdf
     ((default_config [''A''] 0 90 OTM_2PCT PROFIT_TARGET_AND_STOP_LOSS) \<lparr> risk_free_rate := 0 \<rparr>)
     ?data 10 ''A''
     ((new_position ''A'' 10 1 100 100 10 40) \<lparr> iv_at_entry := 2 / 10 \<rparr>)
     ([], [])
   = Inr ((new_position ''A'' 10 1 100 100 10 40) \<lparr> iv_at_entry := 2 / 10 \<rparr>,
          [(''A'', 110, 5, PROFIT_TARGET_PCT 50)], [])"
    using early_exit_precedence[where s="''A''" and d=10 and data="?data" and sp=110 and cdf="?cdf"
        and cop=5 and cl="[]" and al="[]"
        and cfg="(default_config [''A''] 0 90 OTM_2PCT PROFIT_TARGET_AND_STOP_LOSS) \<lparr> risk_free_rate := 0 \<rparr>"
        and p="(new_position ''A'' 10 1 100 100 10 40) \<lparr> iv_at_entry := 2 / 10 \<rparr>"]
      price priced[of 30]
    by (simp add: defs)
  have w4: "early_exit_step ?cdf
     ((default_config [''A''] 0 90 OTM_2PCT PROFIT_TARGET_AND_STOP_LOSS)
        \<lparr> risk_free_rate := 0, allow_sl_adjustment := True \<rparr>)
     ?data 10 ''A''
     ((new_position ''A'' 10 1 100 100 1 40) \<lparr> iv_at_entry := 2 / 10 \<rparr>)
     ([], [])
   = Inr ((new_position ''A'' 10 1 100 100 1 40) \<lparr> iv_at_entry := 2 / 10 \<rparr>,
          [], [(''A'', 110, 5, 4, 30 / 365, 2 / 10)])"
    using early_exit_precedence[where s="''A''" and d=10 and data="?data" and sp=110 and cdf="?cdf"
        and cop=5 and cl="[]" and al="[]"
        and cfg="(default_config [''A''] 0 90 OTM_2PCT PROFIT_TARGET_AND_STOP_LOSS)
                   \<lparr> risk_free_rate := 0, allow_sl_adjustment := True \<rparr>"
        and p="(new_position ''A'' 10 1 100 100 1 40) \<lparr> iv_at_entry := 2 / 10 \<rparr>"]
      price priced[of 30]
    by (simp add: defs)
  have w5: "early_exit_step ?cdf
     ((default_config [''A''] 0 90 OTM_2PCT PROFIT_TARGET_AND_STOP_LOSS)
        \<lparr> risk_free_rate := 0, allow_sl_adjustment := True \<rparr>)
     ?data 10 ''A''
     ((new_position ''A'' 10 1 100 100 1 40) \<lparr> iv_at_entry := 2 / 10, adjusted := True \<rparr>)
     ([], [])
   = Inr ((new_position ''A'' 10 1 100 100 1 40) \<lparr> iv_at_entry := 2 / 10, adjusted := True \<rparr>,
          [(''A'', 110, 5, STOP_LOSS_X 2 True)], [])"
    using early_exit_precedence[where s="''A''" and d=10 and data="?data" and sp=110 and cdf="?cdf"
        and cop=5 and cl="[]" and al="[]"
        and cfg="(default_config [''A''] 0 90 OTM_2PCT PROFIT_TARGET_AND_STOP_LOSS)
                   \<lparr> risk_free_rate := 0, allow_sl_adjustment := True \<rparr>"
        and p="(new_position ''A'' 10 1 100 100 1 40) \<lparr> iv_at_entry := 2 / 10, adjusted := True \<rparr>"]
      price priced[of 30]
    by (simp add: defs)
  have w6: "early_exit_step ?cdf
     ((default_config [''A''] 0 90 OTM_2PCT STOP_LOSS) \<lparr> risk_free_rate := 0 \<rparr>)
     ?data 10 ''A''
     ((new_position ''A'' 10 1 100 100 10 40) \<lparr> iv_at_entry := 2 / 10 \<rparr>)
     ([], [])
   = Inr ((new_position ''A'' 10 1 100 100 10 40) \<lparr> iv_at_entry := 2 / 10 \<rparr>, [], [])"
    using early_exit_precedence[where s="''A''" and d=10 and data="?data" and sp=110 and cdf="?cdf"
        and cop=5 and cl="[]" and al="[]"
        and cfg="(default_config [''A''] 0 90 OTM_2PCT STOP_LOSS) \<lparr> risk_free_rate := 0 \<rparr>"
        and p="(new_position ''A'' 10 1 100 100 10 40) \<lparr> iv_at_entry := 2 / 10 \<rparr>"]
      price priced[of 30]
    by (simp add: defs)
  let ?cfg = "(default_config [''A'', ''B'', ''C''] 0 90 OTM_2PCT PROFIT_TARGET_AND_STOP_LOSS)
                \<lparr> risk_free_rate := 0, allow_sl_adjustment := True \<rparr>"
  let ?b10 = "\<lparr> bar_date = 10, bar_open = 108, bar_high = 111, bar_low = 107,
                bar_close = 110, bar_volume = 1000 \<rparr>"
  let ?b11 = "\<lparr> bar_date = 11, bar_open = 112, bar_high = 121, bar_low = 111,
                bar_close = 120, bar_volume = 1000 \<rparr>"
  let ?day = "[''A'' \<mapsto> [?b10], ''B'' \<mapsto> [?b10, ?b11], ''C'' \<mapsto> [?b10]]"
  let ?pa = "(new_position ''A'' 10 1 100 100 10 40) \<lparr> iv_at_entry := 2 / 10 \<rparr>"
  let ?pb = "(new_position ''B'' 10 1 100 100 1 40) \<lparr> iv_at_entry := 2 / 10 \<rparr>"
  let ?pc = "(new_position ''C'' 10 1 100 108 (3 / 2) 40) \<lparr> iv_at_entry := 2 / 10 \<rparr>"
  let ?pb2 = "?pb\<lparr> original_premium := 1, adjustment_date := Some 10, adjustment_cost := 5,
                    strike_price := 105, premium_received := 5 / 2, delta_at_entry := 1 / 2,
                    adjusted := True \<rparr>"
  let ?e0 = "\<lparr> positions = [(''A'', ?pa), (''B'', ?pb), (''C'', ?pc)], trades = [], cash = 1000 \<rparr>"
  let ?e1 = "\<lparr> positions = [(''B'', ?pb2), (''C'', ?pc)],
               trades = [make_trade ?cfg ''A'' ?pa 10 110 5 (PROFIT_TARGET_PCT 50)], cash = 2025 \<rparr>"
  let ?e2 = "\<lparr> positions = [(''C'', ?pc)],
               trades = [make_trade ?cfg ''A'' ?pa 10 110 5 (PROFIT_TARGET_PCT 50),
                         make_trade ?cfg ''B'' ?pb2 11 120 (15 / 2) (STOP_LOSS_X 2 True)],
               cash = 3150 \<rparr>"
  have day1: "check_early_exits ?cdf ?cfg ?e0 10 ?day = Some (Inr ?e1)"
    by (rule exit_day_example(1))
  have day2: "check_early_exits ?cdf ?cfg ?e1 11 ?day = Some (Inr ?e2)"
    by (rule exit_day_example(2))
  have prices: "get_price ''A'' 10 ?day = Some 110" "get_price ''B'' 10 ?day = Some 110"
    "get_price ''C'' 10 ?day = Some 110" "get_price ''B'' 11 ?day = Some 120"
    by (simp_all add: get_price_def)
  have half: "calculate_option_price ?cdf 0 spot strike (real_of_int n / 365) (2 / 10) ''CE'' None
                = Inr ((spot - strike) / 2)"
    if "0 < n" "0 < spot" "0 < strike" for n spot strike
    using that by (simp add: calculate_option_price_half)
  have da: "map_of (positions ?e1) ''A'' = None
      \<and> filter (\<lambda>t. t_symbol t = ''A'') (trades ?e1)
          = [make_trade ?cfg ''A'' ?pa 10 110 5 (PROFIT_TARGET_PCT 50)]"
    using early_exit_precedence[where s="''A''" and d=10 and data="?day" and sp=110
        and cdf="?cdf" and cop=5 and cfg="?cfg" and p="?pa" and e="?e0" and e'="?e1",
        THEN conjunct2, THEN conjunct2, THEN conjunct1]
      prices(1) half[of 30 110 100] day1
    by (simp add: defs make_trade_symbol)
  have db: "filter (\<lambda>t. t_symbol t = ''B'') (trades ?e1) = []
      \<and> map_of (positions ?e1) ''B'' = Some ?pb2"
    using early_exit_precedence[where s="''B''" and d=10 and data="?day" and sp=110
        and cdf="?cdf" and cop=5 and cfg="?cfg" and p="?pb" and e="?e0" and e'="?e1",
        THEN conjunct2, THEN conjunct2, THEN conjunct2, THEN conjunct1]
      prices(2) half[of 30 110 100] day1
    by (simp add: defs make_trade_symbol)
  have dc: "map_of (positions ?e1) ''C'' = Some ?pc
      \<and> filter (\<lambda>t. t_symbol t = ''C'') (trades ?e1) = []"
    using early_exit_precedence[where s="''C''" and d=10 and data="?day" and sp=110
        and cdf="?cdf" and cop=1 and cfg="?cfg" and p="?pc" and e="?e0" and e'="?e1",
        THEN conjunct2, THEN conjunct2, THEN conjunct2, THEN conjunct2, THEN conjunct2]
      prices(3) half[of 30 110 108] day1
    by (simp add: defs make_trade_symbol)
  have dd: "map_of (positions ?e2) ''B'' = None
      \<and> filter (\<lambda>t. t_symbol t = ''B'') (trades ?e2)
          = filter (\<lambda>t. t_symbol t = ''B'') (trades ?e1)
              @ [make_trade ?cfg ''B'' ?pb2 11 120 (15 / 2) (STOP_LOSS_X 2 True)]"
    using early_exit_precedence[where s="''B''" and d=11 and data="?day" and sp=120
        and cdf="?cdf" and cop="15 / 2" and cfg="?cfg" and p="?pb2" and e="?e1" and e'="?e2",
        THEN conjunct2, THEN conjunct2, THEN conjunct2, THEN conjunct2, THEN conjunct1]
      prices(4) half[of 29 120 105] day2
    by (simp add: defs make_trade_symbol)
  have second: "\<exists>e2. check_early_exits ?cdf ?cfg ?e1 11 ?day = Some (Inr e2)
            \<and> map_of (positions e2) ''B'' = None
            \<and> map (\<lambda>t. (t_symbol t, t_exit_date t, t_stock_exit_price t, t_option_exit_price t,
                         t_exit_reason t))
                 (filter (\<lambda>t. t_symbol t = ''B'') (trades e2))
               = [(''B'', 11, 120, 15 / 2, STOP_LOSS_X 2 True)]"
    using day2 dd by (intro exI[of _ ?e2]) (simp add: make_trade_symbol, simp add: make_trade_def Let_def)
  have first: "\<exists>e1. check_early_exits ?cdf ?cfg ?e0 10 ?day = Some (Inr e1)
      \<and> map_of (positions e1) ''A'' = None
      \<and> map (\<lambda>t. (t_symbol t, t_exit_date t, t_stock_exit_price t, t_option_exit_price t, t_exit_reason t))
           (filter (\<lambda>t. t_symbol t = ''A'') (trades e1))
         = [(''A'', 10, 110, 5, PROFIT_TARGET_PCT 50)]
      \<and> map_of (positions e1) ''B'' = Some ?pb2
      \<and> filter (\<lambda>t. t_symbol t = ''B'') (trades e1) = []
      \<and> map_of (positions e1) ''C'' = Some ?pc
      \<and> filter (\<lambda>t. t_symbol t = ''C'') (trades e1) = []
      \<and> (\<exists>e2. check_early_exits ?cdf ?cfg e1 11 ?day = Some (Inr e2)
            \<and> map_of (positions e2) ''B'' = None
            \<and> map (\<lambda>t. (t_symbol t, t_exit_date t, t_stock_exit_price t, t_option_exit_price t,
                         t_exit_reason t))
                 (filter (\<lambda>t. t_symbol t = ''B'') (trades e2))
               = [(''B'', 11, 120, 15 / 2, STOP_LOSS_X 2 True)])"
    using day1 da db dc second by (intro exI[of _ ?e1]) (simp add: make_trade_symbol, simp add: make_trade_def Let_def)
  from w1 w2 w3 w4 w5 w6 first show ?thesis by (intro conjI)
qed

text \<open>
  C3. The roll-up adjustment happens at most once per position. The loop body of
  \<open>_check_early_exits\<close> queues an adjustment only when the stop-loss test is reached
  and holds, \<open>allow_sl_adjustment\<close> is set and the position is not yet adjusted; the
  body never changes the \<open>adjusted\<close> flag and \<open>_adjust_position\<close> sets it; for an
  adjusted position a stop-loss hit (the stop-loss test reached and true) queues the close
  with the reason \<open>STOP_LOSS_<m>X_AFTER_ADJ\<close>. For a positive stock price the ladder is
  not empty, and when it has no strike at or above the minimum new strike the new strike is
  the ladder's maximum. Over a whole day of \<open>_check_early_exits\<close>, a position that is
  adjusted at the start of the day and still open at its end differs at most in the
  trailing-stop fields: its strike, premium and adjustment bookkeeping are untouched, so it
  is not adjusted again. On a day that ends without an exception, a stop-loss hit on a
  position that is not yet adjusted, with the adjustment allowed, leaves the position open,
  rolled exactly once by \<open>_adjust_position\<close> (the new strike, premium and delta are
  those of one call, the buy-back price is recorded as the adjustment cost) and appends no
  trade; a stop-loss hit on an adjusted position removes it and appends one trade with the
  reason \<open>STOP_LOSS_<m>X_AFTER_ADJ\<close>.
\<close>

theorem adjustment_at_most_once:
  fixes cfg :: BacktestConfig and p :: Position and d :: int and cop :: real
  defines "dte \<equiv> expiry_date p - d"
    and "pnl \<equiv> premium_received p - cop"
  defines "pct \<equiv> (if premium_received p > 0 then (pnl / premium_received p) * 100 else 0)"
  defines "hwm \<equiv> (if pct > profit_high_water_mark p then pct else profit_high_water_mark p)"
    and "active \<equiv> (trailing_stop_active p \<or> pct \<ge> trailing_stop_activation cfg)"
  defines "p2 \<equiv> (if use_trailing_stop cfg
                  then p\<lparr> profit_high_water_mark := hwm, trailing_stop_active := active \<rparr> else p)"
    and "dte_exit \<equiv> (use_dte_exit cfg \<and> dte \<le> dte_exit_threshold cfg)"
    and "trailing_stop \<equiv> (use_trailing_stop cfg \<and> active \<and> hwm - pct \<ge> trailing_stop_distance cfg)"
    and "profit_target \<equiv> ((exit_strategy cfg = PROFIT_TARGET \<or> exit_strategy cfg = PROFIT_TARGET_AND_STOP_LOSS)
                            \<and> pnl \<ge> premium_received p * (profit_target_pct cfg / 100))"
    and "stop_loss \<equiv> ((exit_strategy cfg = STOP_LOSS \<or> exit_strategy cfg = PROFIT_TARGET_AND_STOP_LOSS)
                        \<and> pnl \<le> - stop_loss_multiple cfg * premium_received p)"
  shows "(early_exit_step cdf cfg data d s p (cl, al) = Inr (p', cl', al') \<and> al' \<noteq> al \<longrightarrow>
            allow_sl_adjustment cfg \<and> \<not> adjusted p
            \<and> (exit_strategy cfg = STOP_LOSS \<or> exit_strategy cfg = PROFIT_TARGET_AND_STOP_LOSS)
            \<and> cl' = cl
            \<and> (\<exists>sp' cop'. get_price s d data = Some sp'
                  \<and> calculate_option_price cdf (risk_free_rate cfg) sp' (strike_price p)
                       (real_of_int (expiry_date p - d) / 365) (iv_at_entry p) ''CE'' None = Inr cop'
                  \<and> premium_received p - cop' \<le> - stop_loss_multiple cfg * premium_received p
                  \<and> al' = al @ [(s, sp', cop', \<bar>premium_received p - cop'\<bar>,
                                  real_of_int (expiry_date p - d) / 365, iv_at_entry p)]))
       \<and> (early_exit_step cdf cfg data d s p (cl, al) = Inr (p', cl', al') \<longrightarrow> adjusted p' = adjusted p)
       \<and> (adjust_position cdf cfg e s d stock_price buyback lost tte iv = Some (Inr e') \<longrightarrow>
            (\<exists>q'. map_of (positions e') s = Some q' \<and> adjusted q'))
       \<and> (get_price s d data = Some sp \<and> 0 < expiry_date p - d
            \<and> calculate_option_price cdf (risk_free_rate cfg) sp (strike_price p)
                 (real_of_int (expiry_date p - d) / 365) (iv_at_entry p) ''CE'' None = Inr cop
            \<and> adjusted p \<and> \<not> dte_exit \<and> \<not> trailing_stop \<and> \<not> profit_target \<and> stop_loss \<longrightarrow>
            early_exit_step cdf cfg data d s p (cl, al)
              = Inr (p2, cl @ [(s, sp, cop, STOP_LOSS_X (stop_loss_multiple cfg) True)], al))
       \<and> (0 < stock_price \<longrightarrow>
            (\<exists>ladder. generate_strikes stock_price (get_strike_interval stock_price) = Some (Inr ladder)
               \<and> ladder \<noteq> []
               \<and> ((\<forall>k\<in>set ladder. k < strike_price q + (lost / stock_price) * stock_price)
                     \<longrightarrow> adjust_new_strike q stock_price lost = Some (Inr (Max (set ladder))))))
       \<and> (distinct (map fst (positions eng))
            \<and> check_early_exits cdf cfg eng d data = Some (Inr eng')
            \<and> map_of (positions eng) sa = Some pa \<and> adjusted pa
            \<and> map_of (positions eng') sa = Some qa \<longrightarrow>
            (\<exists>h a. qa = pa\<lparr> profit_high_water_mark := h, trailing_stop_active := a \<rparr>))
       \<and> (distinct (map fst (positions eng))
            \<and> check_early_exits cdf cfg eng d data = Some (Inr eng')
            \<and> map_of (positions eng) s = Some p
            \<and> get_price s d data = Some sp \<and> 0 < expiry_date p - d
            \<and> calculate_option_price cdf (risk_free_rate cfg) sp (strike_price p)
                 (real_of_int (expiry_date p - d) / 365) (iv_at_entry p) ''CE'' None = Inr cop
            \<and> \<not> dte_exit \<and> \<not> trailing_stop \<and> \<not> profit_target \<and> stop_loss
            \<and> allow_sl_adjustment cfg \<and> \<not> adjusted p \<longrightarrow>
            filter (\<lambda>t. t_symbol t = s) (trades eng') = filter (\<lambda>t. t_symbol t = s) (trades eng)
            \<and> (\<exists>k prem dl.
                  adjust_new_strike
                    (if original_premium p2 = 0 then p2\<lparr> original_premium := premium_received p2 \<rparr>
                     else p2)
                    sp \<bar>pnl\<bar> = Some (Inr k)
                \<and> calculate_option_price cdf (risk_free_rate cfg) sp k (real_of_int dte / 365)
                     (iv_at_entry p) ''CE'' None = Inr prem
                \<and> calculate_delta cdf (risk_free_rate cfg) sp k (real_of_int dte / 365)
                     (iv_at_entry p) ''CE'' None = Inr dl
                \<and> map_of (positions eng') s
                    = Some (p2\<lparr> original_premium := (if original_premium p2 = 0
                                                       then premium_received p2
                                                       else original_premium p2),
                                adjustment_date := Some d, adjustment_cost := cop,
                                strike_price := k, premium_received := prem,
                                delta_at_entry := dl, adjusted := True \<rparr>)))
       \<and> (distinct (map fst (positions eng))
            \<and> check_early_exits cdf cfg eng d data = Some (Inr eng')
            \<and> map_of (positions eng) s = Some p
            \<and> get_price s d data = Some sp \<and> 0 < expiry_date p - d
            \<and> calculate_option_price cdf (risk_free_rate cfg) sp (strike_price p)
                 (real_of_int (expiry_date p - d) / 365) (iv_at_entry p) ''CE'' None = Inr cop
            \<and> \<not> dte_exit \<and> \<not> trailing_stop \<and> \<not> profit_target \<and> stop_loss
            \<and> adjusted p \<longrightarrow>
            map_of (positions eng') s = None
            \<and> filter (\<lambda>t. t_symbol t = s) (trades eng')
                = filter (\<lambda>t. t_symbol t = s) (trades eng)
                    @ [make_trade cfg s p2 d sp cop (STOP_LOSS_X (stop_loss_multiple cfg) True)])"
proof -
  have c1: "early_exit_step cdf cfg data d s p (cl, al) = Inr (p', cl', al') \<and> al' \<noteq> al \<longrightarrow>
            allow_sl_adjustment cfg \<and> \<not> adjusted p
            \<and> (exit_strategy cfg = STOP_LOSS \<or> exit_strategy cfg = PROFIT_TARGET_AND_STOP_LOSS)
            \<and> cl' = cl
            \<and> (\<exists>sp' cop'. get_price s d data = Some sp'
                  \<and> calculate_option_price cdf (risk_free_rate cfg) sp' (strike_price p)
                       (real_of_int (expiry_date p - d) / 365) (iv_at_entry p) ''CE'' None = Inr cop'
                  \<and> premium_received p - cop' \<le> - stop_loss_multiple cfg * premium_received p
                  \<and> al' = al @ [(s, sp', cop', \<bar>premium_received p - cop'\<bar>,
                                  real_of_int (expiry_date p - d) / 365, iv_at_entry p)])"
    using early_exit_step_queues_adjustment[of cdf cfg data d s p cl al p' cl' al'] by blast
  have c2: "early_exit_step cdf cfg data d s p (cl, al) = Inr (p', cl', al') \<longrightarrow> adjusted p' = adjusted p"
    using early_exit_step_adjusted by blast
  have c3: "adjust_position cdf cfg e s d stock_price buyback lost tte iv = Some (Inr e') \<longrightarrow>
            (\<exists>q'. map_of (positions e') s = Some q' \<and> adjusted q')"
  proof
    assume a: "adjust_position cdf cfg e s d stock_price buyback lost tte iv = Some (Inr e')"
    from adjust_position_result[OF a] show "\<exists>q'. map_of (positions e') s = Some q' \<and> adjusted q'"
      by (auto simp: AList.update_conv')
  qed
  have c4: "get_price s d data = Some sp \<and> 0 < expiry_date p - d
            \<and> calculate_option_price cdf (risk_free_rate cfg) sp (strike_price p)
                 (real_of_int (expiry_date p - d) / 365) (iv_at_entry p) ''CE'' None = Inr cop
            \<and> adjusted p \<and> \<not> dte_exit \<and> \<not> trailing_stop \<and> \<not> profit_target \<and> stop_loss \<longrightarrow>
            early_exit_step cdf cfg data d s p (cl, al)
              = Inr (p2, cl @ [(s, sp, cop, STOP_LOSS_X (stop_loss_multiple cfg) True)], al)"
  proof (intro impI, elim conjE)
    assume h: "get_price s d data = Some sp" "0 < expiry_date p - d"
      "calculate_option_price cdf (risk_free_rate cfg) sp (strike_price p)
                 (real_of_int (expiry_date p - d) / 365) (iv_at_entry p) ''CE'' None = Inr cop"
      and c: "adjusted p" "\<not> dte_exit" "\<not> trailing_stop" "\<not> profit_target" "stop_loss"
    have step: "early_exit_step cdf cfg data d s p (cl, al) =
      (if dte_exit then Inr (p, cl @ [(s, sp, cop, DTE_EXIT dte)], al)
       else if trailing_stop
       then Inr (p2, cl @ [(s, sp, cop, TRAILING_STOP_HWM (py_int hwm))], al)
       else if profit_target
       then Inr (p2, cl @ [(s, sp, cop, PROFIT_TARGET_PCT (py_int (profit_target_pct cfg)))], al)
       else if stop_loss
       then (if allow_sl_adjustment cfg \<and> \<not> adjusted p
             then Inr (p2, cl, al @ [(s, sp, cop, \<bar>pnl\<bar>, real_of_int dte / 365, iv_at_entry p)])
             else Inr (p2, cl @ [(s, sp, cop, STOP_LOSS_X (stop_loss_multiple cfg) (adjusted p))], al))
       else Inr (p2, cl, al))"
      unfolding dte_def pnl_def pct_def hwm_def active_def p2_def dte_exit_def trailing_stop_def
        profit_target_def stop_loss_def
      by (rule early_exit_step_cases[OF h])
    show "early_exit_step cdf cfg data d s p (cl, al)
              = Inr (p2, cl @ [(s, sp, cop, STOP_LOSS_X (stop_loss_multiple cfg) True)], al)"
      unfolding step using c by simp
  qed
  have c5: "0 < stock_price \<longrightarrow>
            (\<exists>ladder. generate_strikes stock_price (get_strike_interval stock_price) = Some (Inr ladder)
               \<and> ladder \<noteq> []
               \<and> ((\<forall>k\<in>set ladder. k < strike_price q + (lost / stock_price) * stock_price)
                     \<longrightarrow> adjust_new_strike q stock_price lost = Some (Inr (Max (set ladder)))))"
    using adjust_new_strike_clamps[of stock_price q lost] by blast
  have c6: "distinct (map fst (positions eng))
            \<and> check_early_exits cdf cfg eng d data = Some (Inr eng')
            \<and> map_of (positions eng) sa = Some pa \<and> adjusted pa
            \<and> map_of (positions eng') sa = Some qa \<longrightarrow>
            (\<exists>h a. qa = pa\<lparr> profit_high_water_mark := h, trailing_stop_active := a \<rparr>)"
  proof (intro impI, elim conjE)
    assume "distinct (map fst (positions eng))"
      and "check_early_exits cdf cfg eng d data = Some (Inr eng')"
      and "map_of (positions eng) sa = Some pa" and "adjusted pa"
      and "map_of (positions eng') sa = Some qa"
    then show "\<exists>h a. qa = pa\<lparr> profit_high_water_mark := h, trailing_stop_active := a \<rparr>"
      by (rule check_early_exits_keeps_adjusted)
  qed
  have c7: "distinct (map fst (positions eng))
            \<and> check_early_exits cdf cfg eng d data = Some (Inr eng')
            \<and> map_of (positions eng) s = Some p
            \<and> get_price s d data = Some sp \<and> 0 < expiry_date p - d
            \<and> calculate_option_price cdf (risk_free_rate cfg) sp (strike_price p)
                 (real_of_int (expiry_date p - d) / 365) (iv_at_entry p) ''CE'' None = Inr cop
            \<and> \<not> dte_exit \<and> \<not> trailing_stop \<and> \<not> profit_target \<and> stop_loss
            \<and> allow_sl_adjustment cfg \<and> \<not> adjusted p \<longrightarrow>
            filter (\<lambda>t. t_symbol t = s) (trades eng') = filter (\<lambda>t. t_symbol t = s) (trades eng)
            \<and> (\<exists>k prem dl.
                  adjust_new_strike
                    (if original_premium p2 = 0 then p2\<lparr> original_premium := premium_received p2 \<rparr>
                     else p2)
                    sp \<bar>pnl\<bar> = Some (Inr k)
                \<and> calculate_option_price cdf (risk_free_rate cfg) sp k (real_of_int dte / 365)
                     (iv_at_entry p) ''CE'' None = Inr prem
                \<and> calculate_delta cdf (risk_free_rate cfg) sp k (real_of_int dte / 365)
                     (iv_at_entry p) ''CE'' None = Inr dl
                \<and> map_of (positions eng') s
                    = Some (p2\<lparr> original_premium := (if original_premium p2 = 0
                                                       then premium_received p2
                                                       else original_premium p2),
                                adjustment_date := Some d, adjustment_cost := cop,
                                strike_price := k, premium_received := prem,
                                delta_at_entry := dl, adjusted := True \<rparr>))"
  proof (intro impI, elim conjE)
    assume h: "distinct (map fst (positions eng))"
      "check_early_exits cdf cfg eng d data = Some (Inr eng')"
      "map_of (positions eng) s = Some p"
      "get_price s d data = Some sp" "0 < expiry_date p - d"
      "calculate_option_price cdf (risk_free_rate cfg) sp (strike_price p)
                 (real_of_int (expiry_date p - d) / 365) (iv_at_entry p) ''CE'' None = Inr cop"
      and c: "\<not> dte_exit" "\<not> trailing_stop" "\<not> profit_target" "stop_loss"
      and a: "allow_sl_adjustment cfg" "\<not> adjusted p"
    have r: "allow_sl_adjustment cfg \<and> \<not> adjusted p \<longrightarrow>
            filter (\<lambda>t. t_symbol t = s) (trades eng') = filter (\<lambda>t. t_symbol t = s) (trades eng)
            \<and> (\<exists>k prem dl.
                  adjust_new_strike
                    (if original_premium p2 = 0 then p2\<lparr> original_premium := premium_received p2 \<rparr>
                     else p2)
                    sp \<bar>pnl\<bar> = Some (Inr k)
                \<and> calculate_option_price cdf (risk_free_rate cfg) sp k (real_of_int dte / 365)
                     (iv_at_entry p) ''CE'' None = Inr prem
                \<and> calculate_delta cdf (risk_free_rate cfg) sp k (real_of_int dte / 365)
                     (iv_at_entry p) ''CE'' None = Inr dl
                \<and> map_of (positions eng') s
                    = Some (p2\<lparr> original_premium := (if original_premium p2 = 0
                                                       then premium_received p2
                                                       else original_premium p2),
                                adjustment_date := Some d, adjustment_cost := cop,
                                strike_price := k, premium_received := prem,
                                delta_at_entry := dl, adjusted := True \<rparr>))"
      unfolding dte_def pnl_def pct_def hwm_def active_def p2_def dte_exit_def trailing_stop_def
        profit_target_def stop_loss_def
      by (rule check_early_exits_stop_loss(1)[OF h c[unfolded dte_def pnl_def pct_def hwm_def active_def p2_def dte_exit_def trailing_stop_def
        profit_target_def stop_loss_def]])
    from a have "allow_sl_adjustment cfg \<and> \<not> adjusted p" by simp
    with r show "filter (\<lambda>t. t_symbol t = s) (trades eng') = filter (\<lambda>t. t_symbol t = s) (trades eng)
            \<and> (\<exists>k prem dl.
                  adjust_new_strike
                    (if original_premium p2 = 0 then p2\<lparr> original_premium := premium_received p2 \<rparr>
                     else p2)
                    sp \<bar>pnl\<bar> = Some (Inr k)
                \<and> calculate_option_price cdf (risk_free_rate cfg) sp k (real_of_int dte / 365)
                     (iv_at_entry p) ''CE'' None = Inr prem
                \<and> calculate_delta cdf (risk_free_rate cfg) sp k (real_of_int dte / 365)
                     (iv_at_entry p) ''CE'' None = Inr dl
                \<and> map_of (positions eng') s
                    = Some (p2\<lparr> original_premium := (if original_premium p2 = 0
                                                       then premium_received p2
                                                       else original_premium p2),
                                adjustment_date := Some d, adjustment_cost := cop,
                                strike_price := k, premium_received := prem,
                                delta_at_entry := dl, adjusted := True \<rparr>))"
      by (rule mp)
  qed
  have c8: "distinct (map fst (positions eng))
            \<and> check_early_exits cdf cfg eng d data = Some (Inr eng')
            \<and> map_of (positions eng) s = Some p
            \<and> get_price s d data = Some sp \<and> 0 < expiry_date p - d
            \<and> calculate_option_price cdf (risk_free_rate cfg) sp (strike_price p)
                 (real_of_int (expiry_date p - d) / 365) (iv_at_entry p) ''CE'' None = Inr cop
            \<and> \<not> dte_exit \<and> \<not> trailing_stop \<and> \<not> profit_target \<and> stop_loss
            \<and> adjusted p \<longrightarrow>
            map_of (positions eng') s = None
            \<and> filter (\<lambda>t. t_symbol t = s) (trades eng')
                = filter (\<lambda>t. t_symbol t = s) (trades eng)
                    @ [make_trade cfg s p2 d sp cop (STOP_LOSS_X (stop_loss_multiple cfg) True)]"
  proof (intro impI, elim conjE)
    assume h: "distinct (map fst (positions eng))"
      "check_early_exits cdf cfg eng d data = Some (Inr eng')"
      "map_of (positions eng) s = Some p"
      "get_price s d data = Some sp" "0 < expiry_date p - d"
      "calculate_option_price cdf (risk_free_rate cfg) sp (strike_price p)
                 (real_of_int (expiry_date p - d) / 365) (iv_at_entry p) ''CE'' None = Inr cop"
      and c: "\<not> dte_exit" "\<not> trailing_stop" "\<not> profit_target" "stop_loss"
      and a: "adjusted p"
    have r: "\<not> (allow_sl_adjustment cfg \<and> \<not> adjusted p) \<longrightarrow>
            map_of (positions eng') s = None
            \<and> filter (\<lambda>t. t_symbol t = s) (trades eng')
                = filter (\<lambda>t. t_symbol t = s) (trades eng)
                    @ [make_trade cfg s p2 d sp cop (STOP_LOSS_X (stop_loss_multiple cfg) (adjusted p))]"
      unfolding dte_def pnl_def pct_def hwm_def active_def p2_def dte_exit_def trailing_stop_def
        profit_target_def stop_loss_def
      by (rule check_early_exits_stop_loss(2)[OF h c[unfolded dte_def pnl_def pct_def hwm_def active_def p2_def dte_exit_def trailing_stop_def
        profit_target_def stop_loss_def]])
    from a have "\<not> (allow_sl_adjustment cfg \<and> \<not> adjusted p)" by simp
    with r have "map_of (positions eng') s = None
            \<and> filter (\<lambda>t. t_symbol t = s) (trades eng')
                = filter (\<lambda>t. t_symbol t = s) (trades eng)
                    @ [make_trade cfg s p2 d sp cop (STOP_LOSS_X (stop_loss_multiple cfg) (adjusted p))]"
      by (rule mp)
    with a show "map_of (positions eng') s = None
            \<and> filter (\<lambda>t. t_symbol t = s) (trades eng')
                = filter (\<lambda>t. t_symbol t = s) (trades eng)
                    @ [make_trade cfg s p2 d sp cop (STOP_LOSS_X (stop_loss_multiple cfg) True)]"
      by simp
  qed
  from c1 c2 c3 c4 c5 c6 c7 c8 show ?thesis by (intro conjI)
qed

theorem adjustment_at_most_once_witness:
  "early_exit_step (\<lambda>x. 1 / 2)
     ((default_config [''A''] 0 90 OTM_2PCT STOP_LOSS) \<lparr> risk_free_rate := 0, allow_sl_adjustment := True \<rparr>)
     [''A'' \<mapsto> [\<lparr> bar_date = 10, bar_open = 108, bar_high = 111, bar_low = 107,
                   bar_close = 110, bar_volume = 1000 \<rparr>]]
     10 ''A''
     ((new_position ''A'' 10 1 100 100 1 40) \<lparr> iv_at_entry := 2 / 10 \<rparr>)
     ([], [])
   = Inr ((new_position ''A'' 10 1 100 100 1 40) \<lparr> iv_at_entry := 2 / 10 \<rparr>,
          [], [(''A'', 110, 5, 4, 30 / 365, 2 / 10)])
   \<and> \<not> adjusted ((new_position ''A'' 10 1 100 100 1 40) \<lparr> iv_at_entry := 2 / 10 \<rparr>)
   \<and> (\<exists>e' q'. adjust_position (\<lambda>x. 1 / 2)
         ((default_config [''A''] 0 90 OTM_2PCT STOP_LOSS) \<lparr> risk_free_rate := 0, allow_sl_adjustment := True \<rparr>)
         \<lparr> positions = [(''A'', (new_position ''A'' 10 1 100 100 1 40) \<lparr> iv_at_entry := 2 / 10 \<rparr>)],
           trades = [], cash = 1000 \<rparr>
         ''A'' 10 110 5 4 (30 / 365) (2 / 10) = Some (Inr e')
        \<and> map_of (positions e') ''A'' = Some q' \<and> adjusted q' \<and> strike_price q' = 105)
   \<and> early_exit_step (\<lambda>x. 1 / 2)
     ((default_config [''A''] 0 90 OTM_2PCT STOP_LOSS) \<lparr> risk_free_rate := 0, allow_sl_adjustment := True \<rparr>)
     [''A'' \<mapsto> [\<lparr> bar_date = 10, bar_open = 108, bar_high = 111, bar_low = 107,
                   bar_close = 110, bar_volume = 1000 \<rparr>]]
     10 ''A''
     ((new_position ''A'' 10 1 100 100 1 40) \<lparr> iv_at_entry := 2 / 10, adjusted := True \<rparr>)
     ([], [])
   = Inr ((new_position ''A'' 10 1 100 100 1 40) \<lparr> iv_at_entry := 2 / 10, adjusted := True \<rparr>,
          [(''A'', 110, 5, STOP_LOSS_X 2 True)], [])
   \<and> adjust_new_strike (new_position ''A'' 10 1 100 130 1 40) 110 4 = Some (Inr 130)
   \<and> check_early_exits (\<lambda>x. 1 / 2)
     ((default_config [''A''] 0 90 OTM_2PCT STOP_LOSS) \<lparr> risk_free_rate := 0, allow_sl_adjustment := True \<rparr>)
     \<lparr> positions = [(''A'', (new_position ''A'' 10 1 100 110 1 40)
                               \<lparr> iv_at_entry := 2 / 10, adjusted := True \<rparr>)],
       trades = [], cash = 1000 \<rparr>
     10
     [''A'' \<mapsto> [\<lparr> bar_date = 10, bar_open = 108, bar_high = 111, bar_low = 107,
                   bar_close = 110, bar_volume = 1000 \<rparr>]]
   = Some (Inr \<lparr> positions = [(''A'', (new_position ''A'' 10 1 100 110 1 40)
                                        \<lparr> iv_at_entry := 2 / 10, adjusted := True \<rparr>)],
                 trades = [], cash = 1000 \<rparr>)
   \<and> (\<exists>h a. (new_position ''A'' 10 1 100 110 1 40) \<lparr> iv_at_entry := 2 / 10, adjusted := True \<rparr>
        = ((new_position ''A'' 10 1 100 110 1 40) \<lparr> iv_at_entry := 2 / 10, adjusted := True \<rparr>)
            \<lparr> profit_high_water_mark := h, trailing_stop_active := a \<rparr>)
   \<and> (\<exists>e1. check_early_exits (\<lambda>x. 1 / 2)
           ((default_config [''A'', ''B'', ''C''] 0 90 OTM_2PCT PROFIT_TARGET_AND_STOP_LOSS)
              \<lparr> risk_free_rate := 0, allow_sl_adjustment := True \<rparr>)
           \<lparr> positions = [(''A'', (new_position ''A'' 10 1 100 100 10 40) \<lparr> iv_at_entry := 2 / 10 \<rparr>),
                          (''B'', (new_position ''B'' 10 1 100 100 1 40) \<lparr> iv_at_entry := 2 / 10 \<rparr>),
                          (''C'', (new_position ''C'' 10 1 100 108 (3 / 2) 40) \<lparr> iv_at_entry := 2 / 10 \<rparr>)],
             trades = [], cash = 1000 \<rparr>
           10
           [''A'' \<mapsto> [\<lparr> bar_date = 10, bar_open = 108, bar_high = 111, bar_low = 107,
                         bar_close = 110, bar_volume = 1000 \<rparr>],
            ''B'' \<mapsto> [\<lparr> bar_date = 10, bar_open = 108, bar_high = 111, bar_low = 107,
                         bar_close = 110, bar_volume = 1000 \<rparr>,
                       \<lparr> bar_date = 11, bar_open = 112, bar_high = 121, bar_low = 111,
                         bar_close = 120, bar_volume = 1000 \<rparr>],
            ''C'' \<mapsto> [\<lparr> bar_date = 10, bar_open = 108, bar_high = 111, bar_low = 107,
                         bar_close = 110, bar_volume = 1000 \<rparr>]]
         = Some (Inr e1)
      \<and> map_of (positions e1) ''B''
         = Some ((new_position ''B'' 10 1 100 100 1 40)
                   \<lparr> iv_at_entry := 2 / 10, original_premium := 1, adjustment_date := Some 10,
                     adjustment_cost := 5, strike_price := 105, premium_received := 5 / 2,
                     delta_at_entry := 1 / 2, adjusted := True \<rparr>)
      \<and> filter (\<lambda>t. t_symbol t = ''B'') (trades e1) = []
      \<and> (\<exists>e2. check_early_exits (\<lambda>x. 1 / 2)
                 ((default_config [''A'', ''B'', ''C''] 0 90 OTM_2PCT PROFIT_TARGET_AND_STOP_LOSS)
                    \<lparr> risk_free_rate := 0, allow_sl_adjustment := True \<rparr>)
                 e1 11
                 [''A'' \<mapsto> [\<lparr> bar_date = 10, bar_open = 108, bar_high = 111, bar_low = 107,
                               bar_close = 110, bar_volume = 1000 \<rparr>],
                  ''B'' \<mapsto> [\<lparr> bar_date = 10, bar_open = 108, bar_high = 111, bar_low = 107,
                               bar_close = 110, bar_volume = 1000 \<rparr>,
                             \<lparr> bar_date = 11, bar_open = 112, bar_high = 121, bar_low = 111,
                               bar_close = 120, bar_volume = 1000 \<rparr>],
                  ''C'' \<mapsto> [\<lparr> bar_date = 10, bar_open = 108, bar_high = 111, bar_low = 107,
                               bar_close = 110, bar_volume = 1000 \<rparr>]]
               = Some (Inr e2)
            \<and> map_of (positions e2) ''B'' = None
            \<and> map (\<lambda>t. (t_symbol t, t_exit_date t, t_stock_exit_price t, t_option_exit_price t,
                         t_exit_reason t))
                 (filter (\<lambda>t. t_symbol t = ''B'') (trades e2))
               = [(''B'', 11, 120, 15 / 2, STOP_LOSS_X 2 True)]))"
proof -
  let ?cfg = "(default_config [''A''] 0 90 OTM_2PCT STOP_LOSS)
                \<lparr> risk_free_rate := 0, allow_sl_adjustment := True \<rparr>"
  let ?data = "[''A'' \<mapsto> [\<lparr> bar_date = 10, bar_open = 108, bar_high = 111, bar_low = 107,
                   bar_close = 110, bar_volume = 1000 \<rparr>]]"
  let ?p = "(new_position ''A'' 10 1 100 100 1 40) \<lparr> iv_at_entry := 2 / 10 \<rparr>"
  let ?pa = "(new_position ''A'' 10 1 100 100 1 40) \<lparr> iv_at_entry := 2 / 10, adjusted := True \<rparr>"
  let ?cdf = "\<lambda>x::real. 1 / 2 :: real"
  note main = adjustment_at_most_once
  have price: "get_price ''A'' 10 ?data = Some 110"
    by (simp add: get_price_def)
  have priced: "calculate_option_price ?cdf 0 110 100 (real_of_int 30 / 365) (2 / 10) ''CE'' None = Inr 5"
    by (simp add: calculate_option_price_call)
  have a: "\<not> adjusted ?p"
    using main[where cdf="?cdf" and cfg="?cfg" and data="?data" and d=10 and s="''A''" and p="?p"
        and cl="[]" and al="[]" and p'="?p" and cl'="[]" and al'="[(''A'', 110, 5, 4, 30 / 365, 2 / 10)]",
        THEN conjunct1] early_exit_step_example
    by simp
  have b: "\<exists>e' q'. adjust_position ?cdf ?cfg
         \<lparr> positions = [(''A'', ?p)], trades = [], cash = 1000 \<rparr>
         ''A'' 10 110 5 4 (30 / 365) (2 / 10) = Some (Inr e')
        \<and> map_of (positions e') ''A'' = Some q' \<and> adjusted q' \<and> strike_price q' = 105"
    using main[where cdf="?cdf" and cfg="?cfg" and d=10 and s="''A''"
        and e="\<lparr> positions = [(''A'', ?p)], trades = [], cash = 1000 \<rparr>"
        and stock_price=110 and buyback=5 and lost=4 and tte="30 / 365" and iv="2 / 10",
        THEN conjunct2, THEN conjunct2, THEN conjunct1] adjust_position_example
    by simp
  have c: "early_exit_step ?cdf ?cfg ?data 10 ''A'' ?pa ([], [])
            = Inr (?pa, [(''A'', 110, 5, STOP_LOSS_X 2 True)], [])"
    using main[where cdf="?cdf" and cfg="?cfg" and data="?data" and d=10 and s="''A''" and p="?pa"
        and cl="[]" and al="[]" and sp=110 and cop=5,
        THEN conjunct2, THEN conjunct2, THEN conjunct2, THEN conjunct1] price priced
    by (simp add: default_config_def new_position_def)
  have d: "adjust_new_strike (new_position ''A'' 10 1 100 130 1 40) 110 4 = Some (Inr 130)"
    using main[where stock_price=110 and q="new_position ''A'' 10 1 100 130 1 40" and lost=4,
        THEN conjunct2, THEN conjunct2, THEN conjunct2, THEN conjunct2, THEN conjunct1] ladder_110
    by (simp add: new_position_def)
  let ?pb = "(new_position ''A'' 10 1 100 110 1 40) \<lparr> iv_at_entry := 2 / 10, adjusted := True \<rparr>"
  let ?eng = "\<lparr> positions = [(''A'', ?pb)], trades = [], cash = 1000 \<rparr>"
  have pre: "distinct (map fst (positions ?eng))" "map_of (positions ?eng) ''A'' = Some ?pb"
    "adjusted ?pb"
    by simp_all
  have f: "\<exists>h a. ?pb = ?pb\<lparr> profit_high_water_mark := h, trailing_stop_active := a \<rparr>"
    by (rule main[where cdf="?cdf" and cfg="?cfg" and data="?data" and d=10 and eng="?eng"
          and eng'="?eng" and sa="''A''" and pa="?pb" and qa="?pb",
          THEN conjunct2, THEN conjunct2, THEN conjunct2, THEN conjunct2, THEN conjunct2,
          THEN conjunct1, rule_format])
       (intro conjI pre check_early_exits_example)
  let ?cfg3 = "(default_config [''A'', ''B'', ''C''] 0 90 OTM_2PCT PROFIT_TARGET_AND_STOP_LOSS)
                \<lparr> risk_free_rate := 0, allow_sl_adjustment := True \<rparr>"
  let ?b10 = "\<lparr> bar_date = 10, bar_open = 108, bar_high = 111, bar_low = 107,
                bar_close = 110, bar_volume = 1000 \<rparr>"
  let ?b11 = "\<lparr> bar_date = 11, bar_open = 112, bar_high = 121, bar_low = 111,
                bar_close = 120, bar_volume = 1000 \<rparr>"
  let ?day = "[''A'' \<mapsto> [?b10], ''B'' \<mapsto> [?b10, ?b11], ''C'' \<mapsto> [?b10]]"
  let ?qa = "(new_position ''A'' 10 1 100 100 10 40) \<lparr> iv_at_entry := 2 / 10 \<rparr>"
  let ?qb = "(new_position ''B'' 10 1 100 100 1 40) \<lparr> iv_at_entry := 2 / 10 \<rparr>"
  let ?qc = "(new_position ''C'' 10 1 100 108 (3 / 2) 40) \<lparr> iv_at_entry := 2 / 10 \<rparr>"
  let ?qb2 = "?qb\<lparr> original_premium := 1, adjustment_date := Some 10, adjustment_cost := 5,
                    strike_price := 105, premium_received := 5 / 2, delta_at_entry := 1 / 2,
                    adjusted := True \<rparr>"
  let ?e0 = "\<lparr> positions = [(''A'', ?qa), (''B'', ?qb), (''C'', ?qc)], trades = [], cash = 1000 \<rparr>"
  let ?e1 = "\<lparr> positions = [(''B'', ?qb2), (''C'', ?qc)],
               trades = [make_trade ?cfg3 ''A'' ?qa 10 110 5 (PROFIT_TARGET_PCT 50)], cash = 2025 \<rparr>"
  let ?e2 = "\<lparr> positions = [(''C'', ?qc)],
               trades = [make_trade ?cfg3 ''A'' ?qa 10 110 5 (PROFIT_TARGET_PCT 50),
                         make_trade ?cfg3 ''B'' ?qb2 11 120 (15 / 2) (STOP_LOSS_X 2 True)],
               cash = 3150 \<rparr>"
  have day1: "check_early_exits ?cdf ?cfg3 ?e0 10 ?day = Some (Inr ?e1)"
    by (rule exit_day_example(1))
  have day2: "check_early_exits ?cdf ?cfg3 ?e1 11 ?day = Some (Inr ?e2)"
    by (rule exit_day_example(2))
  have prices: "get_price ''B'' 10 ?day = Some 110" "get_price ''B'' 11 ?day = Some 120"
    by (simp_all add: get_price_def)
  have g: "filter (\<lambda>t. t_symbol t = ''B'') (trades ?e1) = []
      \<and> map_of (positions ?e1) ''B'' = Some ?qb2"
    using main[where s="''B''" and d=10 and data="?day" and sp=110
        and cdf="?cdf" and cop=5 and cfg="?cfg3" and p="?qb" and eng="?e0" and eng'="?e1",
        THEN conjunct2, THEN conjunct2, THEN conjunct2, THEN conjunct2, THEN conjunct2,
        THEN conjunct2, THEN conjunct1]
      prices(1) calculate_option_price_half[of 110 100 "30 / 365" "2 / 10"] day1
    by (simp add: default_config_def new_position_def make_trade_symbol)
  have h: "map_of (positions ?e2) ''B'' = None
      \<and> filter (\<lambda>t. t_symbol t = ''B'') (trades ?e2)
          = filter (\<lambda>t. t_symbol t = ''B'') (trades ?e1)
              @ [make_trade ?cfg3 ''B'' ?qb2 11 120 (15 / 2) (STOP_LOSS_X 2 True)]"
    using main[where s="''B''" and d=11 and data="?day" and sp=120
        and cdf="?cdf" and cop="15 / 2" and cfg="?cfg3" and p="?qb2" and eng="?e1" and eng'="?e2",
        THEN conjunct2, THEN conjunct2, THEN conjunct2, THEN conjunct2, THEN conjunct2,
        THEN conjunct2, THEN conjunct2]
      prices(2) calculate_option_price_half[of 120 105 "29 / 365" "2 / 10"] day2
    by (simp add: default_config_def new_position_def make_trade_symbol)
  have second: "\<exists>e2. check_early_exits ?cdf ?cfg3 ?e1 11 ?day = Some (Inr e2)
            \<and> map_of (positions e2) ''B'' = None
            \<and> map (\<lambda>t. (t_symbol t, t_exit_date t, t_stock_exit_price t, t_option_exit_price t,
                         t_exit_reason t))
                 (filter (\<lambda>t. t_symbol t = ''B'') (trades e2))
               = [(''B'', 11, 120, 15 / 2, STOP_LOSS_X 2 True)]"
    using day2 h by (intro exI[of _ ?e2]) (simp add: make_trade_symbol, simp add: make_trade_def Let_def)
  have first: "\<exists>e1. check_early_exits ?cdf ?cfg3 ?e0 10 ?day = Some (Inr e1)
      \<and> map_of (positions e1) ''B'' = Some ?qb2
      \<and> filter (\<lambda>t. t_symbol t = ''B'') (trades e1) = []
      \<and> (\<exists>e2. check_early_exits ?cdf ?cfg3 e1 11 ?day = Some (Inr e2)
            \<and> map_of (positions e2) ''B'' = None
            \<and> map (\<lambda>t. (t_symbol t, t_exit_date t, t_stock_exit_price t, t_option_exit_price t,
                         t_exit_reason t))
                 (filter (\<lambda>t. t_symbol t = ''B'') (trades e2))
               = [(''B'', 11, 120, 15 / 2, STOP_LOSS_X 2 True)])"
    using day1 g second by (intro exI[of _ ?e1]) (simp add: make_trade_symbol)
  from early_exit_step_example a b c d check_early_exits_example f first show ?thesis
    by (intro conjI)
qed

text \<open>
  C8. A successful \<open>_adjust_position\<close> changes, in the position, only the strike price, the
  premium received, the delta at entry and the adjustment bookkeeping (adjusted flag, original
  premium, adjustment date, adjustment cost), and it changes the cash; the symbol, lot size,
  entry date, stock entry price, expiry date, theta at entry and IV at entry stay as they
  were, as do the trades, the keys of the dict and every other position.
\<close>

theorem adjust_position_frame:
  assumes "adjust_position cdf cfg e s d sp bb lost tte iv = Some (Inr e')"
  shows "\<exists>p p'. map_of (positions e) s = Some p \<and> map_of (positions e') s = Some p'
           \<and> p' = p\<lparr> strike_price := strike_price p', premium_received := premium_received p',
                      delta_at_entry := delta_at_entry p', adjusted := True,
                      original_premium := original_premium p',
                      adjustment_date := Some d, adjustment_cost := bb \<rparr>
           \<and> symbol p' = symbol p \<and> lot_size p' = lot_size p \<and> entry_date p' = entry_date p
           \<and> stock_entry_price p' = stock_entry_price p \<and> expiry_date p' = expiry_date p
           \<and> theta_at_entry p' = theta_at_entry p \<and> iv_at_entry p' = iv_at_entry p
           \<and> cash e' = cash e - bb * real_of_int (lot_size p)
                          + premium_received p' * real_of_int (lot_size p)
           \<and> trades e' = trades e
           \<and> map fst (positions e') = map fst (positions e)
           \<and> (\<forall>s'. s' \<noteq> s \<longrightarrow> map_of (positions e') s' = map_of (positions e) s')"
proof -
  from adjust_position_result[OF assms]
  obtain p k prem dl where p: "map_of (positions e) s = Some p"
    and e': "e' = e\<lparr> cash := cash e - bb * real_of_int (lot_size p) + prem * real_of_int (lot_size p),
                    positions := AList.update s
                      (p\<lparr> original_premium := (if original_premium p = 0 then premium_received p
                                                 else original_premium p),
                          adjustment_date := Some d, adjustment_cost := bb, strike_price := k,
                          premium_received := prem, delta_at_entry := dl, adjusted := True \<rparr>)
                      (positions e) \<rparr>"
    by blast
  have keys: "s \<in> fst ` set (positions e)" using map_of_SomeD[OF p] by force
  have k2: "map fst (AList.update s v (positions e)) = map fst (positions e)" for v
    using keys by (simp add: AList.update_keys)
  show ?thesis
    using p unfolding e' by (simp add: AList.update_conv' k2)
qed

theorem adjust_position_frame_witness:
  "adjust_position (\<lambda>x. 1 / 2)
     ((default_config [''A''] 0 90 OTM_2PCT STOP_LOSS) \<lparr> risk_free_rate := 0, allow_sl_adjustment := True \<rparr>)
     \<lparr> positions = [(''A'', (new_position ''A'' 10 1 100 100 1 40) \<lparr> iv_at_entry := 2 / 10 \<rparr>)],
       trades = [], cash = 1000 \<rparr>
     ''A'' 10 110 5 4 (30 / 365) (2 / 10)
   = Some (Inr \<lparr> positions =
                   [(''A'', (new_position ''A'' 10 1 100 100 1 40)
                              \<lparr> iv_at_entry := 2 / 10, original_premium := 1,
                                adjustment_date := Some 10, adjustment_cost := 5,
                                strike_price := 105, premium_received := 5 / 2,
                                delta_at_entry := 1 / 2, adjusted := True \<rparr>)],
                 trades = [], cash = 1000 - 5 * 10 + 5 / 2 * 10 \<rparr>)
   \<and> (\<exists>p'. map_of [(''A'', (new_position ''A'' 10 1 100 100 1 40)
                              \<lparr> iv_at_entry := 2 / 10, original_premium := 1,
                                adjustment_date := Some 10, adjustment_cost := 5,
                                strike_price := 105, premium_received := 5 / 2,
                                delta_at_entry := 1 / 2, adjusted := True \<rparr>)] ''A'' = Some p'
            \<and> symbol p' = ''A'' \<and> lot_size p' = 10 \<and> entry_date p' = 1
            \<and> stock_entry_price p' = 100 \<and> expiry_date p' = 40
            \<and> theta_at_entry p' = 0 \<and> iv_at_entry p' = 2 / 10)"
proof -
  from adjust_position_frame[OF adjust_position_example] adjust_position_example show ?thesis
    by (simp add: new_position_def)
qed

text \<open>
  C4. Every selected strike is a member of the ladder generated for the spot. The ladder for
  a spot price is generated without error; its interval is the price tier's (2.5 below 100,
  5 below 500, 10 below 1000, 25 below 2500, 50 below 5000, 100 from 5000 on); every
  ladder strike is an integer multiple of the interval and consecutive strikes are one
  interval apart; for a non-negative spot the ladder is not empty and runs from 90% to 120%
  of the spot, each end rounded to the interval. Whatever strike \<open>_select_strike\<close>
  returns, under any strike method (the unknown-method default and the fallback branches
  included), is on that ladder, the methods that need no pricing always return one, and the
  new strike of an adjustment is on the ladder of the adjustment's stock price.
\<close>

theorem selected_strike_on_ladder:
  fixes sp :: real
  defines "i \<equiv> get_strike_interval sp"
  defines "ladder \<equiv> map (\<lambda>k. real_of_int k * i) [py_round ((sp * 0.9) / i)..py_round ((sp * 1.2) / i)]"
  shows "generate_strikes sp i = Some (Inr ladder)
       \<and> (sp < 100 \<longrightarrow> i = 2.5) \<and> (100 \<le> sp \<and> sp < 500 \<longrightarrow> i = 5)
       \<and> (500 \<le> sp \<and> sp < 1000 \<longrightarrow> i = 10) \<and> (1000 \<le> sp \<and> sp < 2500 \<longrightarrow> i = 25)
       \<and> (2500 \<le> sp \<and> sp < 5000 \<longrightarrow> i = 50) \<and> (5000 \<le> sp \<longrightarrow> i = 100)
       \<and> (\<forall>k\<in>set ladder. \<exists>n::int. k = real_of_int n * i)
       \<and> (\<forall>j. Suc j < length ladder \<longrightarrow> ladder ! Suc j = ladder ! j + i)
       \<and> (0 \<le> sp \<longrightarrow> ladder \<noteq> [] \<and> \<bar>hd ladder - sp * 0.9\<bar> \<le> i / 2
                       \<and> \<bar>last ladder - sp * 1.2\<bar> \<le> i / 2)
       \<and> (select_strike cdf lib cfg s sp T iv ivm d data = Some (Inr (Some k)) \<longrightarrow> k \<in> set ladder)
       \<and> (0 \<le> sp \<and> strike_method cfg \<in> {OTM_2PCT, OTM_5PCT, ATM, ATR_BASED, PIVOT_R1, PIVOT_R2,
                                             UNKNOWN_METHOD}
            \<longrightarrow> (\<exists>k'. select_strike cdf lib cfg s sp T iv ivm d data = Some (Inr (Some k'))))
       \<and> (adjust_new_strike q sp lost = Some (Inr kadj) \<longrightarrow> kadj \<in> set ladder)
       \<and> (adjust_position cdf cfg e s d sp bb lost tte iv = Some (Inr e')
            \<longrightarrow> (\<exists>q'. map_of (positions e') s = Some q' \<and> strike_price q' \<in> set ladder))"
proof -
  note shape = ladder_shape[of sp, folded i_def, folded ladder_def]
  have gen: "generate_strikes sp (get_strike_interval sp) = Some (Inr ladder)"
    using shape(1) unfolding i_def .
  have tiers: "(sp < 100 \<longrightarrow> i = 2.5) \<and> (100 \<le> sp \<and> sp < 500 \<longrightarrow> i = 5)
       \<and> (500 \<le> sp \<and> sp < 1000 \<longrightarrow> i = 10) \<and> (1000 \<le> sp \<and> sp < 2500 \<longrightarrow> i = 25)
       \<and> (2500 \<le> sp \<and> sp < 5000 \<longrightarrow> i = 50) \<and> (5000 \<le> sp \<longrightarrow> i = 100)"
    unfolding i_def get_strike_interval_def by simp
  have sel: "select_strike cdf lib cfg s sp T iv ivm d data = Some (Inr (Some k)) \<longrightarrow> k \<in> set ladder"
  proof
    assume "select_strike cdf lib cfg s sp T iv ivm d data = Some (Inr (Some k))"
    then have "select_from_ladder cdf lib cfg s sp T iv ivm d data ladder = Inr (Some k)"
      by (simp add: select_strike_def gen)
    then show "k \<in> set ladder" by (rule select_from_ladder_mem)
  qed
  have tot: "0 \<le> sp \<and> strike_method cfg \<in> {OTM_2PCT, OTM_5PCT, ATM, ATR_BASED, PIVOT_R1, PIVOT_R2,
                                             UNKNOWN_METHOD}
            \<longrightarrow> (\<exists>k'. select_strike cdf lib cfg s sp T iv ivm d data = Some (Inr (Some k')))"
    using select_strike_total[of sp cfg cdf lib s T iv ivm d data] by blast
  have adj: "adjust_new_strike q sp lost = Some (Inr kadj) \<longrightarrow> kadj \<in> set ladder" for q kadj
    using adjust_new_strike_mem[OF _ gen] by blast
  have adjp: "adjust_position cdf cfg e s d sp bb lost tte iv = Some (Inr e')
            \<longrightarrow> (\<exists>q'. map_of (positions e') s = Some q' \<and> strike_price q' \<in> set ladder)"
  proof
    assume a: "adjust_position cdf cfg e s d sp bb lost tte iv = Some (Inr e')"
    from adjust_position_result[OF a] adj
    show "\<exists>q'. map_of (positions e') s = Some q' \<and> strike_price q' \<in> set ladder"
      by (auto simp: AList.update_conv')
  qed
  from shape tiers sel tot adj adjp show ?thesis by (intro conjI) blast+
qed

theorem selected_strike_on_ladder_witness:
  "select_strike (\<lambda>x. 1 / 2)
     \<lparr> lib_rsi = (\<lambda>c n. Inr []), lib_stochastic = (\<lambda>b k dd sm. Inr ([], [])),
       lib_supertrend = (\<lambda>b n m. Inr ([], [])), lib_bollinger_bands = (\<lambda>b n sd. Inr ([], [], [])),
       lib_vwap = (\<lambda>b n. Inr []), lib_adx = (\<lambda>b n. Inr ([], [], [])),
       lib_williams_r = (\<lambda>b n. Inr []) \<rparr>
     (default_config [''A''] 0 90 OTM_2PCT HOLD_TO_EXPIRY)
     ''A'' 110 (30 / 365) (2 / 10) None 10 Map.empty = Some (Inr (Some 110))
   \<and> generate_strikes 110 (get_strike_interval 110) = Some (Inr [100, 105, 110, 115, 120, 125, 130])
   \<and> get_strike_interval 110 = 5
   \<and> (110 :: real) \<in> set [100, 105, 110, 115, 120, 125, 130]
   \<and> adjust_new_strike (new_position ''A'' 10 1 100 100 1 40) 110 4 = Some (Inr 105)
   \<and> (105 :: real) \<in> set [100, 105, 110, 115, 120, 125, 130]
   \<and> (\<exists>e' q'. adjust_position (\<lambda>x. 1 / 2)
         ((default_config [''A''] 0 90 OTM_2PCT STOP_LOSS) \<lparr> risk_free_rate := 0, allow_sl_adjustment := True \<rparr>)
         \<lparr> positions = [(''A'', (new_position ''A'' 10 1 100 100 1 40) \<lparr> iv_at_entry := 2 / 10 \<rparr>)],
           trades = [], cash = 1000 \<rparr>
         ''A'' 10 110 5 4 (30 / 365) (2 / 10) = Some (Inr e')
        \<and> map_of (positions e') ''A'' = Some q'
        \<and> strike_price q' \<in> set [100, 105, 110, 115, 120, 125, 130])"
proof -
  let ?lib = "\<lparr> lib_rsi = (\<lambda>c n. Inr []), lib_stochastic = (\<lambda>b k dd sm. Inr ([], [])),
       lib_supertrend = (\<lambda>b n m. Inr ([], [])), lib_bollinger_bands = (\<lambda>b n sd. Inr ([], [], [])),
       lib_vwap = (\<lambda>b n. Inr []), lib_adx = (\<lambda>b n. Inr ([], [], [])),
       lib_williams_r = (\<lambda>b n. Inr []) \<rparr>"
  let ?cfg = "default_config [''A''] 0 90 OTM_2PCT HOLD_TO_EXPIRY"
  note main = selected_strike_on_ladder[where sp=110]
  have i: "get_strike_interval 110 = 5" by (simp add: get_strike_interval_def)
  have gen: "generate_strikes 110 (get_strike_interval 110) = Some (Inr [100, 105, 110, 115, 120, 125, 130])"
    by (rule ladder_110)
  have lad: "map (\<lambda>k. real_of_int k * get_strike_interval 110)
               [py_round ((110 * 0.9) / get_strike_interval 110)..py_round ((110 * 1.2) / get_strike_interval 110)]
             = [100, 105, 110, 115, 120, 125, 130]"
    using main[THEN conjunct1] gen by simp
  have sel: "select_strike (\<lambda>x. 1 / 2) ?lib ?cfg ''A'' 110 (30 / 365) (2 / 10) None 10 Map.empty
               = Some (Inr (Some 110))"
    by (simp add: select_strike_def gen select_from_ladder_def default_config_def nearest_strike_def
          py_min_key_def)
  have m1: "(110 :: real) \<in> set [100, 105, 110, 115, 120, 125, 130]"
    using main[where cdf="\<lambda>x. 1 / 2" and lib="?lib" and cfg="?cfg" and s="''A''" and T="30 / 365"
        and iv="2 / 10" and ivm=None and d=10 and data=Map.empty and k=110,
        THEN conjunct2, THEN conjunct2, THEN conjunct2, THEN conjunct2, THEN conjunct2,
        THEN conjunct2, THEN conjunct2, THEN conjunct2, THEN conjunct2, THEN conjunct2,
        THEN conjunct1, unfolded lad] sel
    by (rule mp)
  have adj: "adjust_new_strike (new_position ''A'' 10 1 100 100 1 40) 110 4 = Some (Inr 105)"
    by (simp add: adjust_new_strike_def gen Let_def new_position_def py_min_def)
  have m2: "(105 :: real) \<in> set [100, 105, 110, 115, 120, 125, 130]"
    using main[where q="new_position ''A'' 10 1 100 100 1 40" and lost=4 and kadj=105,
        THEN conjunct2, THEN conjunct2, THEN conjunct2, THEN conjunct2, THEN conjunct2,
        THEN conjunct2, THEN conjunct2, THEN conjunct2, THEN conjunct2, THEN conjunct2,
        THEN conjunct2, THEN conjunct2, THEN conjunct1, unfolded lad] adj
    by (rule mp)
  have m3: "\<exists>e' q'. adjust_position (\<lambda>x. 1 / 2)
         ((default_config [''A''] 0 90 OTM_2PCT STOP_LOSS) \<lparr> risk_free_rate := 0, allow_sl_adjustment := True \<rparr>)
         \<lparr> positions = [(''A'', (new_position ''A'' 10 1 100 100 1 40) \<lparr> iv_at_entry := 2 / 10 \<rparr>)],
           trades = [], cash = 1000 \<rparr>
         ''A'' 10 110 5 4 (30 / 365) (2 / 10) = Some (Inr e')
        \<and> map_of (positions e') ''A'' = Some q'
        \<and> strike_price q' \<in> set [100, 105, 110, 115, 120, 125, 130]"
    using main[where cdf="\<lambda>x. 1 / 2" and s="''A''" and d=10 and bb=5 and lost=4 and tte="30 / 365"
        and iv="2 / 10"
        and cfg="(default_config [''A''] 0 90 OTM_2PCT STOP_LOSS)
                   \<lparr> risk_free_rate := 0, allow_sl_adjustment := True \<rparr>"
        and e="\<lparr> positions = [(''A'', (new_position ''A'' 10 1 100 100 1 40) \<lparr> iv_at_entry := 2 / 10 \<rparr>)],
                 trades = [], cash = 1000 \<rparr>",
        THEN conjunct2, THEN conjunct2, THEN conjunct2, THEN conjunct2, THEN conjunct2,
        THEN conjunct2, THEN conjunct2, THEN conjunct2, THEN conjunct2, THEN conjunct2,
        THEN conjunct2, THEN conjunct2, THEN conjunct2, unfolded lad] adjust_position_example
    by blast
  from sel gen i m1 adj m2 m3 show ?thesis by (intro conjI)
qed

text \<open>
  C7, as stated, fails: with a single bar up to the current date, here the bar of the
  current date itself, the pivot levels are computed from that bar, and \<open>PIVOT_R1\<close>
  selects the strike 15 from the current bar's R1 where the 2% fallback would select 12.5.
\<close>

theorem pivot_points_current_bar_counterexample:
  "calculate_pivot_points ''A'' 10
     [''A'' \<mapsto> [\<lparr> bar_date = 10, bar_open = 10, bar_high = 14, bar_low = 9,
                   bar_close = 12, bar_volume = 1000 \<rparr>]]
   = Some (pivot_levels \<lparr> bar_date = 10, bar_open = 10, bar_high = 14, bar_low = 9,
                          bar_close = 12, bar_volume = 1000 \<rparr>)
   \<and> pivot_levels \<lparr> bar_date = 10, bar_open = 10, bar_high = 14, bar_low = 9,
                    bar_close = 12, bar_volume = 1000 \<rparr>
       = \<lparr> pivot = 35 / 3, r1 = 43 / 3, r2 = 50 / 3, r3 = 58 / 3, s1 = 28 / 3, s2 = 20 / 3, s3 = 13 / 3 \<rparr>
   \<and> get_price ''A'' 10
         [''A'' \<mapsto> [\<lparr> bar_date = 10, bar_open = 10, bar_high = 14, bar_low = 9,
                       bar_close = 12, bar_volume = 1000 \<rparr>]] = Some 12
   \<and> select_strike (\<lambda>x. 1 / 2)
        \<lparr> lib_rsi = (\<lambda>c n. Inr []), lib_stochastic = (\<lambda>b k dd sm. Inr ([], [])),
          lib_supertrend = (\<lambda>b n m. Inr ([], [])), lib_bollinger_bands = (\<lambda>b n sd. Inr ([], [], [])),
          lib_vwap = (\<lambda>b n. Inr []), lib_adx = (\<lambda>b n. Inr ([], [], [])),
          lib_williams_r = (\<lambda>b n. Inr []) \<rparr>
        (default_config [''A''] 0 90 PIVOT_R1 HOLD_TO_EXPIRY)
        ''A'' 12 (30 / 365) (2 / 10) None 10
        [''A'' \<mapsto> [\<lparr> bar_date = 10, bar_open = 10, bar_high = 14, bar_low = 9,
                      bar_close = 12, bar_volume = 1000 \<rparr>]]
      = Some (Inr (Some 15))
   \<and> select_strike (\<lambda>x. 1 / 2)
        \<lparr> lib_rsi = (\<lambda>c n. Inr []), lib_stochastic = (\<lambda>b k dd sm. Inr ([], [])),
          lib_supertrend = (\<lambda>b n m. Inr ([], [])), lib_bollinger_bands = (\<lambda>b n sd. Inr ([], [], [])),
          lib_vwap = (\<lambda>b n. Inr []), lib_adx = (\<lambda>b n. Inr ([], [], [])),
          lib_williams_r = (\<lambda>b n. Inr []) \<rparr>
        (default_config [''A''] 0 90 OTM_2PCT HOLD_TO_EXPIRY)
        ''A'' 12 (30 / 365) (2 / 10) None 10
        [''A'' \<mapsto> [\<lparr> bar_date = 10, bar_open = 10, bar_high = 14, bar_low = 9,
                      bar_close = 12, bar_volume = 1000 \<rparr>]]
      = Some (Inr (Some (25 / 2)))"
proof -
  have pv: "calculate_pivot_points ''A'' 10
     [''A'' \<mapsto> [\<lparr> bar_date = 10, bar_open = 10, bar_high = 14, bar_low = 9,
                   bar_close = 12, bar_volume = 1000 \<rparr>]]
   = Some (pivot_levels \<lparr> bar_date = 10, bar_open = 10, bar_high = 14, bar_low = 9,
                          bar_close = 12, bar_volume = 1000 \<rparr>)"
    by (simp add: calculate_pivot_points_cases up_to_date_def)
  have lv: "pivot_levels \<lparr> bar_date = 10, bar_open = 10, bar_high = 14, bar_low = 9,
                    bar_close = 12, bar_volume = 1000 \<rparr>
       = \<lparr> pivot = 35 / 3, r1 = 43 / 3, r2 = 50 / 3, r3 = 58 / 3, s1 = 28 / 3, s2 = 20 / 3, s3 = 13 / 3 \<rparr>"
    by (simp add: pivot_levels_def Let_def)
  show ?thesis
    by (simp add: pv lv get_price_def select_strike_def ladder_12 select_from_ladder_def
          default_config_def nearest_strike_def py_min_key_def)
qed

text \<open>
  C7, amended. The pivot and resistance levels P, R1, R2, R3 are the standard formulas of one
  bar. On a date for which the symbol's table, in strictly increasing date order, has a row,
  that bar is the row immediately before the current date's row (the latest bar dated before
  the current date, never the current bar) whenever the table has an earlier row, and the
  current date's row itself when that row is the first of the table. There are no levels
  when the symbol is unknown or no row is dated on or before the current date. Under
  \<open>PIVOT_R1\<close> (\<open>PIVOT_R2\<close>) the strike is the ladder strike nearest to R1 (R2) when
  that level is above the spot, and the strike of the 2% (5%) OTM method when the level is at
  or below the spot or unavailable.
\<close>

theorem pivot_points_previous_bar:
  fixes df :: "bar list" and d :: int
  shows "(data s = None \<longrightarrow> calculate_pivot_points s d data = None)
       \<and> (data s = Some df \<and> (\<forall>b\<in>set df. d < bar_date b)
            \<longrightarrow> calculate_pivot_points s d data = None)
       \<and> (data s = Some df \<and> sorted_wrt (\<lambda>a b. bar_date a < bar_date b) df
            \<and> cur \<in> set df \<and> bar_date cur = d
            \<and> prev \<in> set df \<and> bar_date prev < d
            \<and> (\<forall>b\<in>set df. bar_date b < d \<longrightarrow> bar_date b \<le> bar_date prev)
            \<longrightarrow> calculate_pivot_points s d data = Some (pivot_levels prev))
       \<and> (data s = Some df \<and> sorted_wrt (\<lambda>a b. bar_date a < bar_date b) df
            \<and> cur \<in> set df \<and> bar_date cur = d
            \<and> (\<forall>b\<in>set df. d \<le> bar_date b)
            \<longrightarrow> calculate_pivot_points s d data = Some (pivot_levels cur))
       \<and> pivot (pivot_levels b) = (bar_high b + bar_low b + bar_close b) / 3
       \<and> r1 (pivot_levels b) = 2 * pivot (pivot_levels b) - bar_low b
       \<and> r2 (pivot_levels b) = pivot (pivot_levels b) + (bar_high b - bar_low b)
       \<and> r3 (pivot_levels b) = bar_high b + 2 * (pivot (pivot_levels b) - bar_low b)
       \<and> (strike_method cfg = PIVOT_R1
            \<and> (calculate_pivot_points s d data = None
                 \<or> (\<exists>pv. calculate_pivot_points s d data = Some pv \<and> r1 pv \<le> sp))
            \<longrightarrow> select_strike cdf lib cfg s sp T iv ivm d data
                  = select_strike cdf lib (cfg\<lparr> strike_method := OTM_2PCT \<rparr>) s sp T iv ivm d data)
       \<and> (strike_method cfg = PIVOT_R2
            \<and> (calculate_pivot_points s d data = None
                 \<or> (\<exists>pv. calculate_pivot_points s d data = Some pv \<and> r2 pv \<le> sp))
            \<longrightarrow> select_strike cdf lib cfg s sp T iv ivm d data
                  = select_strike cdf lib (cfg\<lparr> strike_method := OTM_5PCT \<rparr>) s sp T iv ivm d data)
       \<and> (strike_method cfg = PIVOT_R1 \<and> calculate_pivot_points s d data = Some pv \<and> sp < r1 pv
            \<and> generate_strikes sp (get_strike_interval sp) = Some (Inr ladder)
            \<longrightarrow> select_strike cdf lib cfg s sp T iv ivm d data
                  = Some (map_sum id Some (nearest_strike ladder (r1 pv))))
       \<and> (strike_method cfg = PIVOT_R2 \<and> calculate_pivot_points s d data = Some pv \<and> sp < r2 pv
            \<and> generate_strikes sp (get_strike_interval sp) = Some (Inr ladder)
            \<longrightarrow> select_strike cdf lib cfg s sp T iv ivm d data
                  = Some (map_sum id Some (nearest_strike ladder (r2 pv))))"
proof -
  have a1: "data s = None \<longrightarrow> calculate_pivot_points s d data = None"
    by (simp add: calculate_pivot_points_cases)
  have a2: "data s = Some df \<and> (\<forall>b\<in>set df. d < bar_date b)
            \<longrightarrow> calculate_pivot_points s d data = None"
    using calculate_pivot_points_none_so_far[of data s df d] by blast
  have a3: "data s = Some df \<and> sorted_wrt (\<lambda>a b. bar_date a < bar_date b) df
            \<and> cur \<in> set df \<and> bar_date cur = d
            \<and> prev \<in> set df \<and> bar_date prev < d
            \<and> (\<forall>b\<in>set df. bar_date b < d \<longrightarrow> bar_date b \<le> bar_date prev)
            \<longrightarrow> calculate_pivot_points s d data = Some (pivot_levels prev)"
    using calculate_pivot_points_row_before[of data s df cur d prev] by blast
  have a4: "data s = Some df \<and> sorted_wrt (\<lambda>a b. bar_date a < bar_date b) df
            \<and> cur \<in> set df \<and> bar_date cur = d
            \<and> (\<forall>b\<in>set df. d \<le> bar_date b)
            \<longrightarrow> calculate_pivot_points s d data = Some (pivot_levels cur)"
    using calculate_pivot_points_first_row[of data s df cur d] by blast
  have c: "pivot (pivot_levels b) = (bar_high b + bar_low b + bar_close b) / 3
       \<and> r1 (pivot_levels b) = 2 * pivot (pivot_levels b) - bar_low b
       \<and> r2 (pivot_levels b) = pivot (pivot_levels b) + (bar_high b - bar_low b)
       \<and> r3 (pivot_levels b) = bar_high b + 2 * (pivot (pivot_levels b) - bar_low b)"
    by (simp add: pivot_levels_def Let_def)
  have f1: "strike_method cfg = PIVOT_R1
            \<and> (calculate_pivot_points s d data = None
                 \<or> (\<exists>pv. calculate_pivot_points s d data = Some pv \<and> r1 pv \<le> sp))
            \<longrightarrow> select_strike cdf lib cfg s sp T iv ivm d data
                  = select_strike cdf lib (cfg\<lparr> strike_method := OTM_2PCT \<rparr>) s sp T iv ivm d data"
    using select_strike_pivot_fallback(1)[of s d data r1 sp cfg cdf lib T iv ivm] by blast
  have f2: "strike_method cfg = PIVOT_R2
            \<and> (calculate_pivot_points s d data = None
                 \<or> (\<exists>pv. calculate_pivot_points s d data = Some pv \<and> r2 pv \<le> sp))
            \<longrightarrow> select_strike cdf lib cfg s sp T iv ivm d data
                  = select_strike cdf lib (cfg\<lparr> strike_method := OTM_5PCT \<rparr>) s sp T iv ivm d data"
    using select_strike_pivot_fallback(2)[of s d data r2 sp cfg cdf lib T iv ivm] by blast
  have g1: "strike_method cfg = PIVOT_R1 \<and> calculate_pivot_points s d data = Some pv \<and> sp < r1 pv
            \<and> generate_strikes sp (get_strike_interval sp) = Some (Inr ladder)
            \<longrightarrow> select_strike cdf lib cfg s sp T iv ivm d data
                  = Some (map_sum id Some (nearest_strike ladder (r1 pv)))"
    using select_strike_pivot_level(1)[of s d data pv sp ladder cfg cdf lib T iv ivm] by blast
  have g2: "strike_method cfg = PIVOT_R2 \<and> calculate_pivot_points s d data = Some pv \<and> sp < r2 pv
            \<and> generate_strikes sp (get_strike_interval sp) = Some (Inr ladder)
            \<longrightarrow> select_strike cdf lib cfg s sp T iv ivm d data
                  = Some (map_sum id Some (nearest_strike ladder (r2 pv)))"
    using select_strike_pivot_level(2)[of s d data pv sp ladder cfg cdf lib T iv ivm] by blast
  from c have c1: "pivot (pivot_levels b) = (bar_high b + bar_low b + bar_close b) / 3"
    and c2: "r1 (pivot_levels b) = 2 * pivot (pivot_levels b) - bar_low b"
    and c3: "r2 (pivot_levels b) = pivot (pivot_levels b) + (bar_high b - bar_low b)"
    and c4: "r3 (pivot_levels b) = bar_high b + 2 * (pivot (pivot_levels b) - bar_low b)"
    by blast+
  from a1 a2 a3 a4 c1 c2 c3 c4 f1 f2 g1 g2 show ?thesis by (intro conjI)
qed

theorem pivot_points_previous_bar_witness:
  "calculate_pivot_points ''B'' 10
     [''A'' \<mapsto> [\<lparr> bar_date = 9, bar_open = 10, bar_high = 14, bar_low = 9, bar_close = 12, bar_volume = 1000 \<rparr>,
                  \<lparr> bar_date = 10, bar_open = 12, bar_high = 13, bar_low = 11, bar_close = 12, bar_volume = 1000 \<rparr>]]
     = None
   \<and> calculate_pivot_points ''A'' 5
     [''A'' \<mapsto> [\<lparr> bar_date = 9, bar_open = 10, bar_high = 14, bar_low = 9, bar_close = 12, bar_volume = 1000 \<rparr>,
                  \<lparr> bar_date = 10, bar_open = 12, bar_high = 13, bar_low = 11, bar_close = 12, bar_volume = 1000 \<rparr>]]
     = None
   \<and> calculate_pivot_points ''A'' 9
     [''A'' \<mapsto> [\<lparr> bar_date = 9, bar_open = 10, bar_high = 14, bar_low = 9, bar_close = 12, bar_volume = 1000 \<rparr>,
                  \<lparr> bar_date = 10, bar_open = 12, bar_high = 13, bar_low = 11, bar_close = 12, bar_volume = 1000 \<rparr>]]
     = Some (pivot_levels \<lparr> bar_date = 9, bar_open = 10, bar_high = 14, bar_low = 9, bar_close = 12, bar_volume = 1000 \<rparr>)
   \<and> calculate_pivot_points ''A'' 10
     [''A'' \<mapsto> [\<lparr> bar_date = 9, bar_open = 10, bar_high = 14, bar_low = 9, bar_close = 12, bar_volume = 1000 \<rparr>,
                  \<lparr> bar_date = 10, bar_open = 12, bar_high = 13, bar_low = 11, bar_close = 12, bar_volume = 1000 \<rparr>]]
     = Some (pivot_levels \<lparr> bar_date = 9, bar_open = 10, bar_high = 14, bar_low = 9, bar_close = 12, bar_volume = 1000 \<rparr>)
   \<and> r1 (pivot_levels \<lparr> bar_date = 9, bar_open = 10, bar_high = 14, bar_low = 9, bar_close = 12, bar_volume = 1000 \<rparr>)
       = 43 / 3
   \<and> select_strike (\<lambda>x. 1 / 2)
        \<lparr> lib_rsi = (\<lambda>c n. Inr []), lib_stochastic = (\<lambda>b k dd sm. Inr ([], [])),
          lib_supertrend = (\<lambda>b n m. Inr ([], [])), lib_bollinger_bands = (\<lambda>b n sd. Inr ([], [], [])),
          lib_vwap = (\<lambda>b n. Inr []), lib_adx = (\<lambda>b n. Inr ([], [], [])),
          lib_williams_r = (\<lambda>b n. Inr []) \<rparr>
        (default_config [''A''] 0 90 PIVOT_R1 HOLD_TO_EXPIRY)
        ''A'' 12 (30 / 365) (2 / 10) None 10
        [''A'' \<mapsto> [\<lparr> bar_date = 9, bar_open = 10, bar_high = 14, bar_low = 9, bar_close = 12, bar_volume = 1000 \<rparr>,
                     \<lparr> bar_date = 10, bar_open = 12, bar_high = 13, bar_low = 11, bar_close = 12, bar_volume = 1000 \<rparr>]]
      = Some (Inr (Some 15))
   \<and> select_strike (\<lambda>x. 1 / 2)
        \<lparr> lib_rsi = (\<lambda>c n. Inr []), lib_stochastic = (\<lambda>b k dd sm. Inr ([], [])),
          lib_supertrend = (\<lambda>b n m. Inr ([], [])), lib_bollinger_bands = (\<lambda>b n sd. Inr ([], [], [])),
          lib_vwap = (\<lambda>b n. Inr []), lib_adx = (\<lambda>b n. Inr ([], [], [])),
          lib_williams_r = (\<lambda>b n. Inr []) \<rparr>
        (default_config [''A''] 0 90 PIVOT_R1 HOLD_TO_EXPIRY)
        ''A'' 15 (30 / 365) (2 / 10) None 10
        [''A'' \<mapsto> [\<lparr> bar_date = 9, bar_open = 10, bar_high = 14, bar_low = 9, bar_close = 12, bar_volume = 1000 \<rparr>,
                     \<lparr> bar_date = 10, bar_open = 12, bar_high = 13, bar_low = 11, bar_close = 12, bar_volume = 1000 \<rparr>]]
      = Some (Inr (Some 15))
   \<and> select_strike (\<lambda>x. 1 / 2)
        \<lparr> lib_rsi = (\<lambda>c n. Inr []), lib_stochastic = (\<lambda>b k dd sm. Inr ([], [])),
          lib_supertrend = (\<lambda>b n m. Inr ([], [])), lib_bollinger_bands = (\<lambda>b n sd. Inr ([], [], [])),
          lib_vwap = (\<lambda>b n. Inr []), lib_adx = (\<lambda>b n. Inr ([], [], [])),
          lib_williams_r = (\<lambda>b n. Inr []) \<rparr>
        (default_config [''B''] 0 90 PIVOT_R2 HOLD_TO_EXPIRY)
        ''B'' 15 (30 / 365) (2 / 10) None 10
        [''A'' \<mapsto> [\<lparr> bar_date = 9, bar_open = 10, bar_high = 14, bar_low = 9, bar_close = 12, bar_volume = 1000 \<rparr>,
                     \<lparr> bar_date = 10, bar_open = 12, bar_high = 13, bar_low = 11, bar_close = 12, bar_volume = 1000 \<rparr>]]
      = Some (Inr (Some 15))"
proof -
  let ?b9 = "\<lparr> bar_date = 9, bar_open = 10, bar_high = 14, bar_low = 9, bar_close = 12, bar_volume = 1000 \<rparr>"
  let ?b10 = "\<lparr> bar_date = 10, bar_open = 12, bar_high = 13, bar_low = 11, bar_close = 12, bar_volume = 1000 \<rparr>"
  let ?data = "[''A'' \<mapsto> [?b9, ?b10]]"
  let ?lib = "\<lparr> lib_rsi = (\<lambda>c n. Inr []), lib_stochastic = (\<lambda>b k dd sm. Inr ([], [])),
          lib_supertrend = (\<lambda>b n m. Inr ([], [])), lib_bollinger_bands = (\<lambda>b n sd. Inr ([], [], [])),
          lib_vwap = (\<lambda>b n. Inr []), lib_adx = (\<lambda>b n. Inr ([], [], [])),
          lib_williams_r = (\<lambda>b n. Inr []) \<rparr>"
  note main = pivot_points_previous_bar
  have w1: "calculate_pivot_points ''B'' 10 ?data = None"
    using main[where data="?data" and s="''B''" and d=10, THEN conjunct1] by simp
  have w2: "calculate_pivot_points ''A'' 5 ?data = None"
    using main[where data="?data" and s="''A''" and d=5 and df="[?b9, ?b10]",
        THEN conjunct2, THEN conjunct1]
    by simp
  have w3: "calculate_pivot_points ''A'' 9 ?data = Some (pivot_levels ?b9)"
    using main[where data="?data" and s="''A''" and d=9 and df="[?b9, ?b10]" and cur="?b9",
        THEN conjunct2, THEN conjunct2, THEN conjunct2, THEN conjunct1]
    by simp
  have w4: "calculate_pivot_points ''A'' 10 ?data = Some (pivot_levels ?b9)"
    using main[where data="?data" and s="''A''" and d=10 and df="[?b9, ?b10]" and cur="?b10"
        and prev="?b9",
        THEN conjunct2, THEN conjunct2, THEN conjunct1]
    by simp
  have pf: "pivot (pivot_levels ?b9) = 35 / 3"
    using main[where b="?b9", THEN conjunct2, THEN conjunct2, THEN conjunct2, THEN conjunct2,
        THEN conjunct1]
    by simp
  have r: "r1 (pivot_levels ?b9) = 43 / 3"
    using main[where b="?b9", THEN conjunct2, THEN conjunct2, THEN conjunct2, THEN conjunct2,
        THEN conjunct2, THEN conjunct1] pf
    by simp
  have w5: "select_strike (\<lambda>x. 1 / 2) ?lib (default_config [''A''] 0 90 PIVOT_R1 HOLD_TO_EXPIRY)
              ''A'' 12 (30 / 365) (2 / 10) None 10 ?data = Some (Inr (Some 15))"
    using main[where data="?data" and s="''A''" and d=10 and sp=12 and pv="pivot_levels ?b9"
        and ladder="[10, 25 / 2, 15]" and cdf="\<lambda>x. 1 / 2" and lib="?lib" and T="30 / 365"
        and iv="2 / 10" and ivm=None
        and cfg="default_config [''A''] 0 90 PIVOT_R1 HOLD_TO_EXPIRY",
        THEN conjunct2, THEN conjunct2, THEN conjunct2, THEN conjunct2, THEN conjunct2,
        THEN conjunct2, THEN conjunct2, THEN conjunct2, THEN conjunct2, THEN conjunct2,
        THEN conjunct1] w4 r ladder_12
    by (simp add: default_config_def nearest_strike_def py_min_key_def)
  have w6: "select_strike (\<lambda>x. 1 / 2) ?lib (default_config [''A''] 0 90 PIVOT_R1 HOLD_TO_EXPIRY)
              ''A'' 15 (30 / 365) (2 / 10) None 10 ?data = Some (Inr (Some 15))"
    using main[where data="?data" and s="''A''" and d=10 and sp=15
        and cdf="\<lambda>x. 1 / 2" and lib="?lib" and T="30 / 365"
        and iv="2 / 10" and ivm=None
        and cfg="default_config [''A''] 0 90 PIVOT_R1 HOLD_TO_EXPIRY",
        THEN conjunct2, THEN conjunct2, THEN conjunct2, THEN conjunct2, THEN conjunct2,
        THEN conjunct2, THEN conjunct2, THEN conjunct2, THEN conjunct1] w4 r ladder_15
    by (simp add: default_config_def select_strike_def select_from_ladder_def nearest_strike_def
          py_min_key_def)
  have w7: "select_strike (\<lambda>x. 1 / 2) ?lib (default_config [''B''] 0 90 PIVOT_R2 HOLD_TO_EXPIRY)
              ''B'' 15 (30 / 365) (2 / 10) None 10 ?data = Some (Inr (Some 15))"
    using main[where data="?data" and s="''B''" and d=10 and sp=15
        and cdf="\<lambda>x. 1 / 2" and lib="?lib" and T="30 / 365"
        and iv="2 / 10" and ivm=None
        and cfg="default_config [''B''] 0 90 PIVOT_R2 HOLD_TO_EXPIRY",
        THEN conjunct2, THEN conjunct2, THEN conjunct2, THEN conjunct2, THEN conjunct2,
        THEN conjunct2, THEN conjunct2, THEN conjunct2, THEN conjunct2,
        THEN conjunct1] w1 ladder_15
    by (simp add: default_config_def select_strike_def select_from_ladder_def nearest_strike_def
          py_min_key_def)
  from w1 w2 w3 w4 r w5 w6 w7 show ?thesis by (intro conjI)
qed

text \<open>
  C5. Every entry filter passes on insufficient data. With a history (the rows up to the
  current date; none for an unknown symbol) shorter than the filter's minimum length the
  filter returns \<open>True\<close>: 50 rows for the trend filter (200 for the modes that read the
  200-EMA), \<open>rsi_period + 10\<close> for RSI, \<open>k + smoothing + d + 5\<close> for the Stochastic,
  \<open>period + 10\<close> for Supertrend, \<open>max(period, 5)\<close> for VWAP, \<open>2 * period + 10\<close> for
  ADX, \<open>period + 5\<close> for Bollinger, \<open>slow + signal + 5\<close> for MACD and
  \<open>period + 5\<close> for Williams %R. And a filter whose indicator value at the last row is NaN
  returns \<open>True\<close>, for every indicator calculation whatever series it returns. (The EMAs
  of the trend and MACD filters are never NaN.)
\<close>

theorem filters_pass_on_insufficient_data:
  fixes data :: stock_data and s :: string and d :: int and cfg :: BacktestConfig and lib :: indicator_lib
  defines "hist \<equiv> (case data s of None \<Rightarrow> [] | Some df \<Rightarrow> up_to_date df d)"
  defines "n \<equiv> int (length hist)"
  shows "(n < 50 \<longrightarrow> check_multi_timeframe_trend_filter cfg s d data)
       \<and> (n < 200 \<and> trend_filter_mode cfg \<in> {''GOLDEN_CROSS'', ''DEATH_CROSS'', ''BULLISH_ALIGNED''}
            \<longrightarrow> check_multi_timeframe_trend_filter cfg s d data)
       \<and> (n < rsi_period cfg + 10 \<longrightarrow> check_rsi_filter lib cfg s d data = Inr True)
       \<and> (lib_rsi lib (map bar_close hist) (rsi_period cfg) = Inr rsi \<and> rsi \<noteq> [] \<and> last rsi = None
            \<longrightarrow> check_rsi_filter lib cfg s d data = Inr True)
       \<and> (n < stochastic_k_period cfg + stochastic_smoothing cfg + stochastic_d_period cfg + 5
            \<longrightarrow> check_stochastic_filter lib cfg s d data = Inr True)
       \<and> (lib_stochastic lib hist (stochastic_k_period cfg) (stochastic_d_period cfg)
              (stochastic_smoothing cfg) = Inr (slow_k, slow_d)
            \<and> (slow_k \<noteq> [] \<and> last slow_k = None \<or> slow_d \<noteq> [] \<and> last slow_d = None)
            \<longrightarrow> check_stochastic_filter lib cfg s d data = Inr True)
       \<and> (n < supertrend_period cfg + 10 \<longrightarrow> check_supertrend_filter lib cfg s d data = Inr True)
       \<and> (lib_supertrend lib hist (supertrend_period cfg) (supertrend_multiplier cfg) = Inr (st, tr)
            \<and> hist \<noteq> [] \<and> st \<noteq> [] \<and> tr \<noteq> [] \<and> (last st = None \<or> last tr = None)
            \<longrightarrow> check_supertrend_filter lib cfg s d data = Inr True)
       \<and> (n < max (vwap_period cfg) 5 \<longrightarrow> check_vwap_filter lib cfg s d data = Inr True)
       \<and> (lib_vwap lib hist (vwap_period cfg) = Inr vwap \<and> hist \<noteq> [] \<and> vwap \<noteq> [] \<and> last vwap = None
            \<longrightarrow> check_vwap_filter lib cfg s d data = Inr True)
       \<and> (n < 2 * adx_period cfg + 10 \<longrightarrow> check_adx_filter lib cfg s d data = Inr True)
       \<and> (lib_adx lib hist (adx_period cfg) = Inr (adx, plus_di, minus_di)
            \<and> adx \<noteq> [] \<and> plus_di \<noteq> [] \<and> minus_di \<noteq> []
            \<and> (last adx = None \<or> last plus_di = None \<or> last minus_di = None)
            \<longrightarrow> check_adx_filter lib cfg s d data = Inr True)
       \<and> (n < bollinger_period cfg + 5 \<longrightarrow> check_bollinger_filter lib cfg s d data = Inr True)
       \<and> (lib_bollinger_bands lib hist (bollinger_period cfg) (bollinger_std cfg)
              = Inr (upper_band, middle_band, lower_band)
            \<and> hist \<noteq> [] \<and> upper_band \<noteq> [] \<and> middle_band \<noteq> []
            \<and> (last upper_band = None \<or> last middle_band = None)
            \<longrightarrow> check_bollinger_filter lib cfg s d data = Inr True)
       \<and> (n < macd_slow cfg + macd_signal cfg + 5 \<longrightarrow> check_macd_filter cfg s d data = Inr True)
       \<and> (n < williams_period cfg + 5 \<longrightarrow> check_williams_filter lib cfg s d data = Inr True)
       \<and> (lib_williams_r lib hist (williams_period cfg) = Inr wr \<and> wr \<noteq> [] \<and> last wr = None
            \<longrightarrow> check_williams_filter lib cfg s d data = Inr True)"
proof (cases "data s")
  case None
  then show ?thesis
    by (simp add: check_multi_timeframe_trend_filter_def check_rsi_filter_def
          check_stochastic_filter_def check_supertrend_filter_def check_vwap_filter_def
          check_adx_filter_def check_bollinger_filter_def check_macd_filter_def
          check_williams_filter_def)
next
  case (Some df)
  then have known: "data s = Some df" .
  have hist: "hist = up_to_date df d" unfolding hist_def by (simp add: known)
    have t1: "n < 50 \<longrightarrow> check_multi_timeframe_trend_filter cfg s d data"
      unfolding n_def hist check_multi_timeframe_trend_filter_def Let_def
      by (simp add: known)
    have t2: "n < 200 \<and> trend_filter_mode cfg \<in> {''GOLDEN_CROSS'', ''DEATH_CROSS'', ''BULLISH_ALIGNED''}
              \<longrightarrow> check_multi_timeframe_trend_filter cfg s d data"
      unfolding n_def hist check_multi_timeframe_trend_filter_def Let_def
      by (auto simp: known split: option.splits)
    have r1: "n < rsi_period cfg + 10 \<longrightarrow> check_rsi_filter lib cfg s d data = Inr True"
      unfolding n_def hist check_rsi_filter_def Let_def by (simp add: known)
    have r2: "lib_rsi lib (map bar_close hist) (rsi_period cfg) = Inr rsi \<and> rsi \<noteq> [] \<and> last rsi = None
              \<longrightarrow> check_rsi_filter lib cfg s d data = Inr True"
      unfolding n_def hist check_rsi_filter_def Let_def
      by (simp add: series_last_def known)
    have s1: "n < stochastic_k_period cfg + stochastic_smoothing cfg + stochastic_d_period cfg + 5
              \<longrightarrow> check_stochastic_filter lib cfg s d data = Inr True"
      unfolding n_def hist check_stochastic_filter_def Let_def by (simp add: known)
    have s2: "lib_stochastic lib hist (stochastic_k_period cfg) (stochastic_d_period cfg)
                (stochastic_smoothing cfg) = Inr (slow_k, slow_d)
              \<and> (slow_k \<noteq> [] \<and> last slow_k = None \<or> slow_d \<noteq> [] \<and> last slow_d = None)
              \<longrightarrow> check_stochastic_filter lib cfg s d data = Inr True"
      unfolding n_def hist check_stochastic_filter_def Let_def
      by (auto simp: known split: option.splits)
    have u1: "n < supertrend_period cfg + 10 \<longrightarrow> check_supertrend_filter lib cfg s d data = Inr True"
      unfolding n_def hist check_supertrend_filter_def Let_def by (simp add: known)
    have u2: "lib_supertrend lib hist (supertrend_period cfg) (supertrend_multiplier cfg) = Inr (st, tr)
              \<and> hist \<noteq> [] \<and> st \<noteq> [] \<and> tr \<noteq> [] \<and> (last st = None \<or> last tr = None)
              \<longrightarrow> check_supertrend_filter lib cfg s d data = Inr True"
      unfolding n_def hist check_supertrend_filter_def Let_def
      by (auto simp: series_last_def known split: option.splits)
    have v1: "n < max (vwap_period cfg) 5 \<longrightarrow> check_vwap_filter lib cfg s d data = Inr True"
      unfolding n_def hist check_vwap_filter_def Let_def by (simp add: known)
    have v2: "lib_vwap lib hist (vwap_period cfg) = Inr vwap \<and> hist \<noteq> [] \<and> vwap \<noteq> [] \<and> last vwap = None
              \<longrightarrow> check_vwap_filter lib cfg s d data = Inr True"
      unfolding n_def hist check_vwap_filter_def Let_def
      by (auto simp: series_last_def known split: option.splits)
    have a1: "n < 2 * adx_period cfg + 10 \<longrightarrow> check_adx_filter lib cfg s d data = Inr True"
      unfolding n_def hist check_adx_filter_def Let_def by (simp add: known)
    have a2: "lib_adx lib hist (adx_period cfg) = Inr (adx, plus_di, minus_di)
              \<and> adx \<noteq> [] \<and> plus_di \<noteq> [] \<and> minus_di \<noteq> []
              \<and> (last adx = None \<or> last plus_di = None \<or> last minus_di = None)
              \<longrightarrow> check_adx_filter lib cfg s d data = Inr True"
      unfolding n_def hist check_adx_filter_def Let_def
      by (auto simp: series_last_def known split: option.splits)
    have b1: "n < bollinger_period cfg + 5 \<longrightarrow> check_bollinger_filter lib cfg s d data = Inr True"
      unfolding n_def hist check_bollinger_filter_def Let_def by (simp add: known)
    have b2: "lib_bollinger_bands lib hist (bollinger_period cfg) (bollinger_std cfg)
                = Inr (upper_band, middle_band, lower_band)
              \<and> hist \<noteq> [] \<and> upper_band \<noteq> [] \<and> middle_band \<noteq> []
              \<and> (last upper_band = None \<or> last middle_band = None)
              \<longrightarrow> check_bollinger_filter lib cfg s d data = Inr True"
      unfolding n_def hist check_bollinger_filter_def Let_def
      by (auto simp: series_last_def known split: option.splits)
    have m1: "n < macd_slow cfg + macd_signal cfg + 5 \<longrightarrow> check_macd_filter cfg s d data = Inr True"
      unfolding n_def hist check_macd_filter_def Let_def by (simp add: known)
    have w1: "n < williams_period cfg + 5 \<longrightarrow> check_williams_filter lib cfg s d data = Inr True"
      unfolding n_def hist check_williams_filter_def Let_def by (simp add: known)
    have w2: "lib_williams_r lib hist (williams_period cfg) = Inr wr \<and> wr \<noteq> [] \<and> last wr = None
              \<longrightarrow> check_williams_filter lib cfg s d data = Inr True"
      unfolding n_def hist check_williams_filter_def Let_def
      by (auto simp: known split: option.splits)
    from t1 t2 r1 r2 s1 s2 u1 u2 v1 v2 a1 a2 b1 b2 m1 w1 w2 show ?thesis by (intro conjI)
qed

theorem filters_pass_on_insufficient_data_witness:
  "check_multi_timeframe_trend_filter ((default_config [''A''] 0 90 OTM_2PCT HOLD_TO_EXPIRY) \<lparr> trend_filter_mode := ''BEARISH'' \<rparr>) ''A'' 4
     [''A'' \<mapsto> map (\<lambda>i. \<lparr> bar_date = i, bar_open = 100, bar_high = 101, bar_low = 99,
                                bar_close = 100, bar_volume = 1000 \<rparr>) [1..60]]
   \<and> check_multi_timeframe_trend_filter ((default_config [''A''] 0 90 OTM_2PCT HOLD_TO_EXPIRY) \<lparr> trend_filter_mode := ''GOLDEN_CROSS'' \<rparr>) ''A'' 60
     [''A'' \<mapsto> map (\<lambda>i. \<lparr> bar_date = i, bar_open = 100, bar_high = 101, bar_low = 99,
                                bar_close = 100, bar_volume = 1000 \<rparr>) [1..60]]
   \<and> check_rsi_filter 
     \<lparr> lib_rsi = (\<lambda>c n. Inr (map (\<lambda>x. None) c)),
       lib_stochastic = (\<lambda>b k dd sm. Inr (map (\<lambda>x. None) b, map (\<lambda>x. None) b)),
       lib_supertrend = (\<lambda>b n m. Inr (map (\<lambda>x. None) b, map (\<lambda>x. None) b)),
       lib_bollinger_bands = (\<lambda>b n sd. Inr (map (\<lambda>x. None) b, map (\<lambda>x. None) b, map (\<lambda>x. None) b)),
       lib_vwap = (\<lambda>b n. Inr (map (\<lambda>x. None) b)),
       lib_adx = (\<lambda>b n. Inr (map (\<lambda>x. None) b, map (\<lambda>x. None) b, map (\<lambda>x. None) b)),
       lib_williams_r = (\<lambda>b n. Inr (map (\<lambda>x. None) b)) \<rparr>
     (default_config [''A''] 0 90 OTM_2PCT HOLD_TO_EXPIRY) ''A'' 4
     [''A'' \<mapsto> map (\<lambda>i. \<lparr> bar_date = i, bar_open = 100, bar_high = 101, bar_low = 99,
                                bar_close = 100, bar_volume = 1000 \<rparr>) [1..60]] = Inr True
   \<and> check_stochastic_filter 
     \<lparr> lib_rsi = (\<lambda>c n. Inr (map (\<lambda>x. None) c)),
       lib_stochastic = (\<lambda>b k dd sm. Inr (map (\<lambda>x. None) b, map (\<lambda>x. None) b)),
       lib_supertrend = (\<lambda>b n m. Inr (map (\<lambda>x. None) b, map (\<lambda>x. None) b)),
       lib_bollinger_bands = (\<lambda>b n sd. Inr (map (\<lambda>x. None) b, map (\<lambda>x. None) b, map (\<lambda>x. None) b)),
       lib_vwap = (\<lambda>b n. Inr (map (\<lambda>x. None) b)),
       lib_adx = (\<lambda>b n. Inr (map (\<lambda>x. None) b, map (\<lambda>x. None) b, map (\<lambda>x. None) b)),
       lib_williams_r = (\<lambda>b n. Inr (map (\<lambda>x. None) b)) \<rparr>
     (default_config [''A''] 0 90 OTM_2PCT HOLD_TO_EXPIRY) ''A'' 4
     [''A'' \<mapsto> map (\<lambda>i. \<lparr> bar_date = i, bar_open = 100, bar_high = 101, bar_low = 99,
                                bar_close = 100, bar_volume = 1000 \<rparr>) [1..60]] = Inr True
   \<and> check_supertrend_filter 
     \<lparr> lib_rsi = (\<lambda>c n. Inr (map (\<lambda>x. None) c)),
       lib_stochastic = (\<lambda>b k dd sm. Inr (map (\<lambda>x. None) b, map (\<lambda>x. None) b)),
       lib_supertrend = (\<lambda>b n m. Inr (map (\<lambda>x. None) b, map (\<lambda>x. None) b)),
       lib_bollinger_bands = (\<lambda>b n sd. Inr (map (\<lambda>x. None) b, map (\<lambda>x. None) b, map (\<lambda>x. None) b)),
       lib_vwap = (\<lambda>b n. Inr (map (\<lambda>x. None) b)),
       lib_adx = (\<lambda>b n. Inr (map (\<lambda>x. None) b, map (\<lambda>x. None) b, map (\<lambda>x. None) b)),
       lib_williams_r = (\<lambda>b n. Inr (map (\<lambda>x. None) b)) \<rparr>
     (default_config [''A''] 0 90 OTM_2PCT HOLD_TO_EXPIRY) ''A'' 4
     [''A'' \<mapsto> map (\<lambda>i. \<lparr> bar_date = i, bar_open = 100, bar_high = 101, bar_low = 99,
                                bar_close = 100, bar_volume = 1000 \<rparr>) [1..60]] = Inr True
   \<and> check_vwap_filter 
     \<lparr> lib_rsi = (\<lambda>c n. Inr (map (\<lambda>x. None) c)),
       lib_stochastic = (\<lambda>b k dd sm. Inr (map (\<lambda>x. None) b, map (\<lambda>x. None) b)),
       lib_supertrend = (\<lambda>b n m. Inr (map (\<lambda>x. None) b, map (\<lambda>x. None) b)),
       lib_bollinger_bands = (\<lambda>b n sd. Inr (map (\<lambda>x. None) b, map (\<lambda>x. None) b, map (\<lambda>x. None) b)),
       lib_vwap = (\<lambda>b n. Inr (map (\<lambda>x. None) b)),
       lib_adx = (\<lambda>b n. Inr (map (\<lambda>x. None) b, map (\<lambda>x. None) b, map (\<lambda>x. None) b)),
       lib_williams_r = (\<lambda>b n. Inr (map (\<lambda>x. None) b)) \<rparr>
     (default_config [''A''] 0 90 OTM_2PCT HOLD_TO_EXPIRY) ''A'' 4
     [''A'' \<mapsto> map (\<lambda>i. \<lparr> bar_date = i, bar_open = 100, bar_high = 101, bar_low = 99,
                                bar_close = 100, bar_volume = 1000 \<rparr>) [1..60]] = Inr True
   \<and> check_adx_filter 
     \<lparr> lib_rsi = (\<lambda>c n. Inr (map (\<lambda>x. None) c)),
       lib_stochastic = (\<lambda>b k dd sm. Inr (map (\<lambda>x. None) b, map (\<lambda>x. None) b)),
       lib_supertrend = (\<lambda>b n m. Inr (map (\<lambda>x. None) b, map (\<lambda>x. None) b)),
       lib_bollinger_bands = (\<lambda>b n sd. Inr (map (\<lambda>x. None) b, map (\<lambda>x. None) b, map (\<lambda>x. None) b)),
       lib_vwap = (\<lambda>b n. Inr (map (\<lambda>x. None) b)),
       lib_adx = (\<lambda>b n. Inr (map (\<lambda>x. None) b, map (\<lambda>x. None) b, map (\<lambda>x. None) b)),
       lib_williams_r = (\<lambda>b n. Inr (map (\<lambda>x. None) b)) \<rparr>
     (default_config [''A''] 0 90 OTM_2PCT HOLD_TO_EXPIRY) ''A'' 4
     [''A'' \<mapsto> map (\<lambda>i. \<lparr> bar_date = i, bar_open = 100, bar_high = 101, bar_low = 99,
                                bar_close = 100, bar_volume = 1000 \<rparr>) [1..60]] = Inr True
   \<and> check_bollinger_filter 
     \<lparr> lib_rsi = (\<lambda>c n. Inr (map (\<lambda>x. None) c)),
       lib_stochastic = (\<lambda>b k dd sm. Inr (map (\<lambda>x. None) b, map (\<lambda>x. None) b)),
       lib_supertrend = (\<lambda>b n m. Inr (map (\<lambda>x. None) b, map (\<lambda>x. None) b)),
       lib_bollinger_bands = (\<lambda>b n sd. Inr (map (\<lambda>x. None) b, map (\<lambda>x. None) b, map (\<lambda>x. None) b)),
       lib_vwap = (\<lambda>b n. Inr (map (\<lambda>x. None) b)),
       lib_adx = (\<lambda>b n. Inr (map (\<lambda>x. None) b, map (\<lambda>x. None) b, map (\<lambda>x. None) b)),
       lib_williams_r = (\<lambda>b n. Inr (map (\<lambda>x. None) b)) \<rparr>
     (default_config [''A''] 0 90 OTM_2PCT HOLD_TO_EXPIRY) ''A'' 4
     [''A'' \<mapsto> map (\<lambda>i. \<lparr> bar_date = i, bar_open = 100, bar_high = 101, bar_low = 99,
                                bar_close = 100, bar_volume = 1000 \<rparr>) [1..60]] = Inr True
   \<and> check_macd_filter  (default_config [''A''] 0 90 OTM_2PCT HOLD_TO_EXPIRY) ''A'' 4
     [''A'' \<mapsto> map (\<lambda>i. \<lparr> bar_date = i, bar_open = 100, bar_high = 101, bar_low = 99,
                                bar_close = 100, bar_volume = 1000 \<rparr>) [1..60]] = Inr True
   \<and> check_williams_filter 
     \<lparr> lib_rsi = (\<lambda>c n. Inr (map (\<lambda>x. None) c)),
       lib_stochastic = (\<lambda>b k dd sm. Inr (map (\<lambda>x. None) b, map (\<lambda>x. None) b)),
       lib_supertrend = (\<lambda>b n m. Inr (map (\<lambda>x. None) b, map (\<lambda>x. None) b)),
       lib_bollinger_bands = (\<lambda>b n sd. Inr (map (\<lambda>x. None) b, map (\<lambda>x. None) b, map (\<lambda>x. None) b)),
       lib_vwap = (\<lambda>b n. Inr (map (\<lambda>x. None) b)),
       lib_adx = (\<lambda>b n. Inr (map (\<lambda>x. None) b, map (\<lambda>x. None) b, map (\<lambda>x. None) b)),
       lib_williams_r = (\<lambda>b n. Inr (map (\<lambda>x. None) b)) \<rparr>
     (default_config [''A''] 0 90 OTM_2PCT HOLD_TO_EXPIRY) ''A'' 4
     [''A'' \<mapsto> map (\<lambda>i. \<lparr> bar_date = i, bar_open = 100, bar_high = 101, bar_low = 99,
                                bar_close = 100, bar_volume = 1000 \<rparr>) [1..60]] = Inr True
   \<and> check_rsi_filter 
     \<lparr> lib_rsi = (\<lambda>c n. Inr (map (\<lambda>x. None) c)),
       lib_stochastic = (\<lambda>b k dd sm. Inr (map (\<lambda>x. None) b, map (\<lambda>x. None) b)),
       lib_supertrend = (\<lambda>b n m. Inr (map (\<lambda>x. None) b, map (\<lambda>x. None) b)),
       lib_bollinger_bands = (\<lambda>b n sd. Inr (map (\<lambda>x. None) b, map (\<lambda>x. None) b, map (\<lambda>x. None) b)),
       lib_vwap = (\<lambda>b n. Inr (map (\<lambda>x. None) b)),
       lib_adx = (\<lambda>b n. Inr (map (\<lambda>x. None) b, map (\<lambda>x. None) b, map (\<lambda>x. None) b)),
       lib_williams_r = (\<lambda>b n. Inr (map (\<lambda>x. None) b)) \<rparr>
     (default_config [''A''] 0 90 OTM_2PCT HOLD_TO_EXPIRY) ''A'' 60
     [''A'' \<mapsto> map (\<lambda>i. \<lparr> bar_date = i, bar_open = 100, bar_high = 101, bar_low = 99,
                                bar_close = 100, bar_volume = 1000 \<rparr>) [1..60]] = Inr True
   \<and> check_stochastic_filter 
     \<lparr> lib_rsi = (\<lambda>c n. Inr (map (\<lambda>x. None) c)),
       lib_stochastic = (\<lambda>b k dd sm. Inr (map (\<lambda>x. None) b, map (\<lambda>x. None) b)),
       lib_supertrend = (\<lambda>b n m. Inr (map (\<lambda>x. None) b, map (\<lambda>x. None) b)),
       lib_bollinger_bands = (\<lambda>b n sd. Inr (map (\<lambda>x. None) b, map (\<lambda>x. None) b, map (\<lambda>x. None) b)),
       lib_vwap = (\<lambda>b n. Inr (map (\<lambda>x. None) b)),
       lib_adx = (\<lambda>b n. Inr (map (\<lambda>x. None) b, map (\<lambda>x. None) b, map (\<lambda>x. None) b)),
       lib_williams_r = (\<lambda>b n. Inr (map (\<lambda>x. None) b)) \<rparr>
     (default_config [''A''] 0 90 OTM_2PCT HOLD_TO_EXPIRY) ''A'' 60
     [''A'' \<mapsto> map (\<lambda>i. \<lparr> bar_date = i, bar_open = 100, bar_high = 101, bar_low = 99,
                                bar_close = 100, bar_volume = 1000 \<rparr>) [1..60]] = Inr True
   \<and> check_supertrend_filter 
     \<lparr> lib_rsi = (\<lambda>c n. Inr (map (\<lambda>x. None) c)),
       lib_stochastic = (\<lambda>b k dd sm. Inr (map (\<lambda>x. None) b, map (\<lambda>x. None) b)),
       lib_supertrend = (\<lambda>b n m. Inr (map (\<lambda>x. None) b, map (\<lambda>x. None) b)),
       lib_bollinger_bands = (\<lambda>b n sd. Inr (map (\<lambda>x. None) b, map (\<lambda>x. None) b, map (\<lambda>x. None) b)),
       lib_vwap = (\<lambda>b n. Inr (map (\<lambda>x. None) b)),
       lib_adx = (\<lambda>b n. Inr (map (\<lambda>x. None) b, map (\<lambda>x. None) b, map (\<lambda>x. None) b)),
       lib_williams_r = (\<lambda>b n. Inr (map (\<lambda>x. None) b)) \<rparr>
     (default_config [''A''] 0 90 OTM_2PCT HOLD_TO_EXPIRY) ''A'' 60
     [''A'' \<mapsto> map (\<lambda>i. \<lparr> bar_date = i, bar_open = 100, bar_high = 101, bar_low = 99,
                                bar_close = 100, bar_volume = 1000 \<rparr>) [1..60]] = Inr True
   \<and> check_vwap_filter 
     \<lparr> lib_rsi = (\<lambda>c n. Inr (map (\<lambda>x. None) c)),
       lib_stochastic = (\<lambda>b k dd sm. Inr (map (\<lambda>x. None) b, map (\<lambda>x. None) b)),
       lib_supertrend = (\<lambda>b n m. Inr (map (\<lambda>x. None) b, map (\<lambda>x. None) b)),
       lib_bollinger_bands = (\<lambda>b n sd. Inr (map (\<lambda>x. None) b, map (\<lambda>x. None) b, map (\<lambda>x. None) b)),
       lib_vwap = (\<lambda>b n. Inr (map (\<lambda>x. None) b)),
       lib_adx = (\<lambda>b n. Inr (map (\<lambda>x. None) b, map (\<lambda>x. None) b, map (\<lambda>x. None) b)),
       lib_williams_r = (\<lambda>b n. Inr (map (\<lambda>x. None) b)) \<rparr>
     (default_config [''A''] 0 90 OTM_2PCT HOLD_TO_EXPIRY) ''A'' 60
     [''A'' \<mapsto> map (\<lambda>i. \<lparr> bar_date = i, bar_open = 100, bar_high = 101, bar_low = 99,
                                bar_close = 100, bar_volume = 1000 \<rparr>) [1..60]] = Inr True
   \<and> check_adx_filter 
     \<lparr> lib_rsi = (\<lambda>c n. Inr (map (\<lambda>x. None) c)),
       lib_stochastic = (\<lambda>b k dd sm. Inr (map (\<lambda>x. None) b, map (\<lambda>x. None) b)),
       lib_supertrend = (\<lambda>b n m. Inr (map (\<lambda>x. None) b, map (\<lambda>x. None) b)),
       lib_bollinger_bands = (\<lambda>b n sd. Inr (map (\<lambda>x. None) b, map (\<lambda>x. None) b, map (\<lambda>x. None) b)),
       lib_vwap = (\<lambda>b n. Inr (map (\<lambda>x. None) b)),
       lib_adx = (\<lambda>b n. Inr (map (\<lambda>x. None) b, map (\<lambda>x. None) b, map (\<lambda>x. None) b)),
       lib_williams_r = (\<lambda>b n. Inr (map (\<lambda>x. None) b)) \<rparr>
     (default_config [''A''] 0 90 OTM_2PCT HOLD_TO_EXPIRY) ''A'' 60
     [''A'' \<mapsto> map (\<lambda>i. \<lparr> bar_date = i, bar_open = 100, bar_high = 101, bar_low = 99,
                                bar_close = 100, bar_volume = 1000 \<rparr>) [1..60]] = Inr True
   \<and> check_bollinger_filter 
     \<lparr> lib_rsi = (\<lambda>c n. Inr (map (\<lambda>x. None) c)),
       lib_stochastic = (\<lambda>b k dd sm. Inr (map (\<lambda>x. None) b, map (\<lambda>x. None) b)),
       lib_supertrend = (\<lambda>b n m. Inr (map (\<lambda>x. None) b, map (\<lambda>x. None) b)),
       lib_bollinger_bands = (\<lambda>b n sd. Inr (map (\<lambda>x. None) b, map (\<lambda>x. None) b, map (\<lambda>x. None) b)),
       lib_vwap = (\<lambda>b n. Inr (map (\<lambda>x. None) b)),
       lib_adx = (\<lambda>b n. Inr (map (\<lambda>x. None) b, map (\<lambda>x. None) b, map (\<lambda>x. None) b)),
       lib_williams_r = (\<lambda>b n. Inr (map (\<lambda>x. None) b)) \<rparr>
     (default_config [''A''] 0 90 OTM_2PCT HOLD_TO_EXPIRY) ''A'' 60
     [''A'' \<mapsto> map (\<lambda>i. \<lparr> bar_date = i, bar_open = 100, bar_high = 101, bar_low = 99,
                                bar_close = 100, bar_volume = 1000 \<rparr>) [1..60]] = Inr True
   \<and> check_williams_filter 
     \<lparr> lib_rsi = (\<lambda>c n. Inr (map (\<lambda>x. None) c)),
       lib_stochastic = (\<lambda>b k dd sm. Inr (map (\<lambda>x. None) b, map (\<lambda>x. None) b)),
       lib_supertrend = (\<lambda>b n m. Inr (map (\<lambda>x. None) b, map (\<lambda>x. None) b)),
       lib_bollinger_bands = (\<lambda>b n sd. Inr (map (\<lambda>x. None) b, map (\<lambda>x. None) b, map (\<lambda>x. None) b)),
       lib_vwap = (\<lambda>b n. Inr (map (\<lambda>x. None) b)),
       lib_adx = (\<lambda>b n. Inr (map (\<lambda>x. None) b, map (\<lambda>x. None) b, map (\<lambda>x. None) b)),
       lib_williams_r = (\<lambda>b n. Inr (map (\<lambda>x. None) b)) \<rparr>
     (default_config [''A''] 0 90 OTM_2PCT HOLD_TO_EXPIRY) ''A'' 60
     [''A'' \<mapsto> map (\<lambda>i. \<lparr> bar_date = i, bar_open = 100, bar_high = 101, bar_low = 99,
                                bar_close = 100, bar_volume = 1000 \<rparr>) [1..60]] = Inr True"
proof -
  let ?f = "\<lambda>i. \<lparr> bar_date = i, bar_open = 100, bar_high = 101, bar_low = 99,
                    bar_close = 100, bar_volume = 1000 \<rparr>"
  let ?data = "[''A'' \<mapsto> map ?f [1..60]]"
  let ?lib = "\<lparr> lib_rsi = (\<lambda>c n. Inr (map (\<lambda>x. None) c)),
       lib_stochastic = (\<lambda>b k dd sm. Inr (map (\<lambda>x. None) b, map (\<lambda>x. None) b)),
       lib_supertrend = (\<lambda>b n m. Inr (map (\<lambda>x. None) b, map (\<lambda>x. None) b)),
       lib_bollinger_bands = (\<lambda>b n sd. Inr (map (\<lambda>x. None) b, map (\<lambda>x. None) b, map (\<lambda>x. None) b)),
       lib_vwap = (\<lambda>b n. Inr (map (\<lambda>x. None) b)),
       lib_adx = (\<lambda>b n. Inr (map (\<lambda>x. None) b, map (\<lambda>x. None) b, map (\<lambda>x. None) b)),
       lib_williams_r = (\<lambda>b n. Inr (map (\<lambda>x. None) b)) \<rparr>"
  let ?cfg = "(default_config [''A''] 0 90 OTM_2PCT HOLD_TO_EXPIRY)"
  note main = filters_pass_on_insufficient_data
  have split: "[1..60] = [1..4] @ [5..60 :: int]"
    using upto_split2[of 1 4 60] by simp
  have h4: "up_to_date (map ?f [1..60]) 4 = map ?f [1..4]"
    unfolding up_to_date_def split by (simp add: filter_map comp_def) 
  have h60: "up_to_date (map ?f [1..60]) 60 = map ?f [1..60]"
    unfolding up_to_date_def by (simp add: filter_map comp_def)
  have l4: "length (map ?f [1..4]) = 4" by simp
  have l60: "length (map ?f [1..60]) = 60" by simp
  have ne: "map ?f [1..60] \<noteq> []" using l60 by (metis length_0_conv zero_neq_numeral)
  have ne0: "[1..60 :: int] \<noteq> []" by (simp add: upto_rec1)
  note ev = h4 h60 l4 l60 ne ne0 last_map default_config_def
  have t1: "check_multi_timeframe_trend_filter ((default_config [''A''] 0 90 OTM_2PCT HOLD_TO_EXPIRY) \<lparr> trend_filter_mode := ''BEARISH'' \<rparr>) ''A'' 4 ?data"
    using main[where data="?data" and s="''A''" and d=4 and cfg="((default_config [''A''] 0 90 OTM_2PCT HOLD_TO_EXPIRY) \<lparr> trend_filter_mode := ''BEARISH'' \<rparr>)", THEN conjunct1]
    by (simp add: ev)
  have t2: "check_multi_timeframe_trend_filter ((default_config [''A''] 0 90 OTM_2PCT HOLD_TO_EXPIRY) \<lparr> trend_filter_mode := ''GOLDEN_CROSS'' \<rparr>) ''A'' 60 ?data"
    using main[where data="?data" and s="''A''" and d=60 and cfg="((default_config [''A''] 0 90 OTM_2PCT HOLD_TO_EXPIRY) \<lparr> trend_filter_mode := ''GOLDEN_CROSS'' \<rparr>)",
        THEN conjunct2, THEN conjunct1]
    by (simp add: ev)
  have rsi_4: "check_rsi_filter ?lib ?cfg ''A'' 4 ?data = Inr True"
    using main[where data="?data" and s="''A''" and d=4 and cfg="?cfg" and lib="?lib",
        THEN conjunct2, THEN conjunct2, THEN conjunct1]
    by (simp add: ev)
  have stochastic_4: "check_stochastic_filter ?lib ?cfg ''A'' 4 ?data = Inr True"
    using main[where data="?data" and s="''A''" and d=4 and cfg="?cfg" and lib="?lib",
        THEN conjunct2, THEN conjunct2, THEN conjunct2, THEN conjunct2, THEN conjunct1]
    by (simp add: ev)
  have supertrend_4: "check_supertrend_filter ?lib ?cfg ''A'' 4 ?data = Inr True"
    using main[where data="?data" and s="''A''" and d=4 and cfg="?cfg" and lib="?lib",
        THEN conjunct2, THEN conjunct2, THEN conjunct2, THEN conjunct2, THEN conjunct2, THEN conjunct2, THEN conjunct1]
    by (simp add: ev)
  have vwap_4: "check_vwap_filter ?lib ?cfg ''A'' 4 ?data = Inr True"
    using main[where data="?data" and s="''A''" and d=4 and cfg="?cfg" and lib="?lib",
        THEN conjunct2, THEN conjunct2, THEN conjunct2, THEN conjunct2, THEN conjunct2, THEN conjunct2, THEN conjunct2, THEN conjunct2, THEN conjunct1]
    by (simp add: ev)
  have adx_4: "check_adx_filter ?lib ?cfg ''A'' 4 ?data = Inr True"
    using main[where data="?data" and s="''A''" and d=4 and cfg="?cfg" and lib="?lib",
        THEN conjunct2, THEN conjunct2, THEN conjunct2, THEN conjunct2, THEN conjunct2, THEN conjunct2, THEN conjunct2, THEN conjunct2, THEN conjunct2, THEN conjunct2, THEN conjunct1]
    by (simp add: ev)
  have bollinger_4: "check_bollinger_filter ?lib ?cfg ''A'' 4 ?data = Inr True"
    using main[where data="?data" and s="''A''" and d=4 and cfg="?cfg" and lib="?lib",
        THEN conjunct2, THEN conjunct2, THEN conjunct2, THEN conjunct2, THEN conjunct2, THEN conjunct2, THEN conjunct2, THEN conjunct2, THEN conjunct2, THEN conjunct2, THEN conjunct2, THEN conjunct2, THEN conjunct1]
    by (simp add: ev)
  have macd_4: "check_macd_filter ?cfg ''A'' 4 ?data = Inr True"
    using main[where data="?data" and s="''A''" and d=4 and cfg="?cfg",
        THEN conjunct2, THEN conjunct2, THEN conjunct2, THEN conjunct2, THEN conjunct2, THEN conjunct2, THEN conjunct2, THEN conjunct2, THEN conjunct2, THEN conjunct2, THEN conjunct2, THEN conjunct2, THEN conjunct2, THEN conjunct2, THEN conjunct1]
    by (simp add: ev)
  have williams_4: "check_williams_filter ?lib ?cfg ''A'' 4 ?data = Inr True"
    using main[where data="?data" and s="''A''" and d=4 and cfg="?cfg" and lib="?lib",
        THEN conjunct2, THEN conjunct2, THEN conjunct2, THEN conjunct2, THEN conjunct2, THEN conjunct2, THEN conjunct2, THEN conjunct2, THEN conjunct2, THEN conjunct2, THEN conjunct2, THEN conjunct2, THEN conjunct2, THEN conjunct2, THEN conjunct2, THEN conjunct1]
    by (simp add: ev)
  have rsi_60: "check_rsi_filter ?lib ?cfg ''A'' 60 ?data = Inr True"
    using main[where data="?data" and s="''A''" and d=60 and cfg="?cfg" and lib="?lib" and rsi="map (\<lambda>x. None) (map bar_close (map ?f [1..60]))",
        THEN conjunct2, THEN conjunct2, THEN conjunct2, THEN conjunct1]
    by (simp add: ev)
  have stochastic_60: "check_stochastic_filter ?lib ?cfg ''A'' 60 ?data = Inr True"
    using main[where data="?data" and s="''A''" and d=60 and cfg="?cfg" and lib="?lib" and slow_k="map (\<lambda>x. None) (map ?f [1..60])" and slow_d="map (\<lambda>x. None) (map ?f [1..60])",
        THEN conjunct2, THEN conjunct2, THEN conjunct2, THEN conjunct2, THEN conjunct2, THEN conjunct1]
    by (simp add: ev)
  have supertrend_60: "check_supertrend_filter ?lib ?cfg ''A'' 60 ?data = Inr True"
    using main[where data="?data" and s="''A''" and d=60 and cfg="?cfg" and lib="?lib" and st="map (\<lambda>x. None) (map ?f [1..60])" and tr="map (\<lambda>x. None) (map ?f [1..60])",
        THEN conjunct2, THEN conjunct2, THEN conjunct2, THEN conjunct2, THEN conjunct2, THEN conjunct2, THEN conjunct2, THEN conjunct1]
    by (simp add: ev)
  have vwap_60: "check_vwap_filter ?lib ?cfg ''A'' 60 ?data = Inr True"
    using main[where data="?data" and s="''A''" and d=60 and cfg="?cfg" and lib="?lib" and vwap="map (\<lambda>x. None) (map ?f [1..60])",
        THEN conjunct2, THEN conjunct2, THEN conjunct2, THEN conjunct2, THEN conjunct2, THEN conjunct2, THEN conjunct2, THEN conjunct2, THEN conjunct2, THEN conjunct1]
    by (simp add: ev)
  have adx_60: "check_adx_filter ?lib ?cfg ''A'' 60 ?data = Inr True"
    using main[where data="?data" and s="''A''" and d=60 and cfg="?cfg" and lib="?lib" and adx="map (\<lambda>x. None) (map ?f [1..60])" and plus_di="map (\<lambda>x. None) (map ?f [1..60])" and minus_di="map (\<lambda>x. None) (map ?f [1..60])",
        THEN conjunct2, THEN conjunct2, THEN conjunct2, THEN conjunct2, THEN conjunct2, THEN conjunct2, THEN conjunct2, THEN conjunct2, THEN conjunct2, THEN conjunct2, THEN conjunct2, THEN conjunct1]
    by (simp add: ev)
  have bollinger_60: "check_bollinger_filter ?lib ?cfg ''A'' 60 ?data = Inr True"
    using main[where data="?data" and s="''A''" and d=60 and cfg="?cfg" and lib="?lib" and upper_band="map (\<lambda>x. None) (map ?f [1..60])" and middle_band="map (\<lambda>x. None) (map ?f [1..60])" and lower_band="map (\<lambda>x. None) (map ?f [1..60])",
        THEN conjunct2, THEN conjunct2, THEN conjunct2, THEN conjunct2, THEN conjunct2, THEN conjunct2, THEN conjunct2, THEN conjunct2, THEN conjunct2, THEN conjunct2, THEN conjunct2, THEN conjunct2, THEN conjunct2, THEN conjunct1]
    by (simp add: ev)
  have williams_60: "check_williams_filter ?lib ?cfg ''A'' 60 ?data = Inr True"
    using main[where data="?data" and s="''A''" and d=60 and cfg="?cfg" and lib="?lib" and wr="map (\<lambda>x. None) (map ?f [1..60])",
        THEN conjunct2, THEN conjunct2, THEN conjunct2, THEN conjunct2, THEN conjunct2, THEN conjunct2, THEN conjunct2, THEN conjunct2, THEN conjunct2, THEN conjunct2, THEN conjunct2, THEN conjunct2, THEN conjunct2, THEN conjunct2, THEN conjunct2, THEN conjunct2]
    by (simp add: ev)
  from t1 t2 rsi_4 stochastic_4 supertrend_4 vwap_4 adx_4 bollinger_4 macd_4 williams_4 rsi_60 stochastic_60 supertrend_60 vwap_60 adx_60 bollinger_60 williams_60 show ?thesis by (intro conjI)
qed


end
